theory Spec2Isabelle
  imports Main "HOL-Library.AList"
begin

section \<open>Python values used by \<open>tools/bench/bench_report.py\<close>\<close>

text \<open>
  A Python \<open>str\<close> is a sequence of code points. The model uses \<^typ>\<open>string\<close>, whose
  characters are the code points 0 to 255: this range holds everything the script tests
  for (ASCII, the white space of \<open>str.strip\<close>, and the bullet U+00B7 of the script
  benchmark log). Every operation that can raise in Python returns a sum, with the
  exception on the left.
\<close>

datatype pyerr = IndexError | KeyError | TypeError | ValueError | AttributeError | OverflowError

text \<open>
  White space as \<open>str.strip\<close>, \<open>str.split\<close> and the regular expression class
  \<open>\s\<close> see it on a \<open>str\<close>: TAB, LF, VT, FF, CR, the separators FS, GS, RS, US, the
  space, NEL (U+0085) and the no-break space (U+00A0).
\<close>

definition isspace :: "char \<Rightarrow> bool" where
  "isspace c \<longleftrightarrow> c \<in> set [CHR 0x09, CHR 0x0A, CHR 0x0B, CHR 0x0C, CHR 0x0D,
     CHR 0x1C, CHR 0x1D, CHR 0x1E, CHR 0x1F, CHR '' '', CHR 0x85, CHR 0xA0]"

text \<open>The class \<open>\d\<close> (decimal digits; below U+0100 these are the ASCII digits).\<close>

definition isdecimal :: "char \<Rightarrow> bool" where
  "isdecimal c \<longleftrightarrow> c \<in> set ''0123456789''"

text \<open>The class \<open>[0-9.]\<close>.\<close>

definition isnumchar :: "char \<Rightarrow> bool" where
  "isnumchar c \<longleftrightarrow> c \<in> set ''0123456789.''"

text \<open>\<open>s.strip()\<close>\<close>

definition strip :: "string \<Rightarrow> string" where
  "strip s = rev (dropWhile isspace (rev (dropWhile isspace s)))"

text \<open>
  \<open>s.split()\<close>: the maximal runs of characters that are not white space, in order.
  \<open>split_from cur s\<close> carries the run read so far.
\<close>

fun split_from :: "string \<Rightarrow> string \<Rightarrow> string list" where
  "split_from cur [] = (if cur = [] then [] else [cur])"
| "split_from cur (c # cs) =
     (if isspace c then (if cur = [] then split_from [] cs else cur # split_from [] cs)
      else split_from (cur @ [c]) cs)"

definition split :: "string \<Rightarrow> string list" where
  "split s = split_from [] s"

text \<open>\<open>s.startswith(p)\<close>, \<open>s.endswith(p)\<close> and \<open>p in s\<close>\<close>

definition startswith :: "string \<Rightarrow> string \<Rightarrow> bool" where
  "startswith s p \<longleftrightarrow> take (length p) s = p"

definition endswith :: "string \<Rightarrow> string \<Rightarrow> bool" where
  "endswith s p \<longleftrightarrow> startswith (rev s) (rev p)"

fun contains :: "string \<Rightarrow> string \<Rightarrow> bool" where
  "contains p [] \<longleftrightarrow> p = []"
| "contains p (c # cs) \<longleftrightarrow> startswith (c # cs) p \<or> contains p cs"

text \<open>\<open>xs[i]\<close> for an index that is not negative\<close>

definition getitem :: "'a list \<Rightarrow> nat \<Rightarrow> pyerr + 'a" where
  "getitem xs i = (if i < length xs then Inr (xs ! i) else Inl IndexError)"

text \<open>\<open>sep.join(xs)\<close>\<close>

fun join :: "string \<Rightarrow> string list \<Rightarrow> string" where
  "join sep [] = []"
| "join sep [x] = x"
| "join sep (x # y # ys) = x @ sep @ join sep (y # ys)"

text \<open>
  What iterating over a text file yields: with universal newlines, CR LF and a lone CR
  are read as LF, and each line runs up to and including its LF; the last line is the
  rest of the text when it is not empty.
\<close>

fun universal_newlines :: "string \<Rightarrow> string" where
  "universal_newlines [] = []"
| "universal_newlines [c] = (if c = CHR 0x0D then [CHR 0x0A] else [c])"
| "universal_newlines (c # d # cs) =
     (if c = CHR 0x0D \<and> d = CHR 0x0A then CHR 0x0A # universal_newlines cs
      else if c = CHR 0x0D then CHR 0x0A # universal_newlines (d # cs)
      else c # universal_newlines (d # cs))"

fun lines_from :: "string \<Rightarrow> string \<Rightarrow> string list" where
  "lines_from cur [] = (if cur = [] then [] else [cur])"
| "lines_from cur (c # cs) =
     (if c = CHR 0x0A then (cur @ [c]) # lines_from [] cs else lines_from (cur @ [c]) cs)"

definition file_lines :: "string \<Rightarrow> string list" where
  "file_lines text = lines_from [] (universal_newlines text)"

section \<open>The native benchmark parser: \<open>parse_go\<close>\<close>

text \<open>
  The pattern
  \<^verbatim>\<open>^(Benchmark\S+)\s+\d+\s+([0-9.]+) ns/op\s+([0-9.]+) B/op\s+(\d+) allocs/op$\<close>
  is built from literals and from repetitions \<open>C+\<close> of a character class. Each
  repetition is followed by something that must start with a character outside its
  class, so a match, when there is one, gives each repetition the longest run of its
  class: \<open>re_plus\<close>. \<open>re_end\<close> is \<open>$\<close>: the end of the string, or a line feed that
  ends it.
\<close>

definition re_plus :: "(char \<Rightarrow> bool) \<Rightarrow> string \<Rightarrow> (string \<times> string) option" where
  "re_plus P s = (if takeWhile P s = [] then None else Some (takeWhile P s, dropWhile P s))"

definition re_lit :: "string \<Rightarrow> string \<Rightarrow> string option" where
  "re_lit p s = (if startswith s p then Some (drop (length p) s) else None)"

definition re_end :: "string \<Rightarrow> bool" where
  "re_end s \<longleftrightarrow> s = [] \<or> s = [CHR 0x0A]"

definition bench_re_match :: "string \<Rightarrow> (string \<times> string \<times> string \<times> string) option" where
  "bench_re_match line =
     Option.bind (re_lit ''Benchmark'' line) (\<lambda>r0.
     Option.bind (re_plus (\<lambda>c. \<not> isspace c) r0) (\<lambda>(nm, r1).
     Option.bind (re_plus isspace r1) (\<lambda>(ws1, r2).
     Option.bind (re_plus isdecimal r2) (\<lambda>(iters, r3).
     Option.bind (re_plus isspace r3) (\<lambda>(ws2, r4).
     Option.bind (re_plus isnumchar r4) (\<lambda>(ns, r5).
     Option.bind (re_lit '' ns/op'' r5) (\<lambda>r6.
     Option.bind (re_plus isspace r6) (\<lambda>(ws3, r7).
     Option.bind (re_plus isnumchar r7) (\<lambda>(b, r8).
     Option.bind (re_lit '' B/op'' r8) (\<lambda>r9.
     Option.bind (re_plus isspace r9) (\<lambda>(ws4, r10).
     Option.bind (re_plus isdecimal r10) (\<lambda>(al, r11).
     Option.bind (re_lit '' allocs/op'' r11) (\<lambda>r12.
     if re_end r12 then Some (''Benchmark'' @ nm, ns, b, al) else None)))))))))))))"

record go_item =
  name :: string
  ns_op :: string
  b_op :: string
  allocs :: string

text \<open>
  The dictionary \<open>out\<close> is an association list: its keys, in insertion order, with the
  list each one holds. \<open>out[k].append(item)\<close> looks the key up (KeyError when it is
  absent) and extends the list it holds.
\<close>

type_synonym 'a group = "(string \<times> 'a list) list"

definition append_to :: "string \<Rightarrow> 'a \<Rightarrow> 'a group \<Rightarrow> pyerr + 'a group" where
  "append_to k item d =
     (case map_of d k of
        None \<Rightarrow> Inl KeyError
      | Some xs \<Rightarrow> Inr (AList.update k (xs @ [item]) d))"

record go_state =
  pkg :: string
  out :: "go_item group"

text \<open>One iteration of the loop of \<open>parse_go\<close>, on the line as the file yields it.\<close>

definition go_step :: "go_state \<Rightarrow> string \<Rightarrow> pyerr + go_state" where
  "go_step s raw =
     (let line = strip raw in
      if startswith line ''pkg:'' then
        (let parts = split line in
         if length parts \<ge> 2 then
           (case getitem parts 1 of Inl e \<Rightarrow> Inl e | Inr p \<Rightarrow> Inr (s\<lparr>pkg := p\<rparr>))
         else Inr s)
      else
        (case bench_re_match line of
           None \<Rightarrow> Inr s
         | Some (nm, ns, b, al) \<Rightarrow>
             (let item = \<lparr>name = nm, ns_op = ns, b_op = b, allocs = al\<rparr> in
              if endswith (pkg s) ''/crypto/e2ee'' then
                (case append_to ''e2ee'' item (out s) of
                   Inl e \<Rightarrow> Inl e | Inr d \<Rightarrow> Inr (s\<lparr>out := d\<rparr>))
              else if endswith (pkg s) ''/tunnel/server'' then
                (case append_to ''tunnel'' item (out s) of
                   Inl e \<Rightarrow> Inl e | Inr d \<Rightarrow> Inr (s\<lparr>out := d\<rparr>))
              else Inr s)))"

fun go_loop :: "go_state \<Rightarrow> string list \<Rightarrow> pyerr + go_state" where
  "go_loop s [] = Inr s"
| "go_loop s (l # ls) = (case go_step s l of Inl e \<Rightarrow> Inl e | Inr s' \<Rightarrow> go_loop s' ls)"

definition go_init :: go_state where
  "go_init = \<lparr>pkg = [], out = [(''e2ee'', []), (''tunnel'', [])]\<rparr>"

definition parse_go_lines :: "string list \<Rightarrow> pyerr + go_item group" where
  "parse_go_lines ls = (case go_loop go_init ls of Inl e \<Rightarrow> Inl e | Inr s \<Rightarrow> Inr (out s))"

definition parse_go :: "string \<Rightarrow> pyerr + go_item group" where
  "parse_go text = parse_go_lines (file_lines text)"

section \<open>The script benchmark parser: \<open>parse_ts\<close>\<close>

text \<open>The bullet U+00B7 that starts a row, and \<open>line.replace(bullet, "")\<close>.\<close>

definition bullet :: char where
  "bullet = CHR 0xB7"

definition remove_bullets :: "string \<Rightarrow> string" where
  "remove_bullets s = filter (\<lambda>c. c \<noteq> bullet) s"

record ts_item =
  name :: string
  hz :: string
  mean_ms :: string

record ts_state =
  cur_section :: "string option"
  out :: "ts_item group"

text \<open>
  One iteration of the loop of \<open>parse_ts\<close>; \<open>cur_section\<close> is the variable
  \<open>section\<close>. The three marker tests read the line as the file yields it, before
  \<open>strip\<close>.
\<close>

definition ts_step :: "ts_state \<Rightarrow> string \<Rightarrow> pyerr + ts_state" where
  "ts_step s raw =
     (if contains ''> e2ee handshake'' raw then Inr (s\<lparr>cur_section := Some ''handshake''\<rparr>)
      else if contains ''> e2ee record'' raw then Inr (s\<lparr>cur_section := Some ''record''\<rparr>)
      else if contains ''> yamux'' raw then Inr (s\<lparr>cur_section := Some ''yamux''\<rparr>)
      else
        (let line = strip raw in
         if \<not> startswith line [bullet] \<or> cur_section s = None then Inr s
         else
           (let parts = split (remove_bullets line) in
            if length parts < 5 then Inr s
            else
              (case getitem parts 0 of Inl e \<Rightarrow> Inl e | Inr nm \<Rightarrow>
               case getitem parts 1 of Inl e \<Rightarrow> Inl e | Inr h \<Rightarrow>
               case getitem parts 4 of Inl e \<Rightarrow> Inl e | Inr mean \<Rightarrow>
               case append_to (the (cur_section s)) \<lparr>name = nm, hz = h, mean_ms = mean\<rparr>
                      (ts_state.out s) of
                 Inl e \<Rightarrow> Inl e
               | Inr d \<Rightarrow> Inr (s\<lparr>ts_state.out := d\<rparr>)))))"

fun ts_loop :: "ts_state \<Rightarrow> string list \<Rightarrow> pyerr + ts_state" where
  "ts_loop s [] = Inr s"
| "ts_loop s (l # ls) = (case ts_step s l of Inl e \<Rightarrow> Inl e | Inr s' \<Rightarrow> ts_loop s' ls)"

definition ts_init :: ts_state where
  "ts_init = \<lparr>cur_section = None, out = [(''handshake'', []), (''record'', []), (''yamux'', [])]\<rparr>"

definition parse_ts_lines :: "string list \<Rightarrow> pyerr + ts_item group" where
  "parse_ts_lines ls =
     (case ts_loop ts_init ls of Inl e \<Rightarrow> Inl e | Inr s \<Rightarrow> Inr (ts_state.out s))"

definition parse_ts :: "string \<Rightarrow> pyerr + ts_item group" where
  "parse_ts text = parse_ts_lines (file_lines text)"

section \<open>The report: \<open>fmt_int\<close>, \<open>fmt_float\<close> and \<open>main\<close>\<close>

subsection \<open>Sequencing of steps that can raise\<close>

text \<open>\<open>step m f\<close> runs \<open>f\<close> on the value of \<open>m\<close>, unless \<open>m\<close> raised.\<close>

definition step :: "pyerr + 'a \<Rightarrow> ('a \<Rightarrow> pyerr + 'b) \<Rightarrow> pyerr + 'b" where
  "step m f = (case m of Inl e \<Rightarrow> Inl e | Inr x \<Rightarrow> f x)"

text \<open>\<open>d[k]\<close> on one of the two groups.\<close>

definition lookup :: "'a group \<Rightarrow> string \<Rightarrow> pyerr + 'a list" where
  "lookup d k = (case map_of d k of None \<Rightarrow> Inl KeyError | Some xs \<Rightarrow> Inr xs)"

subsection \<open>Numbers\<close>

text \<open>
  A Python \<open>float\<close> is a double: \<open>Finite neg m e\<close> is the number \<open>m * 2 ^ e\<close>, negative
  when \<open>neg\<close> holds (so that the two zeros differ); the other values are the two
  infinities and NaN. What \<open>json.load\<close> returns is a \<open>json\<close>: \<open>None\<close>, a \<open>bool\<close>, an
  \<open>int\<close> of any size, a \<open>float\<close>, a \<open>str\<close>, a \<open>list\<close>, or a \<open>dict\<close> with its items in
  order (a key is looked up from the front).
\<close>

datatype pyfloat = Finite bool nat int | Infinity bool | NaN

datatype json =
  JNull | JBool bool | JInt int | JFloat pyfloat | JStr string
  | JList "json list" | JDict "(string \<times> json) list"

text \<open>
  The parts of Python this model does not define are parameters of it: \<open>int(s)\<close> and
  \<open>float(s)\<close> of a string (\<open>float(s)\<close> only when \<open>s\<close> is not a plain run of digits),
  \<open>str(v)\<close> of a float, a list or a dict, and the text of the current date that
  \<open>strftime("%c")\<close> gives.
\<close>

record builtins =
  int_of_str :: "string \<Rightarrow> pyerr + int"
  float_of_str :: "string \<Rightarrow> pyerr + pyfloat"
  repr_of :: "json \<Rightarrow> string"
  now_c :: string

text \<open>
  \<open>str(n)\<close> of an integer. (An interpreter that limits the digits of a conversion
  between \<open>int\<close> and \<open>str\<close> applies the limit in \<open>json.load\<close> already, so an \<open>int\<close>
  of the document is always one that \<open>str\<close> and \<open>format\<close> accept.)
\<close>

function decimal :: "nat \<Rightarrow> string" where
  "decimal n =
     (if n < 10 then [''0123456789'' ! n]
      else decimal (n div 10) @ [''0123456789'' ! (n mod 10)])"
  by pat_completeness auto
termination
  by (relation "measure id") auto

declare decimal.simps [simp del]

definition str_int :: "int \<Rightarrow> string" where
  "str_int i = (if i < 0 then ''-'' @ decimal (nat (- i)) else decimal (nat i))"

text \<open>\<open>s.zfill(w)\<close> for a string of digits: zeros on the left up to the width \<open>w\<close>.\<close>

definition zfill :: "nat \<Rightarrow> string \<Rightarrow> string" where
  "zfill w s = replicate (w - length s) (CHR ''0'') @ s"

text \<open>
  \<open>format(i, ",")\<close>: the digits in groups of three from the right, a comma between two
  groups, the sign in front.
\<close>

function group3 :: "nat \<Rightarrow> string" where
  "group3 n =
     (if n < 1000 then decimal n
      else group3 (n div 1000) @ '','' @ zfill 3 (decimal (n mod 1000)))"
  by pat_completeness auto
termination
  by (relation "measure id") auto

declare group3.simps [simp del]

definition format_comma :: "int \<Rightarrow> string" where
  "format_comma i = (if i < 0 then ''-'' @ group3 (nat (- i)) else group3 (nat i))"

text \<open>
  \<open>int(v)\<close>: an \<open>int\<close> is itself, a \<open>bool\<close> is 0 or 1, a \<open>float\<close> is cut towards zero
  (an infinity raises OverflowError, NaN raises ValueError), a \<open>str\<close> is read, and
  \<open>None\<close>, a list and a dict raise TypeError.
\<close>

definition py_int :: "builtins \<Rightarrow> json \<Rightarrow> pyerr + int" where
  "py_int py v =
     (case v of
        JInt i \<Rightarrow> Inr i
      | JBool b \<Rightarrow> Inr (if b then 1 else 0)
      | JFloat (Finite neg m e) \<Rightarrow>
          (let a = (if 0 \<le> e then int m * 2 ^ nat e else int m div 2 ^ nat (- e))
           in Inr (if neg then - a else a))
      | JFloat (Infinity neg) \<Rightarrow> Inl OverflowError
      | JFloat NaN \<Rightarrow> Inl ValueError
      | JStr s \<Rightarrow> int_of_str py s
      | _ \<Rightarrow> Inl TypeError)"

definition fmt_int :: "builtins \<Rightarrow> json \<Rightarrow> pyerr + string" where
  "fmt_int py v = step (py_int py v) (\<lambda>i. Inr (format_comma i))"

text \<open>
  The double nearest to a natural number \<open>a\<close>, ties to the even mantissa, as a mantissa
  of at most 53 bits and an exponent; \<open>None\<close> when the nearest value of that form is
  \<open>2 ^ 1024\<close> or more, which no double holds.
\<close>

function bit_length :: "nat \<Rightarrow> nat" where
  "bit_length n = (if n = 0 then 0 else Suc (bit_length (n div 2)))"
  by pat_completeness auto
termination
  by (relation "measure id") auto

declare bit_length.simps [simp del]

definition nearest_double :: "nat \<Rightarrow> (nat \<times> nat) option" where
  "nearest_double a =
     (if a < 2 ^ 53 then Some (a, 0)
      else
        (let sh = bit_length a - 53; q = a div 2 ^ sh; r = a mod 2 ^ sh;
             q' = (if 2 * r > 2 ^ sh \<or> (2 * r = 2 ^ sh \<and> odd q) then q + 1 else q)
         in if q' * 2 ^ sh \<ge> 2 ^ 1024 then None else Some (q', sh)))"

text \<open>
  \<open>float(i)\<close> of an \<open>int\<close> raises OverflowError beyond the doubles; \<open>float(s)\<close> of a
  string of digits gives the infinity there.
\<close>

definition float_of_int :: "int \<Rightarrow> pyerr + pyfloat" where
  "float_of_int i =
     (case nearest_double (nat \<bar>i\<bar>) of
        None \<Rightarrow> Inl OverflowError
      | Some (m, e) \<Rightarrow> Inr (Finite (i < 0) m (int e)))"

definition digits_value :: "string \<Rightarrow> nat" where
  "digits_value s = foldl (\<lambda>a c. 10 * a + (of_char c - 48)) 0 s"

definition float_of_string :: "builtins \<Rightarrow> string \<Rightarrow> pyerr + pyfloat" where
  "float_of_string py s =
     (if s \<noteq> [] \<and> list_all isdecimal s then
        (case nearest_double (digits_value s) of
           None \<Rightarrow> Inr (Infinity False)
         | Some (m, e) \<Rightarrow> Inr (Finite False m (int e)))
      else float_of_str py s)"

definition py_float :: "builtins \<Rightarrow> json \<Rightarrow> pyerr + pyfloat" where
  "py_float py v =
     (case v of
        JInt i \<Rightarrow> float_of_int i
      | JBool b \<Rightarrow> Inr (Finite False (if b then 1 else 0) 0)
      | JFloat x \<Rightarrow> Inr x
      | JStr s \<Rightarrow> float_of_string py s
      | _ \<Rightarrow> Inl TypeError)"

text \<open>
  \<open>format(x, ".pf")\<close>: the decimal with \<open>p\<close> places nearest to the exact value of the
  double, ties to the even last digit; the sign is printed for every negative double,
  the negative zero too. \<open>scaled_round m e p\<close> is \<open>m * 2 ^ e * 10 ^ p\<close> rounded to an
  integer in that way.
\<close>

definition scaled_round :: "nat \<Rightarrow> int \<Rightarrow> nat \<Rightarrow> nat" where
  "scaled_round m e p =
     (if 0 \<le> e then m * 2 ^ nat e * 10 ^ p
      else
        (let d = 2 ^ nat (- e); q = (m * 10 ^ p) div d; r = (m * 10 ^ p) mod d
         in if 2 * r > d \<or> (2 * r = d \<and> odd q) then q + 1 else q))"

definition format_fixed :: "pyfloat \<Rightarrow> nat \<Rightarrow> string" where
  "format_fixed x p =
     (case x of
        Finite neg m e \<Rightarrow>
          (let n = scaled_round m e p in
           (if neg then ''-'' else []) @ decimal (n div 10 ^ p) @
           (if p = 0 then [] else ''.'' @ zfill p (decimal (n mod 10 ^ p))))
      | Infinity neg \<Rightarrow> (if neg then ''-inf'' else ''inf'')
      | NaN \<Rightarrow> ''nan'')"

definition fmt_float :: "builtins \<Rightarrow> json \<Rightarrow> nat \<Rightarrow> pyerr + string" where
  "fmt_float py v places = step (py_float py v) (\<lambda>x. Inr (format_fixed x places))"

text \<open>\<open>str(v)\<close>, which is what \<open>{v}\<close> puts in an f-string.\<close>

definition py_str :: "builtins \<Rightarrow> json \<Rightarrow> string" where
  "py_str py v =
     (case v of
        JNull \<Rightarrow> ''None''
      | JBool b \<Rightarrow> (if b then ''True'' else ''False'')
      | JInt i \<Rightarrow> str_int i
      | JStr s \<Rightarrow> s
      | _ \<Rightarrow> repr_of py v)"

subsection \<open>Lookups in the load generator's document\<close>

text \<open>
  \<open>d.get(k, default)\<close>: only a dict has \<open>get\<close>. \<open>k in d\<close> for a string \<open>k\<close>: a key of
  a dict, an element of a list, a substring of a string; the other values are not
  iterable. \<open>d[k]\<close> for a string \<open>k\<close>: only a dict takes a string as index.
\<close>

definition get_or :: "json \<Rightarrow> string \<Rightarrow> json \<Rightarrow> pyerr + json" where
  "get_or d k dflt =
     (case d of
        JDict kvs \<Rightarrow> Inr (case map_of kvs k of None \<Rightarrow> dflt | Some v \<Rightarrow> v)
      | _ \<Rightarrow> Inl AttributeError)"

definition py_in :: "string \<Rightarrow> json \<Rightarrow> pyerr + bool" where
  "py_in k d =
     (case d of
        JDict kvs \<Rightarrow> Inr (map_of kvs k \<noteq> None)
      | JList xs \<Rightarrow> Inr (JStr k \<in> set xs)
      | JStr s \<Rightarrow> Inr (contains k s)
      | _ \<Rightarrow> Inl TypeError)"

definition subscript :: "json \<Rightarrow> string \<Rightarrow> pyerr + json" where
  "subscript d k =
     (case d of
        JDict kvs \<Rightarrow> (case map_of kvs k of None \<Rightarrow> Inl KeyError | Some v \<Rightarrow> Inr v)
      | _ \<Rightarrow> Inl TypeError)"

subsection \<open>The tables\<close>

text \<open>The rows of the five benchmark tables (lines 114 to 134).\<close>

definition go_row :: "go_item \<Rightarrow> string" where
  "go_row r =
     ''| '' @ go_item.name r @ '' | '' @ ns_op r @ '' | '' @ b_op r @ '' | '' @ allocs r @ '' |''"

definition ts_line :: "ts_item \<Rightarrow> string" where
  "ts_line r = ''| '' @ ts_item.name r @ '' | '' @ hz r @ '' | '' @ mean_ms r @ '' |''"

definition go_table :: "go_item group \<Rightarrow> string \<Rightarrow> pyerr + string" where
  "go_table go_bench k = step (lookup go_bench k) (\<lambda>rs. Inr (join ''\<newline>'' (map go_row rs)))"

definition ts_table :: "ts_item group \<Rightarrow> string \<Rightarrow> pyerr + string" where
  "ts_table ts_bench k = step (lookup ts_bench k) (\<lambda>rs. Inr (join ''\<newline>'' (map ts_line rs)))"

text \<open>One row of the latency table, for one stage (lines 143 to 154).\<close>

definition latency_row :: "builtins \<Rightarrow> json \<Rightarrow> string \<Rightarrow> pyerr + string" where
  "latency_row py latency stage =
     step (get_or latency stage (JDict [])) (\<lambda>item.
     step (step (get_or item ''p50_ms'' (JInt 0)) (\<lambda>v. fmt_float py v 6)) (\<lambda>p50.
     step (step (get_or item ''p95_ms'' (JInt 0)) (\<lambda>v. fmt_float py v 6)) (\<lambda>p95.
     step (step (get_or item ''p99_ms'' (JInt 0)) (\<lambda>v. fmt_float py v 6)) (\<lambda>p99.
     step (step (get_or item ''mean_ms'' (JInt 0)) (\<lambda>v. fmt_float py v 6)) (\<lambda>mean.
     step (step (get_or item ''min_ms'' (JInt 0)) (\<lambda>v. fmt_float py v 6)) (\<lambda>mn.
     step (step (get_or item ''max_ms'' (JInt 0)) (\<lambda>v. fmt_float py v 6)) (\<lambda>mx.
     Inr (''| '' @ stage @ '' | '' @ p50 @ '' | '' @ p95 @ '' | '' @ p99 @ '' | '' @ mean
            @ '' | '' @ mn @ '' | '' @ mx @ '' |''))))))))"

text \<open>A loop that collects one result for each element, and stops at the first raise.\<close>

fun for_each :: "('a \<Rightarrow> pyerr + 'b) \<Rightarrow> 'a list \<Rightarrow> pyerr + 'b list" where
  "for_each f [] = Inr []"
| "for_each f (x # xs) = step (f x) (\<lambda>y. step (for_each f xs) (\<lambda>ys. Inr (y # ys)))"

definition stages :: "string list" where
  "stages = [''ws_open'', ''attach_send'', ''pair_ready'', ''handshake'', ''rpc_call'']"

definition latency_table :: "builtins \<Rightarrow> json \<Rightarrow> pyerr + string" where
  "latency_table py latency =
     step (for_each (latency_row py latency) stages) (\<lambda>rows. Inr (join ''\<newline>'' rows))"

definition config_order :: "string list" where
  "config_order = [''mode'', ''channels'', ''rate_per_sec'', ''ramp_step'', ''ramp_interval_ms'',
     ''steady_duration_ms'', ''workers'', ''conn_timeout_ms'', ''rpc_timeout_ms'',
     ''report_interval_ms'', ''max_handshake_bytes'', ''max_record_bytes'',
     ''max_buffered_bytes'', ''max_pending_bytes'', ''idle_timeout_ms'',
     ''cleanup_interval_ms'', ''max_conns'', ''max_channels'']"

text \<open>The rows one key adds to the config table: one when the key is in \<open>config\<close>, or none.\<close>

definition config_row :: "builtins \<Rightarrow> json \<Rightarrow> string \<Rightarrow> pyerr + string list" where
  "config_row py config key =
     step (py_in key config) (\<lambda>present.
     if present then
       step (subscript config key) (\<lambda>v. Inr [''| '' @ key @ '' | '' @ py_str py v @ '' |''])
     else Inr [])"

definition config_table :: "builtins \<Rightarrow> json \<Rightarrow> pyerr + string" where
  "config_table py config =
     step (for_each (config_row py config) config_order) (\<lambda>rows.
     Inr (join ''\<newline>'' (concat rows)))"

definition resources_table :: "builtins \<Rightarrow> json \<Rightarrow> pyerr + string" where
  "resources_table py resources =
     step (step (get_or resources ''max_heap_alloc_bytes'' (JInt 0)) (fmt_int py)) (\<lambda>a.
     step (step (get_or resources ''max_heap_inuse_bytes'' (JInt 0)) (fmt_int py)) (\<lambda>b.
     step (step (get_or resources ''max_sys_bytes'' (JInt 0)) (fmt_int py)) (\<lambda>c.
     step (step (get_or resources ''max_goroutines'' (JInt 0)) (fmt_int py)) (\<lambda>d.
     Inr (join ''\<newline>''
       [''| max_heap_alloc_bytes | '' @ a @ '' |'',
        ''| max_heap_inuse_bytes | '' @ b @ '' |'',
        ''| max_sys_bytes | '' @ c @ '' |'',
        ''| max_goroutines | '' @ d @ '' |''])))))"

definition summary_table :: "builtins \<Rightarrow> json \<Rightarrow> pyerr + string" where
  "summary_table py summary =
     step (get_or summary ''attempts'' (JInt 0)) (\<lambda>attempts.
     step (get_or summary ''success'' (JInt 0)) (\<lambda>success.
     step (get_or summary ''failure'' (JInt 0)) (\<lambda>failure.
     step (get_or summary ''success_rate'' (JInt 0)) (\<lambda>success_rate.
     step (step (get_or summary ''duration_seconds'' (JInt 0)) (\<lambda>v. fmt_float py v 4)) (\<lambda>duration.
     step (get_or summary ''peak_conn_per_sec'' (JInt 0)) (\<lambda>peak.
     step (get_or summary ''active_peak'' (JInt 0)) (\<lambda>active.
     Inr (join ''\<newline>''
       [''| attempts | '' @ py_str py attempts @ '' |'',
        ''| success | '' @ py_str py success @ '' |'',
        ''| failure | '' @ py_str py failure @ '' |'',
        ''| success_rate | '' @ py_str py success_rate @ '' |'',
        ''| duration_seconds | '' @ duration @ '' |'',
        ''| peak_conn_per_sec | '' @ py_str py peak @ '' |'',
        ''| active_peak | '' @ py_str py active @ '' |'']))))))))"

subsection \<open>The document\<close>

text \<open>
  The template of lines 204 to 284, with its fourteen holes, in the order of the text:
  the date, the environment lines, the three commands, and the bodies of the nine tables
  (a \<open>table\<close> is the rows of one body, joined by line feeds).
\<close>

type_synonym table = string

definition content ::
  "string \<Rightarrow> string \<Rightarrow> string \<Rightarrow> string \<Rightarrow> string \<Rightarrow>
   table \<Rightarrow> table \<Rightarrow> table \<Rightarrow> table \<Rightarrow> table \<Rightarrow> table \<Rightarrow> table \<Rightarrow> table \<Rightarrow> table \<Rightarrow>
   string" where
  "content date env go_cmd ts_cmd loadgen_cmd go_tab tunnel_tab handshake_tab record_tab
     yamux_tab summary_tab config_tab latency_tab resources_tab =
   concat
    [''# Benchmark Results\<newline>'',
     ''\<newline>'',
     ''Run date: '', date, ''\<newline>'',
     ''\<newline>'',
     ''## Environment\<newline>'',
     ''\<newline>'',
     env, ''\<newline>'',
     ''\<newline>'',
     ''## Commands\<newline>'',
     ''\<newline>'',
     ''```bash\<newline>'',
     ''# Go micro benches\<newline>'',
     go_cmd, ''\<newline>'',
     ''\<newline>'',
     ''# TS micro benches\<newline>'',
     ts_cmd, ''\<newline>'',
     ''\<newline>'',
     ''# Load generator (full mode, loopback)\<newline>'',
     loadgen_cmd, ''\<newline>'',
     ''```\<newline>'',
     ''\<newline>'',
     ''## Go Benchmarks\<newline>'',
     ''\<newline>'',
     ''### E2EE (ns/op, B/op, allocs/op)\<newline>'',
     ''\<newline>'',
     ''| Benchmark | ns/op | B/op | allocs/op |\<newline>'',
     ''| --- | ---: | ---: | ---: |\<newline>'',
     go_tab, ''\<newline>'',
     ''\<newline>'',
     ''### Tunnel Server Hot Path (ns/op, B/op, allocs/op)\<newline>'',
     ''\<newline>'',
     ''| Benchmark | ns/op | B/op | allocs/op |\<newline>'',
     ''| --- | ---: | ---: | ---: |\<newline>'',
     tunnel_tab, ''\<newline>'',
     ''\<newline>'',
     ''## TypeScript Benchmarks\<newline>'',
     ''\<newline>'',
     ''### E2EE Handshake (ops/s, mean ms)\<newline>'',
     ''\<newline>'',
     ''| Benchmark | ops/s (hz) | mean (ms) |\<newline>'',
     ''| --- | ---: | ---: |\<newline>'',
     handshake_tab, ''\<newline>'',
     ''\<newline>'',
     ''### E2EE Record (ops/s, mean ms)\<newline>'',
     ''\<newline>'',
     ''| Benchmark | ops/s (hz) | mean (ms) |\<newline>'',
     ''| --- | ---: | ---: |\<newline>'',
     record_tab, ''\<newline>'',
     ''\<newline>'',
     ''### Yamux (ops/s, mean ms)\<newline>'',
     ''\<newline>'',
     ''| Benchmark | ops/s (hz) | mean (ms) |\<newline>'',
     ''| --- | ---: | ---: |\<newline>'',
     yamux_tab, ''\<newline>'',
     ''\<newline>'',
     ''## Load Generator (full mode)\<newline>'',
     ''\<newline>'',
     ''### Summary\<newline>'',
     ''\<newline>'',
     ''| Metric | Value |\<newline>'',
     ''| --- | ---: |\<newline>'',
     summary_tab, ''\<newline>'',
     ''\<newline>'',
     ''### Config\<newline>'',
     ''\<newline>'',
     ''| Key | Value |\<newline>'',
     ''| --- | --- |\<newline>'',
     config_tab, ''\<newline>'',
     ''\<newline>'',
     ''### Latency (ms)\<newline>'',
     ''\<newline>'',
     ''| Stage | p50 | p95 | p99 | mean | min | max |\<newline>'',
     ''| --- | ---: | ---: | ---: | ---: | ---: | ---: |\<newline>'',
     latency_tab, ''\<newline>'',
     ''\<newline>'',
     ''### Resources (peak)\<newline>'',
     ''\<newline>'',
     ''| Metric | Value |\<newline>'',
     ''| --- | ---: |\<newline>'',
     resources_tab, ''\<newline>'']"

subsection \<open>\<open>main\<close>\<close>

text \<open>
  The arguments of the command line that reach the report. The four paths are not among
  them: \<open>main\<close> below takes the texts of the two logs and the value \<open>json.load\<close> gives
  for the third file, and returns the text it writes to the fourth.
\<close>

record args =
  run_date :: string
  os :: string
  cpu :: string
  ram_bytes :: string
  go_version :: string
  node_version :: string
  gomaxprocs :: string
  gomemlimit :: string
  node_options :: string
  go_command :: string
  ts_command :: string
  loadgen_command :: string

text \<open>
  \<open>float(args.ram_bytes) / (1024 ** 3)\<close>. The quotient of a double by \<open>2 ^ 30\<close> is exact
  unless it falls below the normal doubles, and there both the exact quotient and the
  double that stands for it print as zero, with the same sign, at one decimal place:
  the model keeps the exact quotient.
\<close>

definition ram_gb :: "pyfloat \<Rightarrow> pyfloat" where
  "ram_gb x = (case x of Finite neg m e \<Rightarrow> Finite neg m (e - 30) | _ \<Rightarrow> x)"

definition env_lines :: "args \<Rightarrow> string \<Rightarrow> string list" where
  "env_lines a ram =
     [''- OS: '' @ os a,
      ''- CPU: '' @ cpu a,
      ''- RAM: '' @ ram @ '' GB'',
      ''- Go: '' @ go_version a,
      ''- Node: '' @ node_version a,
      ''- Constraints used:'',
      ''  - Go: `GOMAXPROCS='' @ gomaxprocs a @ ''`, `GOMEMLIMIT='' @ gomemlimit a @ ''`'',
      ''  - Node: `NODE_OPTIONS='' @ node_options a @ ''`'']"

definition main :: "builtins \<Rightarrow> args \<Rightarrow> string \<Rightarrow> string \<Rightarrow> json \<Rightarrow> pyerr + string" where
  "main py a go_output ts_output loadgen =
     (let date = (if run_date a \<noteq> [] then run_date a else now_c py) in
      step (parse_go go_output) (\<lambda>go_bench.
      step (parse_ts ts_output) (\<lambda>ts_bench.
      step (float_of_string py (ram_bytes a)) (\<lambda>ram.
      step (go_table go_bench ''e2ee'') (\<lambda>go_tab.
      step (go_table go_bench ''tunnel'') (\<lambda>tunnel_tab.
      step (ts_table ts_bench ''handshake'') (\<lambda>handshake_tab.
      step (ts_table ts_bench ''record'') (\<lambda>record_tab.
      step (ts_table ts_bench ''yamux'') (\<lambda>yamux_tab.
      step (get_or loadgen ''summary'' (JDict [])) (\<lambda>summary.
      step (get_or loadgen ''config'' (JDict [])) (\<lambda>config.
      step (get_or loadgen ''latency'' (JDict [])) (\<lambda>latency.
      step (get_or loadgen ''resources'' (JDict [])) (\<lambda>resources.
      step (latency_table py latency) (\<lambda>latency_tab.
      step (config_table py config) (\<lambda>config_tab.
      step (resources_table py resources) (\<lambda>resources_tab.
      step (summary_table py summary) (\<lambda>summary_tab.
      Inr (content date (join ''\<newline>'' (env_lines a (format_fixed (ram_gb ram) 1)))
             (go_command a) (ts_command a) (loadgen_command a)
             go_tab tunnel_tab handshake_tab record_tab yamux_tab
             summary_tab config_tab latency_tab resources_tab))))))))))))))))))"

section \<open>The two loops read as scans\<close>

text \<open>
  The definitions of this section are not in the script: they name what one line does to
  the variable a loop carries, and what record, if any, one line yields, so that the
  contents of a bucket can be written as a filter over the lines in their order.
\<close>

subsection \<open>\<open>parse_go\<close>\<close>

text \<open>
  \<open>is_pkg_line\<close>: the stripped line starts with \<open>pkg:\<close>. \<open>go_pkg_after p raw\<close>: the
  value of \<open>pkg\<close> after the line \<open>raw\<close>, when it was \<open>p\<close> before. \<open>go_record\<close>: the item
  built from the groups of the pattern, when the stripped line matches. \<open>go_bucket p\<close>:
  the key the two \<open>endswith\<close> tests choose for the package \<open>p\<close>.
\<close>

definition is_pkg_line :: "string \<Rightarrow> bool" where
  "is_pkg_line raw \<longleftrightarrow> startswith (strip raw) ''pkg:''"

definition go_pkg_after :: "string \<Rightarrow> string \<Rightarrow> string" where
  "go_pkg_after p raw =
     (if is_pkg_line raw \<and> length (split (strip raw)) \<ge> 2 then split (strip raw) ! 1 else p)"

definition go_record :: "string \<Rightarrow> go_item option" where
  "go_record raw =
     map_option (\<lambda>(nm, ns, b, al). \<lparr>go_item.name = nm, ns_op = ns, b_op = b, allocs = al\<rparr>)
       (bench_re_match (strip raw))"

definition go_bucket :: "string \<Rightarrow> string option" where
  "go_bucket p =
     (if endswith p ''/crypto/e2ee'' then Some ''e2ee''
      else if endswith p ''/tunnel/server'' then Some ''tunnel'' else None)"

text \<open>
  \<open>go_pkgs p ls\<close> lists, for each line of \<open>ls\<close>, the value of \<open>pkg\<close> when the loop
  reaches it; \<open>go_records k p ls\<close> are the items of the lines routed to the key \<open>k\<close>, in
  the order of the lines.
\<close>

fun go_pkgs :: "string \<Rightarrow> string list \<Rightarrow> string list" where
  "go_pkgs p [] = []"
| "go_pkgs p (l # ls) = p # go_pkgs (go_pkg_after p l) ls"

definition go_records :: "string \<Rightarrow> string \<Rightarrow> string list \<Rightarrow> go_item list" where
  "go_records k p ls =
     List.map_filter (\<lambda>(q, l). if go_bucket q = Some k then go_record l else None)
       (zip (go_pkgs p ls) ls)"

text \<open>
  What the pattern means, written out: the line is the name, white space, the iteration
  count, white space, the three measurements with their units, and nothing more than one
  final line feed; \<open>g\<close> holds the four groups.
\<close>

definition bench_re_shape :: "string \<Rightarrow> string \<times> string \<times> string \<times> string \<Rightarrow> bool" where
  "bench_re_shape line g \<longleftrightarrow>
     (case g of (nm, ns, b, al) \<Rightarrow>
      \<exists>x ws1 it ws2 ws3 ws4 tl.
        line = nm @ ws1 @ it @ ws2 @ ns @ '' ns/op'' @ ws3 @ b @ '' B/op'' @ ws4 @ al
                 @ '' allocs/op'' @ tl \<and>
        nm = ''Benchmark'' @ x \<and> x \<noteq> [] \<and> (\<forall>c\<in>set x. \<not> isspace c) \<and>
        ws1 \<noteq> [] \<and> (\<forall>c\<in>set ws1. isspace c) \<and>
        it \<noteq> [] \<and> (\<forall>c\<in>set it. isdecimal c) \<and>
        ws2 \<noteq> [] \<and> (\<forall>c\<in>set ws2. isspace c) \<and>
        ns \<noteq> [] \<and> (\<forall>c\<in>set ns. isnumchar c) \<and>
        ws3 \<noteq> [] \<and> (\<forall>c\<in>set ws3. isspace c) \<and>
        b \<noteq> [] \<and> (\<forall>c\<in>set b. isnumchar c) \<and>
        ws4 \<noteq> [] \<and> (\<forall>c\<in>set ws4. isspace c) \<and>
        al \<noteq> [] \<and> (\<forall>c\<in>set al. isdecimal c) \<and>
        (tl = [] \<or> tl = [CHR 0x0A]))"

subsection \<open>\<open>parse_ts\<close>\<close>

text \<open>
  \<open>ts_marker raw\<close>: the section a line sets, by the three substring tests in their order.
  \<open>ts_row raw\<close>: the item a line yields when, stripped, it starts with the bullet and has
  at least five fields once the bullets are removed. \<open>ts_section_after\<close>, \<open>ts_sections\<close>
  and \<open>ts_records\<close> are as for \<open>parse_go\<close>; \<open>ts_keys\<close> are the values \<open>section\<close> can
  take.
\<close>

definition ts_marker :: "string \<Rightarrow> string option" where
  "ts_marker raw =
     (if contains ''> e2ee handshake'' raw then Some ''handshake''
      else if contains ''> e2ee record'' raw then Some ''record''
      else if contains ''> yamux'' raw then Some ''yamux'' else None)"

definition ts_row :: "string \<Rightarrow> ts_item option" where
  "ts_row raw =
     (let line = strip raw; parts = split (remove_bullets line) in
      if startswith line [bullet] \<and> length parts \<ge> 5
      then Some \<lparr>ts_item.name = parts ! 0, hz = parts ! 1, mean_ms = parts ! 4\<rparr> else None)"

definition ts_section_after :: "string option \<Rightarrow> string \<Rightarrow> string option" where
  "ts_section_after sec raw = (case ts_marker raw of None \<Rightarrow> sec | Some k \<Rightarrow> Some k)"

fun ts_sections :: "string option \<Rightarrow> string list \<Rightarrow> string option list" where
  "ts_sections sec [] = []"
| "ts_sections sec (l # ls) = sec # ts_sections (ts_section_after sec l) ls"

definition ts_records :: "string \<Rightarrow> string option \<Rightarrow> string list \<Rightarrow> ts_item list" where
  "ts_records k sec ls =
     List.map_filter (\<lambda>(q, l). if q = Some k \<and> ts_marker l = None then ts_row l else None)
       (zip (ts_sections sec ls) ls)"

definition ts_keys :: "string option set" where
  "ts_keys = {None, Some ''handshake'', Some ''record'', Some ''yamux''}"

section \<open>Reading the report\<close>

text \<open>
  The definitions of this section are not in the script either. \<open>get0 kvs k\<close> is what
  \<open>d.get(k, 0)\<close> returns for a dict with the items \<open>kvs\<close>, and \<open>get_dict kvs k\<close> what
  \<open>d.get(k, {})\<close> returns.
\<close>

definition get0 :: "(string \<times> json) list \<Rightarrow> string \<Rightarrow> json" where
  "get0 kvs k = (case map_of kvs k of None \<Rightarrow> JInt 0 | Some v \<Rightarrow> v)"

definition get_dict :: "(string \<times> json) list \<Rightarrow> string \<Rightarrow> json" where
  "get_dict kvs k = (case map_of kvs k of None \<Rightarrow> JDict [] | Some v \<Rightarrow> v)"

text \<open>
  Two shapes of a printed number. \<open>comma_grouped s\<close>: after an optional minus sign, \<open>s\<close>
  is digits in groups of three from the right, the leftmost group of one to three
  digits, with one comma between two groups (\<open>groups_rev\<close> reads the text from its right
  end). \<open>has_places p s\<close>: after an optional minus sign, \<open>s\<close> is at least one digit, a
  point, and exactly \<open>p\<close> digits.
\<close>

fun groups_rev :: "string \<Rightarrow> bool" where
  "groups_rev [] \<longleftrightarrow> False"
| "groups_rev [a] \<longleftrightarrow> isdecimal a"
| "groups_rev [a, b] \<longleftrightarrow> isdecimal a \<and> isdecimal b"
| "groups_rev [a, b, c] \<longleftrightarrow> isdecimal a \<and> isdecimal b \<and> isdecimal c"
| "groups_rev (a # b # c # d # rest) \<longleftrightarrow>
     isdecimal a \<and> isdecimal b \<and> isdecimal c \<and> d = CHR '','' \<and> groups_rev rest"

definition unsigned :: "string \<Rightarrow> string" where
  "unsigned s = (if s \<noteq> [] \<and> hd s = CHR ''-'' then tl s else s)"

definition comma_grouped :: "string \<Rightarrow> bool" where
  "comma_grouped s \<longleftrightarrow> groups_rev (rev (unsigned s))"

definition has_places :: "nat \<Rightarrow> string \<Rightarrow> bool" where
  "has_places p s \<longleftrightarrow>
     (let body = unsigned s; whole = takeWhile isdecimal body; rest = dropWhile isdecimal body
      in whole \<noteq> [] \<and> rest \<noteq> [] \<and> hd rest = CHR ''.'' \<and> length (tl rest) = p \<and>
         list_all isdecimal (tl rest))"

text \<open>
  An example of the arguments of the command line, and the three tables of the report
  that a load generator's document with no fields gives.
\<close>

definition example_args :: args where
  "example_args =
     \<lparr>run_date = ''Mon Jan  1 12:00:00 2024'', os = ''Linux'', cpu = ''x86_64'',
      ram_bytes = ''17179869184'', go_version = ''go1.22'', node_version = ''v20.11.0'',
      gomaxprocs = ''4'', gomemlimit = ''2GiB'', node_options = ''--max-old-space-size=2048'',
      go_command = ''go test -bench .'', ts_command = ''npm run bench'',
      loadgen_command = ''loadgen --mode full''\<rparr>"

definition zero_resources :: string where
  "zero_resources = ''| max_heap_alloc_bytes | 0 |\<newline>| max_heap_inuse_bytes | 0 |\<newline>| max_sys_bytes | 0 |\<newline>| max_goroutines | 0 |''"

definition zero_summary :: string where
  "zero_summary = ''| attempts | 0 |\<newline>| success | 0 |\<newline>| failure | 0 |\<newline>| success_rate | 0 |\<newline>| duration_seconds | 0.0000 |\<newline>| peak_conn_per_sec | 0 |\<newline>| active_peak | 0 |''"

definition zero_latency :: string where
  "zero_latency = ''| ws_open | 0.000000 | 0.000000 | 0.000000 | 0.000000 | 0.000000 | 0.000000 |\<newline>| attach_send | 0.000000 | 0.000000 | 0.000000 | 0.000000 | 0.000000 | 0.000000 |\<newline>| pair_ready | 0.000000 | 0.000000 | 0.000000 | 0.000000 | 0.000000 | 0.000000 |\<newline>| handshake | 0.000000 | 0.000000 | 0.000000 | 0.000000 | 0.000000 | 0.000000 |\<newline>| rpc_call | 0.000000 | 0.000000 | 0.000000 | 0.000000 | 0.000000 | 0.000000 |''"

section \<open>Lemmas\<close>

subsection \<open>Strings\<close>

lemma startswith_iff: "startswith s p \<longleftrightarrow> (\<exists>t. s = p @ t)"
proof
  assume "startswith s p"
  then have "s = p @ drop (length p) s"
    unfolding startswith_def by (metis append_take_drop_id)
  then show "\<exists>t. s = p @ t" ..
next
  assume "\<exists>t. s = p @ t"
  then show "startswith s p" unfolding startswith_def by auto
qed

lemma endswith_iff: "endswith s p \<longleftrightarrow> (\<exists>t. s = t @ p)"
proof -
  have "endswith s p \<longleftrightarrow> (\<exists>t. rev s = rev p @ t)"
    by (simp add: endswith_def startswith_iff)
  also have "\<dots> \<longleftrightarrow> (\<exists>t. s = t @ p)"
  proof
    assume "\<exists>t. rev s = rev p @ t"
    then obtain t where "rev s = rev p @ t" ..
    then have "s = rev t @ p" by (metis rev_append rev_rev_ident)
    then show "\<exists>t. s = t @ p" ..
  next
    assume "\<exists>t. s = t @ p"
    then obtain t where "s = t @ p" ..
    then have "rev s = rev p @ rev t" by simp
    then show "\<exists>t. rev s = rev p @ t" ..
  qed
  finally show ?thesis .
qed

lemma contains_iff: "contains p s \<longleftrightarrow> (\<exists>a b. s = a @ p @ b)"
proof (induction s)
  case Nil
  show ?case by auto
next
  case (Cons c cs)
  show ?case
  proof
    assume "contains p (c # cs)"
    then consider "startswith (c # cs) p" | "contains p cs" by auto
    then show "\<exists>a b. c # cs = a @ p @ b"
    proof cases
      case 1
      then obtain t where "c # cs = p @ t" unfolding startswith_iff ..
      then have "c # cs = [] @ p @ t" by simp
      then show ?thesis by blast
    next
      case 2
      then obtain a b where "cs = a @ p @ b" using Cons.IH by blast
      then have "c # cs = (c # a) @ p @ b" by simp
      then show ?thesis by blast
    qed
  next
    assume "\<exists>a b. c # cs = a @ p @ b"
    then obtain a b where ab: "c # cs = a @ p @ b" by blast
    show "contains p (c # cs)"
    proof (cases a)
      case Nil
      with ab have "startswith (c # cs) p" unfolding startswith_iff by auto
      then show ?thesis by simp
    next
      case (Cons x a')
      with ab have "cs = a' @ p @ b" by simp
      then have "contains p cs" using Cons.IH by blast
      then show ?thesis by simp
    qed
  qed
qed

lemma getitem_Inr: "i < length xs \<Longrightarrow> getitem xs i = Inr (xs ! i)"
  by (simp add: getitem_def)

subsection \<open>The loop of \<open>parse_go\<close>\<close>

lemma bench_re_match_Benchmark:
  "bench_re_match line = Some r \<Longrightarrow> startswith line ''Benchmark''"
  by (auto simp: bench_re_match_def re_lit_def split: if_splits Option.bind_splits)

lemma pkg_line_no_match: "startswith line ''pkg:'' \<Longrightarrow> bench_re_match line = None"
proof (rule ccontr)
  assume p: "startswith line ''pkg:''" and "bench_re_match line \<noteq> None"
  then obtain r where "bench_re_match line = Some r" by auto
  then have "startswith line ''Benchmark''" by (rule bench_re_match_Benchmark)
  with p show False by (auto simp: startswith_iff)
qed

lemma go_records_Nil [simp]: "go_records k p [] = []"
  by (simp add: go_records_def)

lemma go_records_Cons:
  "go_records k p (l # ls) =
     (case (if go_bucket p = Some k then go_record l else None) of
        None \<Rightarrow> go_records k (go_pkg_after p l) ls
      | Some r \<Rightarrow> r # go_records k (go_pkg_after p l) ls)"
  by (simp add: go_records_def split: option.splits)

lemma go_step_scan:
  "go_step \<lparr>pkg = p, out = [(''e2ee'', A), (''tunnel'', B)]\<rparr> raw =
     Inr \<lparr>pkg = go_pkg_after p raw,
          out = [(''e2ee'', A @ go_records ''e2ee'' p [raw]),
                 (''tunnel'', B @ go_records ''tunnel'' p [raw])]\<rparr>"
proof (cases "is_pkg_line raw")
  case True
  then have "go_record raw = None"
    by (simp add: go_record_def is_pkg_line_def pkg_line_no_match)
  with True show ?thesis
    by (simp add: go_step_def go_pkg_after_def is_pkg_line_def getitem_def go_records_Cons)
next
  case False
  show ?thesis
  proof (cases "bench_re_match (strip raw)")
    case None
    with False show ?thesis
      by (simp add: go_step_def go_pkg_after_def is_pkg_line_def go_records_Cons go_record_def)
  next
    case (Some r)
    obtain nm ns b al where r: "r = (nm, ns, b, al)" by (cases r) auto
    have ne: "\<not> (endswith p ''/crypto/e2ee'' \<and> endswith p ''/tunnel/server'')"
      by (auto simp: endswith_iff)
    from False Some r ne show ?thesis
      by (auto simp: go_step_def go_pkg_after_def is_pkg_line_def go_records_Cons go_record_def
            go_bucket_def append_to_def)
  qed
qed

lemma go_records_append1:
  "go_records k p (l # ls) = go_records k p [l] @ go_records k (go_pkg_after p l) ls"
  by (simp add: go_records_Cons split: option.splits)

lemma go_loop_scan:
  "go_loop \<lparr>pkg = p, out = [(''e2ee'', A), (''tunnel'', B)]\<rparr> ls =
     Inr \<lparr>pkg = foldl go_pkg_after p ls,
          out = [(''e2ee'', A @ go_records ''e2ee'' p ls),
                 (''tunnel'', B @ go_records ''tunnel'' p ls)]\<rparr>"
proof (induction ls arbitrary: p A B)
  case Nil
  show ?case by simp
next
  case (Cons l ls)
  show ?case
    by (simp only: go_loop.simps go_step_scan sum.case Cons.IH foldl_Cons
          go_records_append1 [of _ p l ls] append_assoc)
qed

lemma parse_go_lines_scan:
  "parse_go_lines ls =
     Inr [(''e2ee'', go_records ''e2ee'' [] ls), (''tunnel'', go_records ''tunnel'' [] ls)]"
  by (simp add: parse_go_lines_def go_init_def go_loop_scan)

subsection \<open>The loop of \<open>parse_ts\<close>\<close>

lemma ts_records_Nil [simp]: "ts_records k sec [] = []"
  by (simp add: ts_records_def)

lemma ts_records_Cons:
  "ts_records k sec (l # ls) =
     (case (if sec = Some k \<and> ts_marker l = None then ts_row l else None) of
        None \<Rightarrow> ts_records k (ts_section_after sec l) ls
      | Some r \<Rightarrow> r # ts_records k (ts_section_after sec l) ls)"
  by (simp add: ts_records_def split: option.splits)

lemma ts_records_append1:
  "ts_records k sec (l # ls) = ts_records k sec [l] @ ts_records k (ts_section_after sec l) ls"
  by (simp add: ts_records_Cons split: option.splits)

lemma ts_section_after_keys: "sec \<in> ts_keys \<Longrightarrow> ts_section_after sec raw \<in> ts_keys"
  by (auto simp: ts_section_after_def ts_marker_def ts_keys_def split: option.splits if_splits)

lemma ts_step_marker:
  "ts_marker raw = Some k \<Longrightarrow> ts_step s raw = Inr (s\<lparr>cur_section := Some k\<rparr>)"
  by (auto simp: ts_marker_def ts_step_def split: if_splits)

lemma ts_step_no_row:
  "ts_marker raw = None \<Longrightarrow> ts_row raw = None \<or> cur_section s = None \<Longrightarrow> ts_step s raw = Inr s"
  by (auto simp: ts_marker_def ts_step_def ts_row_def Let_def split: if_splits)

lemma ts_step_row:
  assumes "ts_marker raw = None" and "ts_row raw = Some r" and "cur_section s = Some k"
  shows "ts_step s raw =
     (case append_to k r (ts_state.out s) of Inl e \<Rightarrow> Inl e
      | Inr d \<Rightarrow> Inr (s\<lparr>ts_state.out := d\<rparr>))"
  using assms
  by (auto simp: ts_marker_def ts_step_def ts_row_def Let_def getitem_def split: if_splits)

lemma ts_step_scan:
  assumes "sec \<in> ts_keys"
  shows "ts_step \<lparr>cur_section = sec,
            out = [(''handshake'', A), (''record'', B), (''yamux'', C)]\<rparr> raw =
     Inr \<lparr>cur_section = ts_section_after sec raw,
          out = [(''handshake'', A @ ts_records ''handshake'' sec [raw]),
                 (''record'', B @ ts_records ''record'' sec [raw]),
                 (''yamux'', C @ ts_records ''yamux'' sec [raw])]\<rparr>"
proof (cases "ts_marker raw")
  case (Some k)
  then show ?thesis
    by (simp add: ts_step_marker ts_section_after_def ts_records_Cons)
next
  case None
  show ?thesis
  proof (cases "ts_row raw = None \<or> sec = None")
    case True
    with None show ?thesis
      by (auto simp: ts_step_no_row ts_section_after_def ts_records_Cons)
  next
    case False
    then obtain r k where r: "ts_row raw = Some r" and k: "sec = Some k" by auto
    from k assms have "k = ''handshake'' \<or> k = ''record'' \<or> k = ''yamux''"
      by (auto simp: ts_keys_def)
    then show ?thesis
      using None r k
      by (auto simp: ts_step_row ts_section_after_def ts_records_Cons append_to_def)
  qed
qed

lemma ts_loop_scan:
  "sec \<in> ts_keys \<Longrightarrow>
   ts_loop \<lparr>cur_section = sec,
            out = [(''handshake'', A), (''record'', B), (''yamux'', C)]\<rparr> ls =
     Inr \<lparr>cur_section = foldl ts_section_after sec ls,
          out = [(''handshake'', A @ ts_records ''handshake'' sec ls),
                 (''record'', B @ ts_records ''record'' sec ls),
                 (''yamux'', C @ ts_records ''yamux'' sec ls)]\<rparr>"
proof (induction ls arbitrary: sec A B C)
  case Nil
  show ?case by simp
next
  case (Cons l ls)
  from Cons.prems have k: "ts_section_after sec l \<in> ts_keys" by (rule ts_section_after_keys)
  show ?case
    by (simp only: ts_loop.simps ts_step_scan [OF Cons.prems] sum.case Cons.IH [OF k] foldl_Cons
          ts_records_append1 [of _ sec l ls] append_assoc)
qed

lemma parse_ts_lines_scan:
  "parse_ts_lines ls =
     Inr [(''handshake'', ts_records ''handshake'' None ls),
          (''record'', ts_records ''record'' None ls),
          (''yamux'', ts_records ''yamux'' None ls)]"
  by (simp add: parse_ts_lines_def ts_init_def ts_loop_scan ts_keys_def)

subsection \<open>The pattern matches exactly the lines of its shape\<close>

lemma re_lit_Some: "re_lit p s = Some r \<longleftrightarrow> s = p @ r"
  by (auto simp: re_lit_def startswith_iff)

lemma re_plus_SomeD:
  assumes "re_plus P s = Some (t, r)"
  shows "s = t @ r \<and> t \<noteq> [] \<and> (\<forall>c\<in>set t. P c) \<and> (r = [] \<or> \<not> P (hd r))"
proof -
  from assms have t: "t = takeWhile P s" and r: "r = dropWhile P s" and ne: "t \<noteq> []"
    by (auto simp: re_plus_def split: if_splits)
  have "s = t @ r" by (simp add: t r)
  moreover have "\<forall>c\<in>set t. P c" unfolding t by (auto dest: set_takeWhileD)
  moreover have "r = [] \<or> \<not> P (hd r)" unfolding r using hd_dropWhile by blast
  ultimately show ?thesis using ne by blast
qed

lemma re_plus_SomeI:
  assumes "t \<noteq> []" and "\<forall>c\<in>set t. P c" and "r = [] \<or> \<not> P (hd r)"
  shows "re_plus P (t @ r) = Some (t, r)"
proof -
  from assms(3) have tr: "takeWhile P r = []" and dr: "dropWhile P r = r"
    by (cases r; auto)+
  from assms(2) have "takeWhile P (t @ r) = t" "dropWhile P (t @ r) = r"
    by (simp_all add: tr dr)
  with assms(1) show ?thesis by (simp add: re_plus_def)
qed

lemma bench_re_match_shape:
  assumes "bench_re_match line = Some g"
  shows "bench_re_shape line g"
proof -
  from assms obtain r0 x r1 ws1 r2 it r3 ws2 r4 ns r5 r6 ws3 r7 b r8 r9 ws4 r10 al r11 r12 where
    s: "re_lit ''Benchmark'' line = Some r0"
       "re_plus (\<lambda>c. \<not> isspace c) r0 = Some (x, r1)"
       "re_plus isspace r1 = Some (ws1, r2)"
       "re_plus isdecimal r2 = Some (it, r3)"
       "re_plus isspace r3 = Some (ws2, r4)"
       "re_plus isnumchar r4 = Some (ns, r5)"
       "re_lit '' ns/op'' r5 = Some r6"
       "re_plus isspace r6 = Some (ws3, r7)"
       "re_plus isnumchar r7 = Some (b, r8)"
       "re_lit '' B/op'' r8 = Some r9"
       "re_plus isspace r9 = Some (ws4, r10)"
       "re_plus isdecimal r10 = Some (al, r11)"
       "re_lit '' allocs/op'' r11 = Some r12"
       "re_end r12" and g: "g = (''Benchmark'' @ x, ns, b, al)"
    unfolding bench_re_match_def by (auto split: Option.bind_splits if_splits)
  note d = s(2,3,4,5,6,8,9,11,12) [THEN re_plus_SomeD]
  have "line = (''Benchmark'' @ x) @ ws1 @ it @ ws2 @ ns @ '' ns/op'' @ ws3 @ b @ '' B/op''
          @ ws4 @ al @ '' allocs/op'' @ r12"
    using s(1,7,10,13) d unfolding re_lit_Some by simp
  with d s(14) show ?thesis
    unfolding bench_re_shape_def g re_end_def prod.case by blast
qed

lemma class_disjoint:
  "isdecimal c \<Longrightarrow> \<not> isspace c" "isnumchar c \<Longrightarrow> \<not> isspace c"
  "\<not> isnumchar (CHR '' '')" "\<not> isdecimal (CHR '' '')"
  by (auto simp: isdecimal_def isnumchar_def isspace_def)

lemma hd_app_class: "t \<noteq> [] \<Longrightarrow> \<forall>c\<in>set t. P c \<Longrightarrow> P (hd (t @ r))"
  by (cases t) auto

lemma bench_re_shape_match:
  assumes "bench_re_shape line g"
  shows "bench_re_match line = Some g"
proof -
  obtain nm ns b al where g: "g = (nm, ns, b, al)" by (cases g) auto
  from assms obtain x ws1 it ws2 ws3 ws4 tl where
    line: "line = nm @ ws1 @ it @ ws2 @ ns @ '' ns/op'' @ ws3 @ b @ '' B/op'' @ ws4 @ al
                 @ '' allocs/op'' @ tl"
    and nm: "nm = ''Benchmark'' @ x"
    and x: "x \<noteq> []" "\<forall>c\<in>set x. \<not> isspace c"
    and ws1: "ws1 \<noteq> []" "\<forall>c\<in>set ws1. isspace c"
    and it: "it \<noteq> []" "\<forall>c\<in>set it. isdecimal c"
    and ws2: "ws2 \<noteq> []" "\<forall>c\<in>set ws2. isspace c"
    and ns: "ns \<noteq> []" "\<forall>c\<in>set ns. isnumchar c"
    and ws3: "ws3 \<noteq> []" "\<forall>c\<in>set ws3. isspace c"
    and b: "b \<noteq> []" "\<forall>c\<in>set b. isnumchar c"
    and ws4: "ws4 \<noteq> []" "\<forall>c\<in>set ws4. isspace c"
    and al: "al \<noteq> []" "\<forall>c\<in>set al. isdecimal c"
    and tl: "tl = [] \<or> tl = [CHR 0x0A]"
    unfolding bench_re_shape_def g prod.case by blast
  define r12 where "r12 = tl"
  define r11 where "r11 = '' allocs/op'' @ r12"
  define r10 where "r10 = al @ r11"
  define r9 where "r9 = ws4 @ r10"
  define r8 where "r8 = '' B/op'' @ r9"
  define r7 where "r7 = b @ r8"
  define r6 where "r6 = ws3 @ r7"
  define r5 where "r5 = '' ns/op'' @ r6"
  define r4 where "r4 = ns @ r5"
  define r3 where "r3 = ws2 @ r4"
  define r2 where "r2 = it @ r3"
  define r1 where "r1 = ws1 @ r2"
  define r0 where "r0 = x @ r1"
  have l0: "line = ''Benchmark'' @ r0"
    unfolding line nm r0_def r1_def r2_def r3_def r4_def r5_def r6_def r7_def r8_def r9_def
      r10_def r11_def r12_def by simp
  have s0: "re_lit ''Benchmark'' line = Some r0" unfolding re_lit_Some l0 ..
  have s1: "re_plus (\<lambda>c. \<not> isspace c) r0 = Some (x, r1)"
    unfolding r0_def using x hd_app_class [OF ws1, of r2]
    by (intro re_plus_SomeI) (auto simp: r1_def)
  have s2: "re_plus isspace r1 = Some (ws1, r2)"
    unfolding r1_def using ws1 hd_app_class [OF it, of r3] class_disjoint
    by (intro re_plus_SomeI) (auto simp: r2_def)
  have s3: "re_plus isdecimal r2 = Some (it, r3)"
    unfolding r2_def using it hd_app_class [OF ws2, of r4] class_disjoint
    by (intro re_plus_SomeI) (auto simp: r3_def)
  have s4: "re_plus isspace r3 = Some (ws2, r4)"
    unfolding r3_def using ws2 hd_app_class [OF ns, of r5] class_disjoint
    by (intro re_plus_SomeI) (auto simp: r4_def)
  have s5: "re_plus isnumchar r4 = Some (ns, r5)"
    unfolding r4_def using ns class_disjoint
    by (intro re_plus_SomeI) (auto simp: r5_def)
  have s6: "re_lit '' ns/op'' r5 = Some r6" unfolding re_lit_Some r5_def ..
  have s7: "re_plus isspace r6 = Some (ws3, r7)"
    unfolding r6_def using ws3 hd_app_class [OF b, of r8] class_disjoint
    by (intro re_plus_SomeI) (auto simp: r7_def)
  have s8: "re_plus isnumchar r7 = Some (b, r8)"
    unfolding r7_def using b class_disjoint
    by (intro re_plus_SomeI) (auto simp: r8_def)
  have s9: "re_lit '' B/op'' r8 = Some r9" unfolding re_lit_Some r8_def ..
  have s10: "re_plus isspace r9 = Some (ws4, r10)"
    unfolding r9_def using ws4 hd_app_class [OF al, of r11] class_disjoint
    by (intro re_plus_SomeI) (auto simp: r10_def)
  have s11: "re_plus isdecimal r10 = Some (al, r11)"
    unfolding r10_def using al class_disjoint
    by (intro re_plus_SomeI) (auto simp: r11_def)
  have s12: "re_lit '' allocs/op'' r11 = Some r12" unfolding re_lit_Some r11_def ..
  have s13: "re_end r12" using tl by (simp add: re_end_def r12_def)
  show ?thesis
    unfolding bench_re_match_def g
    by (simp only: s0 s1 s2 s3 s4 s5 s6 s7 s8 s9 s10 s11 s12 s13 Option.bind.simps prod.case
          if_True nm)
qed

lemma bench_re_match_iff: "bench_re_match line = Some g \<longleftrightarrow> bench_re_shape line g"
  using bench_re_match_shape bench_re_shape_match by blast

subsection \<open>Prefixes, skipped lines and reachable states\<close>

lemma go_loop_append:
  "go_loop s (xs @ ys) = (case go_loop s xs of Inl e \<Rightarrow> Inl e | Inr s' \<Rightarrow> go_loop s' ys)"
  by (induction xs arbitrary: s) (auto split: sum.splits)

lemma ts_loop_append:
  "ts_loop s (xs @ ys) = (case ts_loop s xs of Inl e \<Rightarrow> Inl e | Inr s' \<Rightarrow> ts_loop s' ys)"
  by (induction xs arbitrary: s) (auto split: sum.splits)

lemma go_step_skip:
  "\<not> startswith (strip raw) ''pkg:'' \<Longrightarrow> bench_re_match (strip raw) = None \<Longrightarrow> go_step s raw = Inr s"
  by (simp add: go_step_def)

lemma suffixes_exclusive: "\<not> (endswith p ''/crypto/e2ee'' \<and> endswith p ''/tunnel/server'')"
  by (auto simp: endswith_iff)

lemma go_init_reach:
  "go_loop go_init pre = Inr s \<Longrightarrow> \<exists>A B. go_state.out s = [(''e2ee'', A), (''tunnel'', B)]"
  by (auto simp: go_init_def go_loop_scan)

lemma ts_step_skip:
  assumes "\<not> contains ''> e2ee handshake'' raw" "\<not> contains ''> e2ee record'' raw"
    "\<not> contains ''> yamux'' raw"
    and "\<not> startswith (strip raw) [bullet] \<or> length (split (remove_bullets (strip raw))) < 5"
  shows "ts_step s raw = Inr s"
  using assms by (auto simp: ts_step_def Let_def)

lemma go_records_no_pkg:
  "\<forall>l\<in>set ls. \<not> startswith (strip l) ''pkg:'' \<Longrightarrow> go_bucket p = None \<Longrightarrow> go_records k p ls = []"
  by (induction ls) (auto simp: go_records_Cons go_pkg_after_def is_pkg_line_def)

lemma ts_marker_keys:
  "ts_marker m = Some k \<Longrightarrow> k = ''handshake'' \<or> k = ''record'' \<or> k = ''yamux''"
  by (auto simp: ts_marker_def split: if_splits)

lemma ts_records_no_marker:
  "\<forall>l\<in>set rows. ts_marker l = None \<Longrightarrow>
     ts_records k sec rows = (if sec = Some k then List.map_filter ts_row rows else [])"
  by (induction rows) (auto simp: ts_records_Cons ts_section_after_def split: option.splits)

lemma ts_sections_no_marker:
  "\<forall>l\<in>set rows. ts_marker l = None \<Longrightarrow> foldl ts_section_after sec rows = sec"
  by (induction rows) (auto simp: ts_section_after_def)

lemma ts_records_marker:
  "ts_marker m = Some k \<Longrightarrow> ts_records k' sec (m # rows) = ts_records k' (Some k) rows"
  by (simp add: ts_records_Cons ts_section_after_def)

lemma ts_init_reach:
  assumes "ts_loop ts_init pre = Inr s"
  shows "cur_section s \<in> ts_keys \<and>
     (\<exists>A B C. ts_state.out s = [(''handshake'', A), (''record'', B), (''yamux'', C)])"
proof -
  have k: "None \<in> ts_keys" by (simp add: ts_keys_def)
  have "foldl ts_section_after sec ls \<in> ts_keys" if "sec \<in> ts_keys" for sec ls
    using that by (induction ls arbitrary: sec) (auto intro: ts_section_after_keys)
  with assms k show ?thesis
    by (auto simp: ts_init_def ts_loop_scan [OF k])
qed

section \<open>Lemmas about the report\<close>

subsection \<open>The digits of \<open>str\<close> and \<open>format\<close>\<close>

lemma replicate_numeral: "replicate (numeral k) x = x # replicate (pred_numeral k) x"
  by (simp add: numeral_eq_Suc)

lemma decimal_less: "n < 10 \<Longrightarrow> decimal n = [''0123456789'' ! n]"
  by (simp add: decimal.simps)

lemma decimal_ge: "10 \<le> n \<Longrightarrow> decimal n = decimal (n div 10) @ [''0123456789'' ! (n mod 10)]"
  by (subst decimal.simps) simp

lemma group3_less: "n < 1000 \<Longrightarrow> group3 n = decimal n"
  by (simp add: group3.simps)

lemma group3_ge:
  "1000 \<le> n \<Longrightarrow> group3 n = group3 (n div 1000) @ '','' @ zfill 3 (decimal (n mod 1000))"
  by (subst group3.simps) simp

lemma digit_char: "d < 10 \<Longrightarrow> isdecimal (''0123456789'' ! d)"
proof -
  assume "d < 10"
  then have "d \<in> {0, 1, 2, 3, 4, 5, 6, 7, 8, 9}" by auto
  then show ?thesis by (auto simp: isdecimal_def)
qed

lemma decimal_digits: "list_all isdecimal (decimal n)"
proof (induction n rule: decimal.induct)
  case (1 n)
  show ?case
  proof (cases "n < 10")
    case True
    then show ?thesis by (simp add: decimal_less digit_char)
  next
    case False
    with 1 show ?thesis by (simp add: decimal_ge digit_char)
  qed
qed

lemma decimal_not_Nil: "decimal n \<noteq> []"
  by (cases "n < 10") (simp_all add: decimal_less decimal_ge)

lemma length_decimal: "n < 10 ^ p \<Longrightarrow> 0 < p \<Longrightarrow> length (decimal n) \<le> p"
proof (induction n arbitrary: p rule: decimal.induct)
  case (1 n)
  show ?case
  proof (cases "n < 10")
    case True
    with 1(3) show ?thesis by (simp add: decimal_less)
  next
    case False
    from 1(3) obtain q where p: "p = Suc q" by (cases p) auto
    from False 1(2) have "0 < q" unfolding p by (cases q) auto
    moreover from 1(2) have "n div 10 < 10 ^ q" unfolding p
      by (simp add: less_mult_imp_div_less)
    ultimately have "length (decimal (n div 10)) \<le> q" using 1(1) False by simp
    with False show ?thesis by (simp add: decimal_ge p)
  qed
qed

lemma length_decimal_pos: "0 < length (decimal n)"
  using decimal_not_Nil [of n] by simp

lemma isdecimal_zero: "isdecimal (CHR ''0'')"
  by (simp add: isdecimal_def)

lemma zfill_digits: "list_all isdecimal s \<Longrightarrow> list_all isdecimal (zfill w s)"
  by (auto simp: zfill_def list_all_iff isdecimal_zero)

lemma length_zfill: "length s \<le> w \<Longrightarrow> length (zfill w s) = w"
  by (simp add: zfill_def)

lemma length_zfill_decimal: "0 < p \<Longrightarrow> length (zfill p (decimal (n mod 10 ^ p))) = p"
  by (rule length_zfill, rule length_decimal) simp_all

lemma not_digit: "\<not> isdecimal (CHR ''.'')" "\<not> isdecimal (CHR ''-'')" "\<not> isdecimal (CHR '','')"
  by (simp_all add: isdecimal_def)

lemma hd_decimal: "hd (decimal n) \<noteq> CHR ''-''"
  using decimal_digits [of n] decimal_not_Nil [of n] not_digit(2)
  by (cases "decimal n") auto

lemma takeWhile_all: "list_all P xs \<Longrightarrow> \<not> P y \<Longrightarrow> takeWhile P (xs @ y # ys) = xs"
  by (induction xs) auto

lemma dropWhile_all: "list_all P xs \<Longrightarrow> \<not> P y \<Longrightarrow> dropWhile P (xs @ y # ys) = y # ys"
  by (induction xs) auto

lemma has_places_fixed:
  assumes "0 < p"
  shows "has_places p (format_fixed (Finite neg m e) p)"
proof -
  define n where "n = scaled_round m e p"
  define w where "w = decimal (n div 10 ^ p)"
  define f where "f = zfill p (decimal (n mod 10 ^ p))"
  have w: "w \<noteq> []" "list_all isdecimal w" "hd w \<noteq> CHR ''-''"
    by (simp_all add: w_def decimal_not_Nil decimal_digits hd_decimal)
  have f: "length f = p" "list_all isdecimal f"
    using assms by (simp_all add: f_def length_zfill_decimal zfill_digits decimal_digits)
  have ff: "format_fixed (Finite neg m e) p = (if neg then ''-'' else []) @ w @ CHR ''.'' # f"
    using assms by (simp add: format_fixed_def n_def w_def f_def Let_def)
  have u: "unsigned (format_fixed (Finite neg m e) p) = w @ CHR ''.'' # f"
    unfolding ff using w by (cases w) (auto simp: unsigned_def)
  show ?thesis
    unfolding has_places_def u Let_def
    using w f by (simp add: takeWhile_all dropWhile_all not_digit)
qed

lemma groups_rev_short:
  "list_all isdecimal s \<Longrightarrow> s \<noteq> [] \<Longrightarrow> length s \<le> 3 \<Longrightarrow> groups_rev (rev s)"
proof -
  assume a: "list_all isdecimal s" "s \<noteq> []" "length s \<le> 3"
  then obtain x where "s = [x] \<or> (\<exists>y. s = [x, y]) \<or> (\<exists>y z. s = [x, y, z])"
    by (cases s rule: list.exhaust; cases "tl s"; cases "tl (tl s)"; cases "tl (tl (tl s))") auto
  with a(1) show ?thesis by auto
qed

lemma groups_rev_group3: "groups_rev (rev (group3 n))"
proof (induction n rule: group3.induct)
  case (1 n)
  show ?case
  proof (cases "n < 1000")
    case True
    then have "length (decimal n) \<le> 3" using length_decimal [of n 3] by simp
    with True show ?thesis
      by (simp add: group3_less groups_rev_short decimal_digits decimal_not_Nil)
  next
    case False
    define z where "z = zfill 3 (decimal (n mod 1000))"
    have "length z = 3" using length_zfill_decimal [of 3 n] by (simp add: z_def)
    then obtain a b c where z: "z = [a, b, c]"
      by (cases z; cases "tl z"; cases "tl (tl z)"; cases "tl (tl (tl z))") auto
    have "list_all isdecimal z" by (simp add: z_def zfill_digits decimal_digits)
    with z have d: "isdecimal a" "isdecimal b" "isdecimal c" by auto
    from False 1 have ih: "groups_rev (rev (group3 (n div 1000)))" by simp
    from False have "group3 n = group3 (n div 1000) @ '','' @ z"
      by (simp add: group3_ge z_def)
    with ih d show ?thesis by (simp add: z)
  qed
qed

lemma group3_digits: "hd (group3 n) \<noteq> CHR ''-''"
proof (induction n rule: group3.induct)
  case (1 n)
  show ?case
  proof (cases "n < 1000")
    case True
    then show ?thesis by (simp add: group3_less hd_decimal)
  next
    case False
    have ne: "group3 k \<noteq> []" for k
      using groups_rev_group3 [of k] by (cases "group3 k") auto
    from False 1 have "hd (group3 (n div 1000)) \<noteq> CHR ''-''" by simp
    with False ne [of "n div 1000"] show ?thesis by (simp add: group3_ge)
  qed
qed

lemma unsigned_format_comma: "unsigned (format_comma i) = group3 (nat \<bar>i\<bar>)"
proof -
  have ne: "group3 k \<noteq> []" for k
    using groups_rev_group3 [of k] by (cases "group3 k") auto
  show ?thesis
    using group3_digits [of "nat i"] ne [of "nat i"]
    by (auto simp: format_comma_def unsigned_def)
qed

lemma comma_grouped_format_comma: "comma_grouped (format_comma i)"
  by (simp add: comma_grouped_def unsigned_format_comma groups_rev_group3)

subsection \<open>Removing the commas gives back \<open>str\<close>\<close>

lemma zfill_Suc_decimal:
  "0 < k \<Longrightarrow> zfill (Suc k) (decimal m) = zfill k (decimal (m div 10)) @ [''0123456789'' ! (m mod 10)]"
proof (cases "m < 10")
  case True
  assume "0 < k"
  then obtain j where k: "k = Suc j" by (cases k) auto
  from True show ?thesis
    by (simp add: decimal_less zfill_def k replicate_append_same)
next
  case False
  then show ?thesis
    by (simp add: decimal_ge zfill_def)
qed

lemma decimal_split:
  "0 < k \<Longrightarrow> 10 ^ k \<le> n \<Longrightarrow> decimal n = decimal (n div 10 ^ k) @ zfill k (decimal (n mod 10 ^ k))"
proof (induction k arbitrary: n)
  case 0
  then show ?case by simp
next
  case (Suc k)
  show ?case
  proof (cases "k = 0")
    case True
    with Suc.prems have "10 \<le> n" by simp
    then show ?thesis
      using True by (simp add: decimal_ge zfill_def decimal_less)
  next
    case False
    then have k: "0 < k" by simp
    have "(10::nat) * 1 \<le> 10 * 10 ^ k"
      by (rule mult_le_mono2) simp
    also have "\<dots> \<le> n"
      using Suc.prems(2) by (simp only: power_Suc)
    finally have n10: "10 \<le> n" by simp
    from Suc.prems have "10 ^ k \<le> n div 10"
      by (simp add: less_eq_div_iff_mult_less_eq mult.commute)
    from Suc.IH [OF k this]
    have IH: "decimal (n div 10) =
        decimal (n div 10 div 10 ^ k) @ zfill k (decimal (n div 10 mod 10 ^ k))" .
    have e1: "n div 10 div 10 ^ k = n div 10 ^ Suc k"
      by (simp add: div_mult2_eq)
    have e2: "n div 10 mod 10 ^ k = (n mod 10 ^ Suc k) div 10"
      by (simp add: mod_mult2_eq)
    have e3: "(n mod 10 ^ Suc k) mod 10 = n mod 10"
      by (simp add: mod_mod_cancel)
    have A: "decimal n = decimal (n div 10) @ [''0123456789'' ! (n mod 10)]"
      using n10 by (rule decimal_ge)
    have B: "zfill (Suc k) (decimal (n mod 10 ^ Suc k)) =
        zfill k (decimal ((n mod 10 ^ Suc k) div 10)) @ [''0123456789'' ! ((n mod 10 ^ Suc k) mod 10)]"
      by (rule zfill_Suc_decimal [OF k])
    show ?thesis
      unfolding A B IH e1 e2 e3 by (rule append_assoc)
  qed
qed

lemma filter_digits: "list_all isdecimal s \<Longrightarrow> filter (\<lambda>c. c \<noteq> CHR '','') s = s"
  by (induction s) (auto simp: not_digit)

lemma filter_group3: "filter (\<lambda>c. c \<noteq> CHR '','') (group3 n) = decimal n"
proof (induction n rule: group3.induct)
  case (1 n)
  show ?case
  proof (cases "n < 1000")
    case True
    then show ?thesis by (simp add: group3_less filter_digits decimal_digits)
  next
    case False
    then have "decimal n = decimal (n div 10 ^ 3) @ zfill 3 (decimal (n mod 10 ^ 3))"
      by (intro decimal_split) simp_all
    with False 1 show ?thesis
      by (simp add: group3_ge filter_digits zfill_digits decimal_digits)
  qed
qed

lemma filter_format_comma: "filter (\<lambda>c. c \<noteq> CHR '','') (format_comma i) = str_int i"
  by (simp add: format_comma_def str_int_def filter_group3)

subsection \<open>What \<open>main\<close> returns\<close>

lemma step_Inr [simp]: "step (Inr x) f = f x"
  by (simp add: step_def)

lemma step_Inl [simp]: "step (Inl e) f = Inl e"
  by (simp add: step_def)

lemma step_Inr_iff: "step m f = Inr y \<longleftrightarrow> (\<exists>x. m = Inr x \<and> f x = Inr y)"
  by (cases m) simp_all

lemma go_table_scan:
  "go_table [(''e2ee'', A), (''tunnel'', B)] ''e2ee'' = Inr (join ''\<newline>'' (map go_row A))"
  "go_table [(''e2ee'', A), (''tunnel'', B)] ''tunnel'' = Inr (join ''\<newline>'' (map go_row B))"
  by (simp_all add: go_table_def lookup_def)

lemma ts_table_scan:
  "ts_table [(''handshake'', A), (''record'', B), (''yamux'', C)] ''handshake'' = Inr (join ''\<newline>'' (map ts_line A))"
  "ts_table [(''handshake'', A), (''record'', B), (''yamux'', C)] ''record'' = Inr (join ''\<newline>'' (map ts_line B))"
  "ts_table [(''handshake'', A), (''record'', B), (''yamux'', C)] ''yamux'' = Inr (join ''\<newline>'' (map ts_line C))"
  by (simp_all add: ts_table_def lookup_def)

lemma main_Inr_iff:
  "main py a go_output ts_output loadgen = Inr doc \<longleftrightarrow>
   (\<exists>ram summary_tab config_tab latency_tab resources_tab.
      float_of_string py (ram_bytes a) = Inr ram \<and>
      step (get_or loadgen ''summary'' (JDict [])) (summary_table py) = Inr summary_tab \<and>
      step (get_or loadgen ''config'' (JDict [])) (config_table py) = Inr config_tab \<and>
      step (get_or loadgen ''latency'' (JDict [])) (latency_table py) = Inr latency_tab \<and>
      step (get_or loadgen ''resources'' (JDict [])) (resources_table py) = Inr resources_tab \<and>
      doc = content (if run_date a \<noteq> [] then run_date a else now_c py)
              (join ''\<newline>'' (env_lines a (format_fixed (ram_gb ram) 1)))
              (go_command a) (ts_command a) (loadgen_command a)
              (join ''\<newline>'' (map go_row (go_records ''e2ee'' [] (file_lines go_output))))
              (join ''\<newline>'' (map go_row (go_records ''tunnel'' [] (file_lines go_output))))
              (join ''\<newline>'' (map ts_line (ts_records ''handshake'' None (file_lines ts_output))))
              (join ''\<newline>'' (map ts_line (ts_records ''record'' None (file_lines ts_output))))
              (join ''\<newline>'' (map ts_line (ts_records ''yamux'' None (file_lines ts_output))))
              summary_tab config_tab latency_tab resources_tab)"
  unfolding main_def Let_def parse_go_def parse_ts_def parse_go_lines_scan parse_ts_lines_scan
    step_Inr go_table_scan ts_table_scan
  by (auto simp: step_Inr_iff)

subsection \<open>The tables of the load generator\<close>

lemma get_or_get0: "get_or (JDict kvs) k (JInt 0) = Inr (get0 kvs k)"
  by (simp add: get_or_def get0_def)

lemma get_or_get_dict: "get_or (JDict kvs) k (JDict []) = Inr (get_dict kvs k)"
  by (simp add: get_or_def get_dict_def)

lemma get_or_Inr_iff: "get_or d k dflt = Inr v \<longleftrightarrow> (\<exists>kvs. d = JDict kvs \<and> v = (case map_of kvs k of None \<Rightarrow> dflt | Some v \<Rightarrow> v))"
  by (cases d) (auto simp: get_or_def)

lemma for_each_Inr_iff: "for_each f xs = Inr ys \<longleftrightarrow> list_all2 (\<lambda>x y. f x = Inr y) xs ys"
proof (induction xs arbitrary: ys)
  case Nil
  then show ?case by auto
next
  case (Cons x xs)
  then show ?case by (cases ys) (auto simp: step_Inr_iff)
qed

lemma resources_table_iff:
  "resources_table py (JDict kvs) = Inr t \<longleftrightarrow>
   (\<exists>a b c d.
      py_int py (get0 kvs ''max_heap_alloc_bytes'') = Inr a \<and>
      py_int py (get0 kvs ''max_heap_inuse_bytes'') = Inr b \<and>
      py_int py (get0 kvs ''max_sys_bytes'') = Inr c \<and>
      py_int py (get0 kvs ''max_goroutines'') = Inr d \<and>
      t = join ''\<newline>''
        [''| max_heap_alloc_bytes | '' @ format_comma a @ '' |'',
         ''| max_heap_inuse_bytes | '' @ format_comma b @ '' |'',
         ''| max_sys_bytes | '' @ format_comma c @ '' |'',
         ''| max_goroutines | '' @ format_comma d @ '' |''])"
  unfolding resources_table_def fmt_int_def get_or_get0 step_Inr
  by (auto simp: step_Inr_iff)

lemma summary_table_iff:
  "summary_table py (JDict kvs) = Inr t \<longleftrightarrow>
   (\<exists>x.
      py_float py (get0 kvs ''duration_seconds'') = Inr x \<and>
      t = join ''\<newline>''
        [''| attempts | '' @ py_str py (get0 kvs ''attempts'') @ '' |'',
         ''| success | '' @ py_str py (get0 kvs ''success'') @ '' |'',
         ''| failure | '' @ py_str py (get0 kvs ''failure'') @ '' |'',
         ''| success_rate | '' @ py_str py (get0 kvs ''success_rate'') @ '' |'',
         ''| duration_seconds | '' @ format_fixed x 4 @ '' |'',
         ''| peak_conn_per_sec | '' @ py_str py (get0 kvs ''peak_conn_per_sec'') @ '' |'',
         ''| active_peak | '' @ py_str py (get0 kvs ''active_peak'') @ '' |''])"
  unfolding summary_table_def fmt_float_def get_or_get0 step_Inr
  by (auto simp: step_Inr_iff)

lemma latency_row_iff:
  "latency_row py (JDict kvs) stage = Inr row \<longleftrightarrow>
   (\<exists>ivs p50 p95 p99 mean mn mx.
      get_dict kvs stage = JDict ivs \<and>
      py_float py (get0 ivs ''p50_ms'') = Inr p50 \<and>
      py_float py (get0 ivs ''p95_ms'') = Inr p95 \<and>
      py_float py (get0 ivs ''p99_ms'') = Inr p99 \<and>
      py_float py (get0 ivs ''mean_ms'') = Inr mean \<and>
      py_float py (get0 ivs ''min_ms'') = Inr mn \<and>
      py_float py (get0 ivs ''max_ms'') = Inr mx \<and>
      row = ''| '' @ stage @ '' | '' @ format_fixed p50 6 @ '' | '' @ format_fixed p95 6
            @ '' | '' @ format_fixed p99 6 @ '' | '' @ format_fixed mean 6
            @ '' | '' @ format_fixed mn 6 @ '' | '' @ format_fixed mx 6 @ '' |'')"
proof (cases "get_dict kvs stage")
  case (JDict ivs)
  show ?thesis
    unfolding latency_row_def fmt_float_def get_or_get_dict step_Inr JDict get_or_get0
    by (auto simp: step_Inr_iff)
qed (unfold latency_row_def get_or_get_dict step_Inr, simp_all add: get_or_def)

lemma latency_table_iff:
  "latency_table py latency = Inr t \<longleftrightarrow>
   (\<exists>rows. list_all2 (\<lambda>stage row. latency_row py latency stage = Inr row) stages rows \<and>
      t = join ''\<newline>'' rows)"
  by (auto simp: latency_table_def step_Inr_iff for_each_Inr_iff)

lemma no_comma_decimal: "CHR '','' \<notin> set (decimal n)"
  using decimal_digits [of n] not_digit(3) by (auto simp: list_all_iff)

lemma no_comma_str_int: "CHR '','' \<notin> set (str_int i)"
  by (simp add: str_int_def no_comma_decimal)

subsection \<open>Evaluating the tables\<close>

lemmas num_eval = decimal_less decimal_ge group3_less group3_ge replicate_numeral zfill_def

lemma py_float_zero: "py_float py (JInt 0) = Inr (Finite False 0 0)"
  by (simp add: py_float_def float_of_int_def nearest_double_def)

lemma py_int_JInt: "py_int py (JInt i) = Inr i"
  by (simp add: py_int_def)

lemma format_fixed_zero:
  "format_fixed (Finite False 0 0) 6 = ''0.000000''"
  "format_fixed (Finite False 0 0) 4 = ''0.0000''"
  by (simp_all add: format_fixed_def scaled_round_def num_eval)

lemma format_comma_zero: "format_comma 0 = ''0''"
  by (simp add: format_comma_def num_eval)

lemma str_int_zero: "str_int 0 = ''0''"
  by (simp add: str_int_def num_eval)

lemma get0_Nil: "get0 [] k = JInt 0"
  by (simp add: get0_def)

lemma get_dict_Nil: "get_dict [] k = JDict []"
  by (simp add: get_dict_def)

lemma resources_table_empty: "resources_table py (JDict []) = Inr zero_resources"
  by (simp add: resources_table_iff get0_Nil py_int_JInt format_comma_zero zero_resources_def)

lemma summary_table_empty: "summary_table py (JDict []) = Inr zero_summary"
  by (simp add: summary_table_iff get0_Nil py_float_zero format_fixed_zero py_str_def
      str_int_zero zero_summary_def)

lemma latency_row_empty:
  "latency_row py (JDict []) stage =
     Inr (''| '' @ stage @ '' | 0.000000 | 0.000000 | 0.000000 | 0.000000 | 0.000000 | 0.000000 |'')"
  by (simp add: latency_row_iff get_dict_Nil get0_Nil py_float_zero format_fixed_zero)

lemma latency_table_empty: "latency_table py (JDict []) = Inr zero_latency"
  by (simp add: latency_table_def stages_def latency_row_empty zero_latency_def)

lemma config_table_empty: "config_table py (JDict []) = Inr []"
  by (simp add: config_table_def config_order_def config_row_def py_in_def)

lemma ram_example:
  "float_of_string py ''17179869184'' = Inr (Finite False 17179869184 0)"
  "format_fixed (ram_gb (Finite False 17179869184 0)) 1 = ''16.0''"
  by (simp_all add: float_of_string_def isdecimal_def digits_value_def nearest_double_def
      ram_gb_def format_fixed_def scaled_round_def Let_def num_eval)

lemma ram_example_Suc:
  "format_fixed (ram_gb (Finite False 17179869184 0)) (Suc 0) = ''16.0''"
  using ram_example(2) by simp

subsection \<open>Where a record comes from\<close>

lemma go_records_source:
  assumes "r \<in> set (go_records k p ls)"
  shows "\<exists>raw\<in>set ls. go_record raw = Some r"
proof -
  from assms obtain q l where "(q, l) \<in> set (zip (go_pkgs p ls) ls)" and "go_record l = Some r"
    by (auto simp: go_records_def List.map_filter_def split: if_splits)
  then show ?thesis by (auto dest: set_zip_rightD)
qed

lemma ts_records_source:
  assumes "r \<in> set (ts_records k sec ls)"
  shows "\<exists>raw\<in>set ls. ts_row raw = Some r"
proof -
  from assms obtain q l where "(q, l) \<in> set (zip (ts_sections sec ls) ls)" and "ts_row l = Some r"
    by (auto simp: ts_records_def List.map_filter_def split: if_splits)
  then show ?thesis by (auto dest: set_zip_rightD)
qed

lemma go_record_fields:
  "go_record raw = Some r \<Longrightarrow>
     bench_re_match (strip raw) = Some (go_item.name r, ns_op r, b_op r, allocs r)"
  by (auto simp: go_record_def)

lemma ts_row_fields:
  "ts_row raw = Some r \<Longrightarrow>
     5 \<le> length (split (remove_bullets (strip raw))) \<and>
     ts_item.name r = split (remove_bullets (strip raw)) ! 0 \<and>
     hz r = split (remove_bullets (strip raw)) ! 1 \<and>
     mean_ms r = split (remove_bullets (strip raw)) ! 4"
  by (auto simp: ts_row_def Let_def split: if_splits)

subsection \<open>\<open>main\<close> and the tables of the load generator\<close>

lemma summary_table_dict: "summary_table py v = Inr t \<Longrightarrow> \<exists>kvs. v = JDict kvs"
  by (cases v) (simp_all add: summary_table_def get_or_def)

lemma resources_table_dict: "resources_table py v = Inr t \<Longrightarrow> \<exists>kvs. v = JDict kvs"
  by (cases v) (simp_all add: resources_table_def get_or_def)

lemma latency_table_dict: "latency_table py v = Inr t \<Longrightarrow> \<exists>kvs. v = JDict kvs"
  by (cases v) (simp_all add: latency_table_def stages_def latency_row_def get_or_def)

lemma main_tables_iff:
  "main py a go_output ts_output loadgen = Inr doc \<longleftrightarrow>
   (\<exists>kvs sm lat res ram summary_tab config_tab latency_tab resources_tab.
      loadgen = JDict kvs \<and>
      get_dict kvs ''summary'' = JDict sm \<and>
      get_dict kvs ''latency'' = JDict lat \<and>
      get_dict kvs ''resources'' = JDict res \<and>
      float_of_string py (ram_bytes a) = Inr ram \<and>
      summary_table py (JDict sm) = Inr summary_tab \<and>
      config_table py (get_dict kvs ''config'') = Inr config_tab \<and>
      latency_table py (JDict lat) = Inr latency_tab \<and>
      resources_table py (JDict res) = Inr resources_tab \<and>
      doc = content (if run_date a \<noteq> [] then run_date a else now_c py)
              (join ''\<newline>'' (env_lines a (format_fixed (ram_gb ram) 1)))
              (go_command a) (ts_command a) (loadgen_command a)
              (join ''\<newline>'' (map go_row (go_records ''e2ee'' [] (file_lines go_output))))
              (join ''\<newline>'' (map go_row (go_records ''tunnel'' [] (file_lines go_output))))
              (join ''\<newline>'' (map ts_line (ts_records ''handshake'' None (file_lines ts_output))))
              (join ''\<newline>'' (map ts_line (ts_records ''record'' None (file_lines ts_output))))
              (join ''\<newline>'' (map ts_line (ts_records ''yamux'' None (file_lines ts_output))))
              summary_tab config_tab latency_tab resources_tab)"
proof (cases loadgen)
  case (JDict kvs)
  show ?thesis
    unfolding main_Inr_iff JDict get_or_get_dict step_Inr
    using summary_table_dict [of py "get_dict kvs ''summary''"]
      latency_table_dict [of py "get_dict kvs ''latency''"]
      resources_table_dict [of py "get_dict kvs ''resources''"]
    by auto
qed (simp_all add: main_Inr_iff get_or_def)

subsection \<open>Some printed numbers\<close>

lemma format_comma_examples:
  "format_comma 1234567 = ''1,234,567''"
  "format_comma 1000000 = ''1,000,000''"
  "format_comma 42 = ''42''"
  by (simp_all add: format_comma_def num_eval)

lemma str_int_million: "str_int 1000000 = ''1000000''"
  by (simp add: str_int_def num_eval)

lemma py_float_JFloat: "py_float py (JFloat x) = Inr x"
  by (simp add: py_float_def)

lemma py_float_twelve: "py_float py (JInt 12) = Inr (Finite False 12 0)"
  by (simp add: py_float_def float_of_int_def nearest_double_def)

lemma format_fixed_examples:
  "format_fixed (Finite False 12 0) 4 = ''12.0000''"
  "format_fixed (Finite False 3 (- 1)) 6 = ''1.500000''"
  by (simp_all add: format_fixed_def scaled_round_def Let_def num_eval)

subsection \<open>The text of the report\<close>

lemma content_layout:
  "content date env go_cmd ts_cmd loadgen_cmd go_tab tunnel_tab handshake_tab record_tab
     yamux_tab summary_tab config_tab latency_tab resources_tab =
     ''# Benchmark Results\<newline>\<newline>Run date: ''
       @ date
       @ ''\<newline>\<newline>## Environment\<newline>\<newline>''
       @ env
       @ ''\<newline>\<newline>## Commands\<newline>\<newline>```bash\<newline># Go micro benches\<newline>''
       @ go_cmd
       @ ''\<newline>\<newline># TS micro benches\<newline>''
       @ ts_cmd
       @ ''\<newline>\<newline># Load generator (full mode, loopback)\<newline>''
       @ loadgen_cmd
       @ ''\<newline>```\<newline>\<newline>## Go Benchmarks\<newline>\<newline>### E2EE (ns/op, B/op, allocs/op)\<newline>\<newline>''
       @ ''| Benchmark | ns/op | B/op | allocs/op |\<newline>''
       @ ''| --- | ---: | ---: | ---: |\<newline>''
       @ go_tab
       @ ''\<newline>\<newline>### Tunnel Server Hot Path (ns/op, B/op, allocs/op)\<newline>\<newline>''
       @ ''| Benchmark | ns/op | B/op | allocs/op |\<newline>''
       @ ''| --- | ---: | ---: | ---: |\<newline>''
       @ tunnel_tab
       @ ''\<newline>\<newline>## TypeScript Benchmarks\<newline>\<newline>''
       @ ''### E2EE Handshake (ops/s, mean ms)\<newline>\<newline>''
       @ ''| Benchmark | ops/s (hz) | mean (ms) |\<newline>''
       @ ''| --- | ---: | ---: |\<newline>''
       @ handshake_tab
       @ ''\<newline>\<newline>### E2EE Record (ops/s, mean ms)\<newline>\<newline>''
       @ ''| Benchmark | ops/s (hz) | mean (ms) |\<newline>''
       @ ''| --- | ---: | ---: |\<newline>''
       @ record_tab
       @ ''\<newline>\<newline>### Yamux (ops/s, mean ms)\<newline>\<newline>''
       @ ''| Benchmark | ops/s (hz) | mean (ms) |\<newline>''
       @ ''| --- | ---: | ---: |\<newline>''
       @ yamux_tab
       @ ''\<newline>\<newline>## Load Generator (full mode)\<newline>\<newline>### Summary\<newline>\<newline>''
       @ ''| Metric | Value |\<newline>| --- | ---: |\<newline>''
       @ summary_tab
       @ ''\<newline>\<newline>### Config\<newline>\<newline>| Key | Value |\<newline>| --- | --- |\<newline>''
       @ config_tab
       @ ''\<newline>\<newline>### Latency (ms)\<newline>\<newline>''
       @ ''| Stage | p50 | p95 | p99 | mean | min | max |\<newline>''
       @ ''| --- | ---: | ---: | ---: | ---: | ---: | ---: |\<newline>''
       @ latency_tab
       @ ''\<newline>\<newline>### Resources (peak)\<newline>\<newline>| Metric | Value |\<newline>| --- | ---: |\<newline>''
       @ resources_tab
       @ ''\<newline>''"
  by (simp add: content_def)

lemma main_layout_iff:
  "main py a go_output ts_output loadgen = Inr doc \<longleftrightarrow>
   (\<exists>ram summary_tab config_tab latency_tab resources_tab.
      float_of_string py (ram_bytes a) = Inr ram \<and>
      step (get_or loadgen ''summary'' (JDict [])) (summary_table py) = Inr summary_tab \<and>
      step (get_or loadgen ''config'' (JDict [])) (config_table py) = Inr config_tab \<and>
      step (get_or loadgen ''latency'' (JDict [])) (latency_table py) = Inr latency_tab \<and>
      step (get_or loadgen ''resources'' (JDict [])) (resources_table py) = Inr resources_tab \<and>
      doc = ''# Benchmark Results\<newline>\<newline>Run date: ''
            @ (if run_date a \<noteq> [] then run_date a else now_c py)
            @ ''\<newline>\<newline>## Environment\<newline>\<newline>''
            @ join ''\<newline>'' (env_lines a (format_fixed (ram_gb ram) 1))
            @ ''\<newline>\<newline>## Commands\<newline>\<newline>```bash\<newline># Go micro benches\<newline>''
            @ go_command a
            @ ''\<newline>\<newline># TS micro benches\<newline>''
            @ ts_command a
            @ ''\<newline>\<newline># Load generator (full mode, loopback)\<newline>''
            @ loadgen_command a
            @ ''\<newline>```\<newline>\<newline>## Go Benchmarks\<newline>\<newline>### E2EE (ns/op, B/op, allocs/op)\<newline>\<newline>''
            @ ''| Benchmark | ns/op | B/op | allocs/op |\<newline>''
            @ ''| --- | ---: | ---: | ---: |\<newline>''
            @ join ''\<newline>'' (map go_row (go_records ''e2ee'' [] (file_lines go_output)))
            @ ''\<newline>\<newline>### Tunnel Server Hot Path (ns/op, B/op, allocs/op)\<newline>\<newline>''
            @ ''| Benchmark | ns/op | B/op | allocs/op |\<newline>''
            @ ''| --- | ---: | ---: | ---: |\<newline>''
            @ join ''\<newline>'' (map go_row (go_records ''tunnel'' [] (file_lines go_output)))
            @ ''\<newline>\<newline>## TypeScript Benchmarks\<newline>\<newline>''
            @ ''### E2EE Handshake (ops/s, mean ms)\<newline>\<newline>''
            @ ''| Benchmark | ops/s (hz) | mean (ms) |\<newline>''
            @ ''| --- | ---: | ---: |\<newline>''
            @ join ''\<newline>'' (map ts_line (ts_records ''handshake'' None (file_lines ts_output)))
            @ ''\<newline>\<newline>### E2EE Record (ops/s, mean ms)\<newline>\<newline>''
            @ ''| Benchmark | ops/s (hz) | mean (ms) |\<newline>''
            @ ''| --- | ---: | ---: |\<newline>''
            @ join ''\<newline>'' (map ts_line (ts_records ''record'' None (file_lines ts_output)))
            @ ''\<newline>\<newline>### Yamux (ops/s, mean ms)\<newline>\<newline>''
            @ ''| Benchmark | ops/s (hz) | mean (ms) |\<newline>''
            @ ''| --- | ---: | ---: |\<newline>''
            @ join ''\<newline>'' (map ts_line (ts_records ''yamux'' None (file_lines ts_output)))
            @ ''\<newline>\<newline>## Load Generator (full mode)\<newline>\<newline>### Summary\<newline>\<newline>''
            @ ''| Metric | Value |\<newline>| --- | ---: |\<newline>''
            @ summary_tab
            @ ''\<newline>\<newline>### Config\<newline>\<newline>| Key | Value |\<newline>| --- | --- |\<newline>''
            @ config_tab
            @ ''\<newline>\<newline>### Latency (ms)\<newline>\<newline>''
            @ ''| Stage | p50 | p95 | p99 | mean | min | max |\<newline>''
            @ ''| --- | ---: | ---: | ---: | ---: | ---: | ---: |\<newline>''
            @ latency_tab
            @ ''\<newline>\<newline>### Resources (peak)\<newline>\<newline>| Metric | Value |\<newline>| --- | ---: |\<newline>''
            @ resources_tab
            @ ''\<newline>'')"
  unfolding main_Inr_iff content_layout ..

lemma main_tables_layout_iff:
  "main py a go_output ts_output loadgen = Inr doc \<longleftrightarrow>
   (\<exists>kvs sm lat res ram summary_tab config_tab latency_tab resources_tab.
      loadgen = JDict kvs \<and>
      get_dict kvs ''summary'' = JDict sm \<and>
      get_dict kvs ''latency'' = JDict lat \<and>
      get_dict kvs ''resources'' = JDict res \<and>
      float_of_string py (ram_bytes a) = Inr ram \<and>
      summary_table py (JDict sm) = Inr summary_tab \<and>
      config_table py (get_dict kvs ''config'') = Inr config_tab \<and>
      latency_table py (JDict lat) = Inr latency_tab \<and>
      resources_table py (JDict res) = Inr resources_tab \<and>
      doc = ''# Benchmark Results\<newline>\<newline>Run date: ''
            @ (if run_date a \<noteq> [] then run_date a else now_c py)
            @ ''\<newline>\<newline>## Environment\<newline>\<newline>''
            @ join ''\<newline>'' (env_lines a (format_fixed (ram_gb ram) 1))
            @ ''\<newline>\<newline>## Commands\<newline>\<newline>```bash\<newline># Go micro benches\<newline>''
            @ go_command a
            @ ''\<newline>\<newline># TS micro benches\<newline>''
            @ ts_command a
            @ ''\<newline>\<newline># Load generator (full mode, loopback)\<newline>''
            @ loadgen_command a
            @ ''\<newline>```\<newline>\<newline>## Go Benchmarks\<newline>\<newline>### E2EE (ns/op, B/op, allocs/op)\<newline>\<newline>''
            @ ''| Benchmark | ns/op | B/op | allocs/op |\<newline>''
            @ ''| --- | ---: | ---: | ---: |\<newline>''
            @ join ''\<newline>'' (map go_row (go_records ''e2ee'' [] (file_lines go_output)))
            @ ''\<newline>\<newline>### Tunnel Server Hot Path (ns/op, B/op, allocs/op)\<newline>\<newline>''
            @ ''| Benchmark | ns/op | B/op | allocs/op |\<newline>''
            @ ''| --- | ---: | ---: | ---: |\<newline>''
            @ join ''\<newline>'' (map go_row (go_records ''tunnel'' [] (file_lines go_output)))
            @ ''\<newline>\<newline>## TypeScript Benchmarks\<newline>\<newline>''
            @ ''### E2EE Handshake (ops/s, mean ms)\<newline>\<newline>''
            @ ''| Benchmark | ops/s (hz) | mean (ms) |\<newline>''
            @ ''| --- | ---: | ---: |\<newline>''
            @ join ''\<newline>'' (map ts_line (ts_records ''handshake'' None (file_lines ts_output)))
            @ ''\<newline>\<newline>### E2EE Record (ops/s, mean ms)\<newline>\<newline>''
            @ ''| Benchmark | ops/s (hz) | mean (ms) |\<newline>''
            @ ''| --- | ---: | ---: |\<newline>''
            @ join ''\<newline>'' (map ts_line (ts_records ''record'' None (file_lines ts_output)))
            @ ''\<newline>\<newline>### Yamux (ops/s, mean ms)\<newline>\<newline>''
            @ ''| Benchmark | ops/s (hz) | mean (ms) |\<newline>''
            @ ''| --- | ---: | ---: |\<newline>''
            @ join ''\<newline>'' (map ts_line (ts_records ''yamux'' None (file_lines ts_output)))
            @ ''\<newline>\<newline>## Load Generator (full mode)\<newline>\<newline>### Summary\<newline>\<newline>''
            @ ''| Metric | Value |\<newline>| --- | ---: |\<newline>''
            @ summary_tab
            @ ''\<newline>\<newline>### Config\<newline>\<newline>| Key | Value |\<newline>| --- | --- |\<newline>''
            @ config_tab
            @ ''\<newline>\<newline>### Latency (ms)\<newline>\<newline>''
            @ ''| Stage | p50 | p95 | p99 | mean | min | max |\<newline>''
            @ ''| --- | ---: | ---: | ---: | ---: | ---: | ---: |\<newline>''
            @ latency_tab
            @ ''\<newline>\<newline>### Resources (peak)\<newline>\<newline>| Metric | Value |\<newline>| --- | ---: |\<newline>''
            @ resources_tab
            @ ''\<newline>'')"
  unfolding main_tables_iff content_layout ..

lemma str_int_digits: "list_all isdecimal (unsigned (str_int n))"
  using hd_decimal [of "nat n"] hd_decimal [of "nat (- n)"]
    decimal_not_Nil [of "nat n"] decimal_not_Nil [of "nat (- n)"]
  by (auto simp: str_int_def unsigned_def decimal_digits)

subsection \<open>A log with one package and one record\<close>

lemma go_records_append:
  "go_records k p (xs @ ys) = go_records k p xs @ go_records k (foldl go_pkg_after p xs) ys"
proof (induction xs arbitrary: p)
  case Nil
  show ?case by simp
next
  case (Cons x xs)
  show ?case
    by (simp add: go_records_Cons Cons split: option.splits)
qed

lemma go_noise:
  assumes "\<forall>l\<in>set ls. \<not> startswith (strip l) ''pkg:'' \<and> bench_re_match (strip l) = None"
  shows "go_records k p ls = [] \<and> foldl go_pkg_after p ls = p"
  using assms
  by (induction ls) (auto simp: go_records_Cons go_pkg_after_def is_pkg_line_def go_record_def)

lemma go_records_one_record:
  assumes noise: "\<forall>l\<in>set (before @ between @ after).
      \<not> startswith (strip l) ''pkg:'' \<and> bench_re_match (strip l) = None"
    and p: "startswith (strip p) ''pkg:''" "split (strip p) = [w, q]"
    and x: "bench_re_match (strip x) = Some (nm, ns, b, al)"
  shows "go_records k [] (before @ [p] @ between @ [x] @ after) =
     (if go_bucket q = Some k
      then [\<lparr>go_item.name = nm, ns_op = ns, b_op = b, allocs = al\<rparr>] else [])"
proof -
  from noise have n: "go_records k r before = []" "foldl go_pkg_after r before = r"
    "go_records k r between = []" "foldl go_pkg_after r between = r"
    "go_records k r after = []" for r
    using go_noise [of before k r] go_noise [of between k r] go_noise [of after k r] by auto
  have np: "bench_re_match (strip p) = None"
    using p(1) by (rule pkg_line_no_match)
  have nx: "\<not> startswith (strip x) ''pkg:''"
    using x pkg_line_no_match [of "strip x"] by auto
  show ?thesis
    using p np x nx
    by (simp add: go_records_append n go_records_Cons go_pkg_after_def is_pkg_line_def
        go_record_def)
qed

section \<open>Claims about the two parsers\<close>

text \<open>
  Claim C1, as amended. In \<open>parse_go\<close>, take any state \<open>s\<close> the loop can be in (the state
  after any lines \<open>pre\<close>) and any line whose stripped form matches the pattern, with
  groups \<open>nm\<close>, \<open>ns\<close>, \<open>b\<close>, \<open>al\<close>. The dictionary holds the two buckets, and the step
  appends the item to the bucket \<open>e2ee\<close> exactly when the current package ends in
  \<open>/crypto/e2ee\<close>, to the bucket \<open>tunnel\<close> exactly when it ends in \<open>/tunnel/server\<close>,
  and to no bucket otherwise; no package ends in both, so the item goes to at most one
  bucket. Nothing else of the state changes.
\<close>

theorem go_step_routes_by_suffix:
  assumes "go_loop go_init pre = Inr s"
    and "bench_re_match (strip raw) = Some (nm, ns, b, al)"
  shows "\<exists>A B. go_state.out s = [(''e2ee'', A), (''tunnel'', B)] \<and>
     go_step s raw = Inr (s\<lparr>go_state.out :=
       [(''e2ee'', if endswith (pkg s) ''/crypto/e2ee''
                   then A @ [\<lparr>go_item.name = nm, ns_op = ns, b_op = b, allocs = al\<rparr>] else A),
        (''tunnel'', if endswith (pkg s) ''/tunnel/server''
                   then B @ [\<lparr>go_item.name = nm, ns_op = ns, b_op = b, allocs = al\<rparr>] else B)]\<rparr>) \<and>
     \<not> (endswith (pkg s) ''/crypto/e2ee'' \<and> endswith (pkg s) ''/tunnel/server'')"
proof -
  from assms(1) obtain A B where o: "go_state.out s = [(''e2ee'', A), (''tunnel'', B)]"
    using go_init_reach by blast
  have np: "\<not> startswith (strip raw) ''pkg:''"
    using assms(2) pkg_line_no_match by fastforce
  have "go_step s raw = Inr (s\<lparr>go_state.out :=
       [(''e2ee'', if endswith (pkg s) ''/crypto/e2ee''
                   then A @ [\<lparr>go_item.name = nm, ns_op = ns, b_op = b, allocs = al\<rparr>] else A),
        (''tunnel'', if endswith (pkg s) ''/tunnel/server''
                   then B @ [\<lparr>go_item.name = nm, ns_op = ns, b_op = b, allocs = al\<rparr>] else B)]\<rparr>)"
    using np assms(2) o suffixes_exclusive [of "pkg s"]
    by (auto simp: go_step_def append_to_def)
  with o suffixes_exclusive show ?thesis by blast
qed

theorem go_step_routes_by_suffix_witness:
  "go_loop go_init [''pkg: example.com/crypto/e2ee''] =
      Inr \<lparr>pkg = ''example.com/crypto/e2ee'', out = [(''e2ee'', []), (''tunnel'', [])]\<rparr> \<and>
   bench_re_match (strip ''BenchmarkSeal 1000000 52.3 ns/op 16 B/op 1 allocs/op'') =
      Some (''BenchmarkSeal'', ''52.3'', ''16'', ''1'') \<and>
   go_step \<lparr>pkg = ''example.com/crypto/e2ee'', out = [(''e2ee'', []), (''tunnel'', [])]\<rparr>
      ''BenchmarkSeal 1000000 52.3 ns/op 16 B/op 1 allocs/op'' =
      Inr \<lparr>pkg = ''example.com/crypto/e2ee'',
           out = [(''e2ee'', [\<lparr>go_item.name = ''BenchmarkSeal'', ns_op = ''52.3'', b_op = ''16'',
                               allocs = ''1''\<rparr>]), (''tunnel'', [])]\<rparr>"
proof -
  have a: "go_loop go_init [''pkg: example.com/crypto/e2ee''] =
      Inr \<lparr>pkg = ''example.com/crypto/e2ee'', out = [(''e2ee'', []), (''tunnel'', [])]\<rparr>"
    by code_simp
  have b: "bench_re_match (strip ''BenchmarkSeal 1000000 52.3 ns/op 16 B/op 1 allocs/op'') =
      Some (''BenchmarkSeal'', ''52.3'', ''16'', ''1'')"
    by code_simp
  have e: "endswith ''example.com/crypto/e2ee'' ''/crypto/e2ee''" by code_simp
  have t: "\<not> endswith ''example.com/crypto/e2ee'' ''/tunnel/server''" by code_simp
  from go_step_routes_by_suffix [OF a b] e t a b show ?thesis by simp
qed

theorem go_suffix_counterexample:
  "endswith ''example.com/other/e2ee'' ''/e2ee'' \<and>
   bench_re_match (strip ''BenchmarkSeal 1000000 52.3 ns/op 16 B/op 1 allocs/op'') =
      Some (''BenchmarkSeal'', ''52.3'', ''16'', ''1'') \<and>
   parse_go_lines [''pkg: example.com/other/e2ee'',
      ''BenchmarkSeal 1000000 52.3 ns/op 16 B/op 1 allocs/op''] =
      Inr [(''e2ee'', []), (''tunnel'', [])]"
  by code_simp

text \<open>
  Claim C5. For every sequence of lines \<open>ls\<close> and every text, both parsers return a
  group and raise nothing; and a line that fails the pattern is skipped: in \<open>parse_go\<close>
  a line that is no package line and does not match, in \<open>parse_ts\<close> a line that holds
  no marker and either does not start with the bullet or has fewer than five fields, can
  be removed from the input without changing the result.
\<close>

theorem parsers_never_raise:
  "(\<exists>g. parse_go_lines ls = Inr g) \<and> (\<exists>g. parse_ts_lines ls = Inr g) \<and>
   (\<exists>g. parse_go text = Inr g) \<and> (\<exists>g. parse_ts text = Inr g) \<and>
   (\<not> startswith (strip raw) ''pkg:'' \<and> bench_re_match (strip raw) = None \<longrightarrow>
      parse_go_lines (pre @ raw # post) = parse_go_lines (pre @ post)) \<and>
   (\<not> contains ''> e2ee handshake'' raw \<and> \<not> contains ''> e2ee record'' raw \<and>
    \<not> contains ''> yamux'' raw \<and>
    (\<not> startswith (strip raw) [bullet] \<or> length (split (remove_bullets (strip raw))) < 5) \<longrightarrow>
      parse_ts_lines (pre @ raw # post) = parse_ts_lines (pre @ post))"
proof -
  have go: "parse_go_lines (pre @ raw # post) = parse_go_lines (pre @ post)"
    if "\<not> startswith (strip raw) ''pkg:''" "bench_re_match (strip raw) = None"
    using that by (simp add: parse_go_lines_def go_loop_append go_step_skip split: sum.splits)
  have ts: "parse_ts_lines (pre @ raw # post) = parse_ts_lines (pre @ post)"
    if "\<not> contains ''> e2ee handshake'' raw" "\<not> contains ''> e2ee record'' raw"
      "\<not> contains ''> yamux'' raw"
      "\<not> startswith (strip raw) [bullet] \<or> length (split (remove_bullets (strip raw))) < 5"
    using that by (simp add: parse_ts_lines_def ts_loop_append ts_step_skip split: sum.splits)
  show ?thesis
    using go ts by (simp add: parse_go_def parse_ts_def parse_go_lines_scan parse_ts_lines_scan)
qed

theorem parsers_never_raise_witness:
  "\<not> startswith (strip ''goos: linux'') ''pkg:'' \<and> bench_re_match (strip ''goos: linux'') = None \<and>
   parse_go_lines ([''pkg: a/crypto/e2ee''] @ ''goos: linux'' #
       [''BenchmarkSeal 1000000 52.3 ns/op 16 B/op 1 allocs/op'']) =
     parse_go_lines ([''pkg: a/crypto/e2ee''] @
       [''BenchmarkSeal 1000000 52.3 ns/op 16 B/op 1 allocs/op'']) \<and>
   \<not> contains ''> e2ee handshake'' (bullet # '' seal 12.5 0.07'') \<and>
   \<not> contains ''> e2ee record'' (bullet # '' seal 12.5 0.07'') \<and>
   \<not> contains ''> yamux'' (bullet # '' seal 12.5 0.07'') \<and>
   length (split (remove_bullets (strip (bullet # '' seal 12.5 0.07'')))) < 5 \<and>
   parse_ts_lines ([''> yamux''] @ (bullet # '' seal 12.5 0.07'') # []) =
     parse_ts_lines ([''> yamux''] @ [])"
proof -
  have a: "\<not> startswith (strip ''goos: linux'') ''pkg:'' \<and>
      bench_re_match (strip ''goos: linux'') = None"
    by code_simp
  have b: "\<not> contains ''> e2ee handshake'' (bullet # '' seal 12.5 0.07'') \<and>
      \<not> contains ''> e2ee record'' (bullet # '' seal 12.5 0.07'') \<and>
      \<not> contains ''> yamux'' (bullet # '' seal 12.5 0.07'') \<and>
      (\<not> startswith (strip (bullet # '' seal 12.5 0.07'')) [bullet] \<or>
       length (split (remove_bullets (strip (bullet # '' seal 12.5 0.07'')))) < 5)"
    by code_simp
  have c: "length (split (remove_bullets (strip (bullet # '' seal 12.5 0.07'')))) < 5"
    by code_simp
  from parsers_never_raise [of _ _ "''goos: linux''" "[''pkg: a/crypto/e2ee'']"
      "[''BenchmarkSeal 1000000 52.3 ns/op 16 B/op 1 allocs/op'']"] a
  have 1: "parse_go_lines ([''pkg: a/crypto/e2ee''] @ ''goos: linux'' #
       [''BenchmarkSeal 1000000 52.3 ns/op 16 B/op 1 allocs/op'']) =
     parse_go_lines ([''pkg: a/crypto/e2ee''] @
       [''BenchmarkSeal 1000000 52.3 ns/op 16 B/op 1 allocs/op''])"
    by blast
  from parsers_never_raise [of _ _ "bullet # '' seal 12.5 0.07''" "[''> yamux'']" "[]"] b
  have 2: "parse_ts_lines ([''> yamux''] @ (bullet # '' seal 12.5 0.07'') # []) =
     parse_ts_lines ([''> yamux''] @ [])"
    by blast
  from a b c 1 2 show ?thesis by blast
qed

text \<open>
  Claim C6. When no line of the log, stripped, starts with \<open>pkg:\<close>, \<open>parse_go\<close> returns
  the two buckets empty, whatever lines match the pattern.
\<close>

theorem no_pkg_line_empty_buckets:
  assumes "\<forall>l\<in>set ls. \<not> startswith (strip l) ''pkg:''"
  shows "parse_go_lines ls = Inr [(''e2ee'', []), (''tunnel'', [])]"
proof -
  have "go_bucket [] = None" by (simp add: go_bucket_def endswith_def startswith_def)
  with assms show ?thesis by (simp add: parse_go_lines_scan go_records_no_pkg)
qed

theorem no_pkg_line_empty_buckets_witness:
  "\<not> startswith (strip ''BenchmarkSeal 1000000 52.3 ns/op 16 B/op 1 allocs/op'') ''pkg:'' \<and>
   \<not> startswith (strip ''BenchmarkOpen 500000 71.0 ns/op 32 B/op 2 allocs/op'') ''pkg:'' \<and>
   bench_re_match (strip ''BenchmarkSeal 1000000 52.3 ns/op 16 B/op 1 allocs/op'') =
     Some (''BenchmarkSeal'', ''52.3'', ''16'', ''1'') \<and>
   bench_re_match (strip ''BenchmarkOpen 500000 71.0 ns/op 32 B/op 2 allocs/op'') =
     Some (''BenchmarkOpen'', ''71.0'', ''32'', ''2'') \<and>
   parse_go_lines [''BenchmarkSeal 1000000 52.3 ns/op 16 B/op 1 allocs/op'',
                   ''BenchmarkOpen 500000 71.0 ns/op 32 B/op 2 allocs/op''] =
     Inr [(''e2ee'', []), (''tunnel'', [])]"
proof -
  have a: "\<not> startswith (strip ''BenchmarkSeal 1000000 52.3 ns/op 16 B/op 1 allocs/op'') ''pkg:''"
    by code_simp
  have b: "\<not> startswith (strip ''BenchmarkOpen 500000 71.0 ns/op 32 B/op 2 allocs/op'') ''pkg:''"
    by code_simp
  have c: "bench_re_match (strip ''BenchmarkSeal 1000000 52.3 ns/op 16 B/op 1 allocs/op'') =
     Some (''BenchmarkSeal'', ''52.3'', ''16'', ''1'')"
    by code_simp
  have d: "bench_re_match (strip ''BenchmarkOpen 500000 71.0 ns/op 32 B/op 2 allocs/op'') =
     Some (''BenchmarkOpen'', ''71.0'', ''32'', ''2'')"
    by code_simp
  from a b have "\<forall>l\<in>set [''BenchmarkSeal 1000000 52.3 ns/op 16 B/op 1 allocs/op'',
               ''BenchmarkOpen 500000 71.0 ns/op 32 B/op 2 allocs/op''].
      \<not> startswith (strip l) ''pkg:''"
    by simp
  from no_pkg_line_empty_buckets [OF this] a b c d show ?thesis by blast
qed

text \<open>
  Claim C7. In \<open>parse_ts\<close>, let \<open>s\<close> be the state after any lines \<open>pre\<close>, let \<open>m\<close> be a
  line holding a marker, of section \<open>k\<close>, and let \<open>rows\<close> be lines that hold no marker.
  After \<open>pre\<close>, \<open>m\<close> and \<open>rows\<close> the current section is \<open>k\<close>, the bucket of \<open>k\<close> is what
  it was after \<open>pre\<close> followed by the records of the qualifying rows of \<open>rows\<close> in their
  order, and the two other buckets are what they were after \<open>pre\<close>. And when the input
  has no marker line at all, the three buckets are empty.
\<close>

theorem ts_marker_redirects_rows:
  "(ts_loop ts_init pre = Inr s \<and> ts_marker m = Some k \<and> (\<forall>l\<in>set rows. ts_marker l = None) \<longrightarrow>
      (\<exists>A B C. ts_state.out s = [(''handshake'', A), (''record'', B), (''yamux'', C)] \<and>
         ts_loop ts_init (pre @ m # rows) =
           Inr \<lparr>cur_section = Some k,
                out = [(''handshake'', A @ (if k = ''handshake'' then List.map_filter ts_row rows else [])),
                       (''record'', B @ (if k = ''record'' then List.map_filter ts_row rows else [])),
                       (''yamux'', C @ (if k = ''yamux'' then List.map_filter ts_row rows else []))]\<rparr>)) \<and>
   ((\<forall>l\<in>set rows. ts_marker l = None) \<longrightarrow>
      parse_ts_lines rows = Inr [(''handshake'', []), (''record'', []), (''yamux'', [])])"
proof (intro conjI impI)
  assume a: "ts_loop ts_init pre = Inr s \<and> ts_marker m = Some k \<and> (\<forall>l\<in>set rows. ts_marker l = None)"
  then obtain A B C where
    o: "ts_state.out s = [(''handshake'', A), (''record'', B), (''yamux'', C)]"
    and sk: "cur_section s \<in> ts_keys"
    using ts_init_reach by blast
  have s: "s = \<lparr>cur_section = cur_section s,
      out = [(''handshake'', A), (''record'', B), (''yamux'', C)]\<rparr>"
    using o by simp
  from a have nm: "\<forall>l\<in>set rows. ts_marker l = None" and m: "ts_marker m = Some k" by auto
  have "ts_loop ts_init (pre @ m # rows) = ts_loop s (m # rows)"
    using a by (simp add: ts_loop_append)
  also have "\<dots> = Inr \<lparr>cur_section = Some k,
                out = [(''handshake'', A @ (if k = ''handshake'' then List.map_filter ts_row rows else [])),
                       (''record'', B @ (if k = ''record'' then List.map_filter ts_row rows else [])),
                       (''yamux'', C @ (if k = ''yamux'' then List.map_filter ts_row rows else []))]\<rparr>"
    apply (subst s)
    apply (subst ts_loop_scan [OF sk])
    apply (simp add: ts_records_marker [OF m] ts_records_no_marker [OF nm]
        ts_sections_no_marker [OF nm] ts_section_after_def m)
    done
  finally show "\<exists>A B C. ts_state.out s = [(''handshake'', A), (''record'', B), (''yamux'', C)] \<and>
         ts_loop ts_init (pre @ m # rows) =
           Inr \<lparr>cur_section = Some k,
                out = [(''handshake'', A @ (if k = ''handshake'' then List.map_filter ts_row rows else [])),
                       (''record'', B @ (if k = ''record'' then List.map_filter ts_row rows else [])),
                       (''yamux'', C @ (if k = ''yamux'' then List.map_filter ts_row rows else []))]\<rparr>"
    using o by blast
next
  assume "\<forall>l\<in>set rows. ts_marker l = None"
  then show "parse_ts_lines rows = Inr [(''handshake'', []), (''record'', []), (''yamux'', [])]"
    by (simp add: parse_ts_lines_scan ts_records_no_marker)
qed

theorem ts_marker_redirects_rows_witness:
  "ts_loop ts_init [''> e2ee record'', bullet # '' seal 900 a b 1.1''] =
     Inr \<lparr>cur_section = Some ''record'',
          out = [(''handshake'', []),
                 (''record'', [\<lparr>ts_item.name = ''seal'', hz = ''900'', mean_ms = ''1.1''\<rparr>]),
                 (''yamux'', [])]\<rparr> \<and>
   ts_marker ''> yamux'' = Some ''yamux'' \<and>
   ts_marker (bullet # '' open 100 a b 0.5'') = None \<and> ts_marker ''noise'' = None \<and>
   ts_marker (bullet # '' close 50 a b 2.0'') = None \<and>
   ts_loop ts_init ([''> e2ee record'', bullet # '' seal 900 a b 1.1''] @ ''> yamux'' #
       [bullet # '' open 100 a b 0.5'', ''noise'', bullet # '' close 50 a b 2.0'']) =
     Inr \<lparr>cur_section = Some ''yamux'',
          out = [(''handshake'', []),
                 (''record'', [\<lparr>ts_item.name = ''seal'', hz = ''900'', mean_ms = ''1.1''\<rparr>]),
                 (''yamux'', [\<lparr>ts_item.name = ''open'', hz = ''100'', mean_ms = ''0.5''\<rparr>,
                              \<lparr>ts_item.name = ''close'', hz = ''50'', mean_ms = ''2.0''\<rparr>])]\<rparr> \<and>
   parse_ts_lines [bullet # '' open 100 a b 0.5'', ''noise'', bullet # '' close 50 a b 2.0''] =
     Inr [(''handshake'', []), (''record'', []), (''yamux'', [])]"
proof -
  let ?pre = "[''> e2ee record'', bullet # '' seal 900 a b 1.1'']"
  let ?rows = "[bullet # '' open 100 a b 0.5'', ''noise'', bullet # '' close 50 a b 2.0'']"
  let ?s = "\<lparr>cur_section = Some ''record'',
          out = [(''handshake'', []),
                 (''record'', [\<lparr>ts_item.name = ''seal'', hz = ''900'', mean_ms = ''1.1''\<rparr>]),
                 (''yamux'', [])]\<rparr>"
  have a: "ts_loop ts_init ?pre = Inr ?s" by code_simp
  have b: "ts_marker ''> yamux'' = Some ''yamux''" by code_simp
  have c': "ts_marker (bullet # '' open 100 a b 0.5'') = None \<and> ts_marker ''noise'' = None \<and>
     ts_marker (bullet # '' close 50 a b 2.0'') = None"
    by code_simp
  then have c: "\<forall>l\<in>set ?rows. ts_marker l = None" by simp
  have d: "List.map_filter ts_row ?rows =
     [\<lparr>ts_item.name = ''open'', hz = ''100'', mean_ms = ''0.5''\<rparr>,
      \<lparr>ts_item.name = ''close'', hz = ''50'', mean_ms = ''2.0''\<rparr>]"
    by code_simp
  note t = ts_marker_redirects_rows [of ?pre ?s "''> yamux''" "''yamux''" ?rows]
  from t a b c have "\<exists>A B C. ts_state.out ?s = [(''handshake'', A), (''record'', B), (''yamux'', C)] \<and>
         ts_loop ts_init (?pre @ ''> yamux'' # ?rows) =
           Inr \<lparr>cur_section = Some ''yamux'',
                out = [(''handshake'', A @ (if ''yamux'' = ''handshake'' then List.map_filter ts_row ?rows else [])),
                       (''record'', B @ (if ''yamux'' = ''record'' then List.map_filter ts_row ?rows else [])),
                       (''yamux'', C @ (if ''yamux'' = ''yamux'' then List.map_filter ts_row ?rows else []))]\<rparr>"
    by blast
  then have 1: "ts_loop ts_init (?pre @ ''> yamux'' # ?rows) =
     Inr \<lparr>cur_section = Some ''yamux'',
          out = [(''handshake'', []),
                 (''record'', [\<lparr>ts_item.name = ''seal'', hz = ''900'', mean_ms = ''1.1''\<rparr>]),
                 (''yamux'', [\<lparr>ts_item.name = ''open'', hz = ''100'', mean_ms = ''0.5''\<rparr>,
                              \<lparr>ts_item.name = ''close'', hz = ''50'', mean_ms = ''2.0''\<rparr>])]\<rparr>"
    unfolding d by auto
  from t c have 2: "parse_ts_lines ?rows = Inr [(''handshake'', []), (''record'', []), (''yamux'', [])]"
    by blast
  from a b c' 1 2 show ?thesis by blast
qed

text \<open>
  Claim C9. For every input, \<open>parse_go\<close> returns exactly the keys \<open>e2ee\<close> and \<open>tunnel\<close>
  and \<open>parse_ts\<close> exactly the keys \<open>handshake\<close>, \<open>record\<close> and \<open>yamux\<close>; each key holds
  the records of the lines routed to it, taken by a filter over the lines in their order
  (so an empty list, not an absent key, when there is none).
\<close>

theorem groups_have_fixed_keys_in_order:
  "parse_go_lines ls =
     Inr [(''e2ee'', List.map_filter
             (\<lambda>(p, l). if go_bucket p = Some ''e2ee'' then go_record l else None)
             (zip (go_pkgs [] ls) ls)),
          (''tunnel'', List.map_filter
             (\<lambda>(p, l). if go_bucket p = Some ''tunnel'' then go_record l else None)
             (zip (go_pkgs [] ls) ls))] \<and>
   parse_ts_lines ls =
     Inr [(''handshake'', List.map_filter
             (\<lambda>(sec, l). if sec = Some ''handshake'' \<and> ts_marker l = None then ts_row l else None)
             (zip (ts_sections None ls) ls)),
          (''record'', List.map_filter
             (\<lambda>(sec, l). if sec = Some ''record'' \<and> ts_marker l = None then ts_row l else None)
             (zip (ts_sections None ls) ls)),
          (''yamux'', List.map_filter
             (\<lambda>(sec, l). if sec = Some ''yamux'' \<and> ts_marker l = None then ts_row l else None)
             (zip (ts_sections None ls) ls))]"
  by (simp add: parse_go_lines_scan parse_ts_lines_scan go_records_def ts_records_def)

theorem groups_have_fixed_keys_in_order_witness:
  "parse_go_lines [''pkg: a/tunnel/server'', ''BenchmarkA 1 2.5 ns/op 3 B/op 4 allocs/op'',
      ''pkg: a/crypto/e2ee'', ''BenchmarkB 1 2.5 ns/op 3 B/op 4 allocs/op'',
      ''BenchmarkC 1 2.5 ns/op 3 B/op 4 allocs/op''] =
     Inr [(''e2ee'', [\<lparr>go_item.name = ''BenchmarkB'', ns_op = ''2.5'', b_op = ''3'', allocs = ''4''\<rparr>,
                      \<lparr>go_item.name = ''BenchmarkC'', ns_op = ''2.5'', b_op = ''3'', allocs = ''4''\<rparr>]),
          (''tunnel'', [\<lparr>go_item.name = ''BenchmarkA'', ns_op = ''2.5'', b_op = ''3'', allocs = ''4''\<rparr>])] \<and>
   parse_ts_lines [''pkg: a/tunnel/server'', ''BenchmarkA 1 2.5 ns/op 3 B/op 4 allocs/op'',
      ''pkg: a/crypto/e2ee'', ''BenchmarkB 1 2.5 ns/op 3 B/op 4 allocs/op'',
      ''BenchmarkC 1 2.5 ns/op 3 B/op 4 allocs/op''] =
     Inr [(''handshake'', []), (''record'', []), (''yamux'', [])]"
proof -
  let ?ls = "[''pkg: a/tunnel/server'', ''BenchmarkA 1 2.5 ns/op 3 B/op 4 allocs/op'',
      ''pkg: a/crypto/e2ee'', ''BenchmarkB 1 2.5 ns/op 3 B/op 4 allocs/op'',
      ''BenchmarkC 1 2.5 ns/op 3 B/op 4 allocs/op'']"
  have a: "List.map_filter (\<lambda>(p, l). if go_bucket p = Some ''e2ee'' then go_record l else None)
             (zip (go_pkgs [] ?ls) ?ls) =
     [\<lparr>go_item.name = ''BenchmarkB'', ns_op = ''2.5'', b_op = ''3'', allocs = ''4''\<rparr>,
      \<lparr>go_item.name = ''BenchmarkC'', ns_op = ''2.5'', b_op = ''3'', allocs = ''4''\<rparr>]"
    by code_simp
  have b: "List.map_filter (\<lambda>(p, l). if go_bucket p = Some ''tunnel'' then go_record l else None)
             (zip (go_pkgs [] ?ls) ?ls) =
     [\<lparr>go_item.name = ''BenchmarkA'', ns_op = ''2.5'', b_op = ''3'', allocs = ''4''\<rparr>]"
    by code_simp
  have c: "List.map_filter
             (\<lambda>(sec, l). if sec = Some k \<and> ts_marker l = None then ts_row l else None)
             (zip (ts_sections None ?ls) ?ls) = []" for k
    by (simp add: ts_section_after_def ts_marker_def startswith_def)
  show ?thesis
    using groups_have_fixed_keys_in_order [of ?ls] unfolding a b c by blast
qed

text \<open>
  Claim C10. In \<open>parse_ts\<close>, a line that holds one of the three markers, read as the file
  yields it, only sets the current section, in every state: the step returns the state
  with \<open>section\<close> set to one of the three keys and the dictionary untouched, whether or
  not the line, stripped, starts with the bullet and has five fields.
\<close>

theorem marker_line_is_never_a_row:
  assumes "contains ''> e2ee handshake'' raw \<or> contains ''> e2ee record'' raw \<or>
           contains ''> yamux'' raw"
  shows "\<exists>k. (k = ''handshake'' \<or> k = ''record'' \<or> k = ''yamux'') \<and>
           ts_step s raw = Inr (s\<lparr>cur_section := Some k\<rparr>) \<and>
           ts_state.out (s\<lparr>cur_section := Some k\<rparr>) = ts_state.out s"
proof -
  from assms have "ts_marker raw \<noteq> None"
    by (auto simp: ts_marker_def)
  then obtain k where k: "ts_marker raw = Some k" by blast
  from ts_marker_keys [OF k] ts_step_marker [OF k] show ?thesis by auto
qed

theorem marker_line_is_never_a_row_witness:
  "contains ''> yamux'' (bullet # '' open 100 a b 0.5 > yamux'') \<and>
   startswith (strip (bullet # '' open 100 a b 0.5 > yamux'')) [bullet] \<and>
   \<not> length (split (remove_bullets (strip (bullet # '' open 100 a b 0.5 > yamux'')))) < 5 \<and>
   (\<exists>k. ts_step \<lparr>cur_section = Some ''record'',
                  out = [(''handshake'', []), (''record'', []), (''yamux'', [])]\<rparr>
           (bullet # '' open 100 a b 0.5 > yamux'') =
         Inr \<lparr>cur_section = Some k,
              out = [(''handshake'', []), (''record'', []), (''yamux'', [])]\<rparr>)"
proof -
  have a: "contains ''> yamux'' (bullet # '' open 100 a b 0.5 > yamux'')" by code_simp
  have b: "startswith (strip (bullet # '' open 100 a b 0.5 > yamux'')) [bullet] \<and>
     \<not> length (split (remove_bullets (strip (bullet # '' open 100 a b 0.5 > yamux'')))) < 5"
    by code_simp
  from a have "contains ''> e2ee handshake'' (bullet # '' open 100 a b 0.5 > yamux'') \<or>
      contains ''> e2ee record'' (bullet # '' open 100 a b 0.5 > yamux'') \<or>
      contains ''> yamux'' (bullet # '' open 100 a b 0.5 > yamux'')"
    by blast
  from marker_line_is_never_a_row [OF this, of "\<lparr>cur_section = Some ''record'',
                  out = [(''handshake'', []), (''record'', []), (''yamux'', [])]\<rparr>"]
  have "\<exists>k. ts_step \<lparr>cur_section = Some ''record'',
                  out = [(''handshake'', []), (''record'', []), (''yamux'', [])]\<rparr>
           (bullet # '' open 100 a b 0.5 > yamux'') =
         Inr \<lparr>cur_section = Some k,
              out = [(''handshake'', []), (''record'', []), (''yamux'', [])]\<rparr>"
    by auto
  with a b show ?thesis by blast
qed

section \<open>Claims about the report\<close>

text \<open>
  Claim C2. Take any log of the Go benchmarks that holds a line which, stripped, is
  \<open>pkg: example.com/crypto/e2ee\<close> and after it a line which, stripped, is
  \<open>BenchmarkSeal 1000000 52.3 ns/op 16 B/op 1 allocs/op\<close>, every other line of the log
  (before, between and after the two) being neither a package line nor a line the pattern
  matches; and take any log of the TypeScript benchmarks, any document of the load
  generator and any arguments. Then \<open>parse_go\<close> returns the one record in the
  bucket \<open>e2ee\<close> and nothing in the bucket \<open>tunnel\<close>, and \<open>main\<close> writes a report exactly
  when the RAM figure and the four tables of the load generator can be printed. The
  report is the text below: under the heading and the two header lines of the E2EE table
  stands the one row \<open>| BenchmarkSeal | 52.3 | 16 | 1 |\<close>, and under the heading and the
  two header lines of the tunnel table stands an empty body.
\<close>

theorem seal_log_renders_one_e2ee_row:
  assumes "file_lines go_output = before @ [p] @ between @ [x] @ after"
    and "strip p = ''pkg: example.com/crypto/e2ee''"
    and "strip x = ''BenchmarkSeal 1000000 52.3 ns/op 16 B/op 1 allocs/op''"
    and "\<forall>l\<in>set (before @ between @ after).
           \<not> startswith (strip l) ''pkg:'' \<and> bench_re_match (strip l) = None"
  shows "parse_go go_output = Inr [(''e2ee'', [\<lparr>go_item.name = ''BenchmarkSeal'', ns_op = ''52.3'', b_op = ''16'', allocs = ''1''\<rparr>]), (''tunnel'', [])] \<and>
   (main py a go_output ts_output loadgen = Inr doc \<longleftrightarrow>
    (\<exists>ram summary_tab config_tab latency_tab resources_tab.
      float_of_string py (ram_bytes a) = Inr ram \<and>
      step (get_or loadgen ''summary'' (JDict [])) (summary_table py) = Inr summary_tab \<and>
      step (get_or loadgen ''config'' (JDict [])) (config_table py) = Inr config_tab \<and>
      step (get_or loadgen ''latency'' (JDict [])) (latency_table py) = Inr latency_tab \<and>
      step (get_or loadgen ''resources'' (JDict [])) (resources_table py) = Inr resources_tab \<and>
      doc = ''# Benchmark Results\<newline>\<newline>Run date: ''
            @ (if run_date a \<noteq> [] then run_date a else now_c py)
            @ ''\<newline>\<newline>## Environment\<newline>\<newline>''
            @ join ''\<newline>'' (env_lines a (format_fixed (ram_gb ram) 1))
            @ ''\<newline>\<newline>## Commands\<newline>\<newline>```bash\<newline># Go micro benches\<newline>''
            @ go_command a
            @ ''\<newline>\<newline># TS micro benches\<newline>''
            @ ts_command a
            @ ''\<newline>\<newline># Load generator (full mode, loopback)\<newline>''
            @ loadgen_command a
            @ ''\<newline>```\<newline>\<newline>## Go Benchmarks\<newline>\<newline>### E2EE (ns/op, B/op, allocs/op)\<newline>\<newline>''
            @ ''| Benchmark | ns/op | B/op | allocs/op |\<newline>''
            @ ''| --- | ---: | ---: | ---: |\<newline>''
            @ ''| BenchmarkSeal | 52.3 | 16 | 1 |\<newline>\<newline>''
            @ ''### Tunnel Server Hot Path (ns/op, B/op, allocs/op)\<newline>\<newline>''
            @ ''| Benchmark | ns/op | B/op | allocs/op |\<newline>''
            @ ''| --- | ---: | ---: | ---: |\<newline>\<newline>\<newline>## TypeScript Benchmarks\<newline>\<newline>''
            @ ''### E2EE Handshake (ops/s, mean ms)\<newline>\<newline>''
            @ ''| Benchmark | ops/s (hz) | mean (ms) |\<newline>''
            @ ''| --- | ---: | ---: |\<newline>''
            @ join ''\<newline>'' (map ts_line (ts_records ''handshake'' None (file_lines ts_output)))
            @ ''\<newline>\<newline>### E2EE Record (ops/s, mean ms)\<newline>\<newline>''
            @ ''| Benchmark | ops/s (hz) | mean (ms) |\<newline>''
            @ ''| --- | ---: | ---: |\<newline>''
            @ join ''\<newline>'' (map ts_line (ts_records ''record'' None (file_lines ts_output)))
            @ ''\<newline>\<newline>### Yamux (ops/s, mean ms)\<newline>\<newline>''
            @ ''| Benchmark | ops/s (hz) | mean (ms) |\<newline>''
            @ ''| --- | ---: | ---: |\<newline>''
            @ join ''\<newline>'' (map ts_line (ts_records ''yamux'' None (file_lines ts_output)))
            @ ''\<newline>\<newline>## Load Generator (full mode)\<newline>\<newline>### Summary\<newline>\<newline>''
            @ ''| Metric | Value |\<newline>| --- | ---: |\<newline>''
            @ summary_tab
            @ ''\<newline>\<newline>### Config\<newline>\<newline>| Key | Value |\<newline>| --- | --- |\<newline>''
            @ config_tab
            @ ''\<newline>\<newline>### Latency (ms)\<newline>\<newline>''
            @ ''| Stage | p50 | p95 | p99 | mean | min | max |\<newline>''
            @ ''| --- | ---: | ---: | ---: | ---: | ---: | ---: |\<newline>''
            @ latency_tab
            @ ''\<newline>\<newline>### Resources (peak)\<newline>\<newline>| Metric | Value |\<newline>| --- | ---: |\<newline>''
            @ resources_tab
            @ ''\<newline>''))"
proof -
  have p: "startswith (strip p) ''pkg:''"
    "split (strip p) = [''pkg:'', ''example.com/crypto/e2ee'']"
    unfolding assms(2) by code_simp+
  have x: "bench_re_match (strip x) = Some (''BenchmarkSeal'', ''52.3'', ''16'', ''1'')"
    unfolding assms(3) by code_simp
  have b: "go_bucket ''example.com/crypto/e2ee'' = Some ''e2ee''"
    by code_simp
  have e: "go_records ''e2ee'' [] (file_lines go_output) = [\<lparr>go_item.name = ''BenchmarkSeal'', ns_op = ''52.3'', b_op = ''16'', allocs = ''1''\<rparr>]"
    unfolding assms(1) go_records_one_record [OF assms(4) p x] by (simp add: b)
  have t: "go_records ''tunnel'' [] (file_lines go_output) = []"
    unfolding assms(1) go_records_one_record [OF assms(4) p x] by (simp add: b)
  have 1: "parse_go go_output = Inr [(''e2ee'', [\<lparr>go_item.name = ''BenchmarkSeal'', ns_op = ''52.3'', b_op = ''16'', allocs = ''1''\<rparr>]), (''tunnel'', [])]"
    by (simp add: parse_go_def parse_go_lines_scan e t)
  have 2: "main py a go_output ts_output loadgen = Inr doc \<longleftrightarrow>
    (\<exists>ram summary_tab config_tab latency_tab resources_tab.
      float_of_string py (ram_bytes a) = Inr ram \<and>
      step (get_or loadgen ''summary'' (JDict [])) (summary_table py) = Inr summary_tab \<and>
      step (get_or loadgen ''config'' (JDict [])) (config_table py) = Inr config_tab \<and>
      step (get_or loadgen ''latency'' (JDict [])) (latency_table py) = Inr latency_tab \<and>
      step (get_or loadgen ''resources'' (JDict [])) (resources_table py) = Inr resources_tab \<and>
      doc = ''# Benchmark Results\<newline>\<newline>Run date: ''
            @ (if run_date a \<noteq> [] then run_date a else now_c py)
            @ ''\<newline>\<newline>## Environment\<newline>\<newline>''
            @ join ''\<newline>'' (env_lines a (format_fixed (ram_gb ram) 1))
            @ ''\<newline>\<newline>## Commands\<newline>\<newline>```bash\<newline># Go micro benches\<newline>''
            @ go_command a
            @ ''\<newline>\<newline># TS micro benches\<newline>''
            @ ts_command a
            @ ''\<newline>\<newline># Load generator (full mode, loopback)\<newline>''
            @ loadgen_command a
            @ ''\<newline>```\<newline>\<newline>## Go Benchmarks\<newline>\<newline>### E2EE (ns/op, B/op, allocs/op)\<newline>\<newline>''
            @ ''| Benchmark | ns/op | B/op | allocs/op |\<newline>''
            @ ''| --- | ---: | ---: | ---: |\<newline>''
            @ ''| BenchmarkSeal | 52.3 | 16 | 1 |\<newline>\<newline>''
            @ ''### Tunnel Server Hot Path (ns/op, B/op, allocs/op)\<newline>\<newline>''
            @ ''| Benchmark | ns/op | B/op | allocs/op |\<newline>''
            @ ''| --- | ---: | ---: | ---: |\<newline>\<newline>\<newline>## TypeScript Benchmarks\<newline>\<newline>''
            @ ''### E2EE Handshake (ops/s, mean ms)\<newline>\<newline>''
            @ ''| Benchmark | ops/s (hz) | mean (ms) |\<newline>''
            @ ''| --- | ---: | ---: |\<newline>''
            @ join ''\<newline>'' (map ts_line (ts_records ''handshake'' None (file_lines ts_output)))
            @ ''\<newline>\<newline>### E2EE Record (ops/s, mean ms)\<newline>\<newline>''
            @ ''| Benchmark | ops/s (hz) | mean (ms) |\<newline>''
            @ ''| --- | ---: | ---: |\<newline>''
            @ join ''\<newline>'' (map ts_line (ts_records ''record'' None (file_lines ts_output)))
            @ ''\<newline>\<newline>### Yamux (ops/s, mean ms)\<newline>\<newline>''
            @ ''| Benchmark | ops/s (hz) | mean (ms) |\<newline>''
            @ ''| --- | ---: | ---: |\<newline>''
            @ join ''\<newline>'' (map ts_line (ts_records ''yamux'' None (file_lines ts_output)))
            @ ''\<newline>\<newline>## Load Generator (full mode)\<newline>\<newline>### Summary\<newline>\<newline>''
            @ ''| Metric | Value |\<newline>| --- | ---: |\<newline>''
            @ summary_tab
            @ ''\<newline>\<newline>### Config\<newline>\<newline>| Key | Value |\<newline>| --- | --- |\<newline>''
            @ config_tab
            @ ''\<newline>\<newline>### Latency (ms)\<newline>\<newline>''
            @ ''| Stage | p50 | p95 | p99 | mean | min | max |\<newline>''
            @ ''| --- | ---: | ---: | ---: | ---: | ---: | ---: |\<newline>''
            @ latency_tab
            @ ''\<newline>\<newline>### Resources (peak)\<newline>\<newline>| Metric | Value |\<newline>| --- | ---: |\<newline>''
            @ resources_tab
            @ ''\<newline>'')"
    unfolding main_layout_iff e t by (simp add: go_row_def)
  from 1 2 show ?thesis ..
qed

theorem seal_log_renders_one_e2ee_row_witness:
  "\<forall>py. main py example_args
       (''goos: linux\<newline>pkg: example.com/crypto/e2ee\<newline>cpu: Example CPU @ 3.00GHz\<newline>''
        @ ''BenchmarkSeal 1000000 52.3 ns/op 16 B/op 1 allocs/op\<newline>PASS\<newline>ok  example.com/crypto/e2ee 1.234s\<newline>'')
       [] (JDict []) =
     Inr (''# Benchmark Results\<newline>\<newline>Run date: Mon Jan  1 12:00:00 2024\<newline>\<newline>''
            @ ''## Environment\<newline>\<newline>- OS: Linux\<newline>- CPU: x86_64\<newline>- RAM: 16.0 GB\<newline>''
            @ ''- Go: go1.22\<newline>- Node: v20.11.0\<newline>- Constraints used:\<newline>''
            @ ''  - Go: `GOMAXPROCS=4`, `GOMEMLIMIT=2GiB`\<newline>''
            @ ''  - Node: `NODE_OPTIONS=--max-old-space-size=2048`\<newline>\<newline>''
            @ ''## Commands\<newline>\<newline>```bash\<newline># Go micro benches\<newline>go test -bench .\<newline>\<newline>''
            @ ''# TS micro benches\<newline>npm run bench\<newline>\<newline>''
            @ ''# Load generator (full mode, loopback)\<newline>loadgen --mode full\<newline>''
            @ ''```\<newline>\<newline>## Go Benchmarks\<newline>\<newline>### E2EE (ns/op, B/op, allocs/op)\<newline>\<newline>''
            @ ''| Benchmark | ns/op | B/op | allocs/op |\<newline>''
            @ ''| --- | ---: | ---: | ---: |\<newline>''
            @ ''| BenchmarkSeal | 52.3 | 16 | 1 |\<newline>\<newline>''
            @ ''### Tunnel Server Hot Path (ns/op, B/op, allocs/op)\<newline>\<newline>''
            @ ''| Benchmark | ns/op | B/op | allocs/op |\<newline>''
            @ ''| --- | ---: | ---: | ---: |\<newline>\<newline>\<newline>## TypeScript Benchmarks\<newline>\<newline>''
            @ ''### E2EE Handshake (ops/s, mean ms)\<newline>\<newline>''
            @ ''| Benchmark | ops/s (hz) | mean (ms) |\<newline>''
            @ ''| --- | ---: | ---: |\<newline>\<newline>\<newline>### E2EE Record (ops/s, mean ms)\<newline>\<newline>''
            @ ''| Benchmark | ops/s (hz) | mean (ms) |\<newline>''
            @ ''| --- | ---: | ---: |\<newline>\<newline>\<newline>### Yamux (ops/s, mean ms)\<newline>\<newline>''
            @ ''| Benchmark | ops/s (hz) | mean (ms) |\<newline>''
            @ ''| --- | ---: | ---: |\<newline>\<newline>\<newline>## Load Generator (full mode)\<newline>\<newline>''
            @ ''### Summary\<newline>\<newline>| Metric | Value |\<newline>| --- | ---: |\<newline>''
            @ ''| attempts | 0 |\<newline>| success | 0 |\<newline>| failure | 0 |\<newline>''
            @ ''| success_rate | 0 |\<newline>| duration_seconds | 0.0000 |\<newline>''
            @ ''| peak_conn_per_sec | 0 |\<newline>| active_peak | 0 |\<newline>\<newline>### Config\<newline>\<newline>''
            @ ''| Key | Value |\<newline>| --- | --- |\<newline>\<newline>\<newline>### Latency (ms)\<newline>\<newline>''
            @ ''| Stage | p50 | p95 | p99 | mean | min | max |\<newline>''
            @ ''| --- | ---: | ---: | ---: | ---: | ---: | ---: |\<newline>''
            @ ''| ws_open | 0.000000 | 0.000000 | 0.000000 | 0.000000 | 0.000000 | 0.000000 |\<newline>''
            @ ''| attach_send | 0.000000 | 0.000000 | 0.000000 | 0.000000 | 0.000000 | 0.000000 |\<newline>''
            @ ''| pair_ready | 0.000000 | 0.000000 | 0.000000 | 0.000000 | 0.000000 | 0.000000 |\<newline>''
            @ ''| handshake | 0.000000 | 0.000000 | 0.000000 | 0.000000 | 0.000000 | 0.000000 |\<newline>''
            @ ''| rpc_call | 0.000000 | 0.000000 | 0.000000 | 0.000000 | 0.000000 | 0.000000 |\<newline>''
            @ ''\<newline>### Resources (peak)\<newline>\<newline>| Metric | Value |\<newline>| --- | ---: |\<newline>''
            @ ''| max_heap_alloc_bytes | 0 |\<newline>| max_heap_inuse_bytes | 0 |\<newline>''
            @ ''| max_sys_bytes | 0 |\<newline>| max_goroutines | 0 |\<newline>'')"
proof
  fix py
  have l: "file_lines
       (''goos: linux\<newline>pkg: example.com/crypto/e2ee\<newline>cpu: Example CPU @ 3.00GHz\<newline>''
        @ ''BenchmarkSeal 1000000 52.3 ns/op 16 B/op 1 allocs/op\<newline>PASS\<newline>ok  example.com/crypto/e2ee 1.234s\<newline>'') =
      [''goos: linux\<newline>''] @ [''pkg: example.com/crypto/e2ee\<newline>'']
      @ [''cpu: Example CPU @ 3.00GHz\<newline>''] @ [''BenchmarkSeal 1000000 52.3 ns/op 16 B/op 1 allocs/op\<newline>'']
      @ [''PASS\<newline>'', ''ok  example.com/crypto/e2ee 1.234s\<newline>'']"
    by code_simp
  have p: "strip ''pkg: example.com/crypto/e2ee\<newline>'' = ''pkg: example.com/crypto/e2ee''"
    by code_simp
  have x: "strip ''BenchmarkSeal 1000000 52.3 ns/op 16 B/op 1 allocs/op\<newline>'' = ''BenchmarkSeal 1000000 52.3 ns/op 16 B/op 1 allocs/op''"
    by code_simp
  have n: "\<forall>l\<in>set ([''goos: linux\<newline>''] @ [''cpu: Example CPU @ 3.00GHz\<newline>'']
        @ [''PASS\<newline>'', ''ok  example.com/crypto/e2ee 1.234s\<newline>'']).
      \<not> startswith (strip l) ''pkg:'' \<and> bench_re_match (strip l) = None"
    by code_simp
  have h: "ts_records ''handshake'' None (file_lines []) = []"
    "ts_records ''record'' None (file_lines []) = []"
    "ts_records ''yamux'' None (file_lines []) = []"
    by code_simp+
  have a: "ram_bytes example_args = ''17179869184''"
    "run_date example_args = ''Mon Jan  1 12:00:00 2024''"
    "go_command example_args = ''go test -bench .''"
    "ts_command example_args = ''npm run bench''"
    "loadgen_command example_args = ''loadgen --mode full''"
    by (simp_all add: example_args_def)
  from seal_log_renders_one_e2ee_row [OF l p x n, THEN conjunct2, of py example_args "[]" "JDict []"]
  show "main py example_args
       (''goos: linux\<newline>pkg: example.com/crypto/e2ee\<newline>cpu: Example CPU @ 3.00GHz\<newline>''
        @ ''BenchmarkSeal 1000000 52.3 ns/op 16 B/op 1 allocs/op\<newline>PASS\<newline>ok  example.com/crypto/e2ee 1.234s\<newline>'')
       [] (JDict []) =
     Inr (''# Benchmark Results\<newline>\<newline>Run date: Mon Jan  1 12:00:00 2024\<newline>\<newline>''
            @ ''## Environment\<newline>\<newline>- OS: Linux\<newline>- CPU: x86_64\<newline>- RAM: 16.0 GB\<newline>''
            @ ''- Go: go1.22\<newline>- Node: v20.11.0\<newline>- Constraints used:\<newline>''
            @ ''  - Go: `GOMAXPROCS=4`, `GOMEMLIMIT=2GiB`\<newline>''
            @ ''  - Node: `NODE_OPTIONS=--max-old-space-size=2048`\<newline>\<newline>''
            @ ''## Commands\<newline>\<newline>```bash\<newline># Go micro benches\<newline>go test -bench .\<newline>\<newline>''
            @ ''# TS micro benches\<newline>npm run bench\<newline>\<newline>''
            @ ''# Load generator (full mode, loopback)\<newline>loadgen --mode full\<newline>''
            @ ''```\<newline>\<newline>## Go Benchmarks\<newline>\<newline>### E2EE (ns/op, B/op, allocs/op)\<newline>\<newline>''
            @ ''| Benchmark | ns/op | B/op | allocs/op |\<newline>''
            @ ''| --- | ---: | ---: | ---: |\<newline>''
            @ ''| BenchmarkSeal | 52.3 | 16 | 1 |\<newline>\<newline>''
            @ ''### Tunnel Server Hot Path (ns/op, B/op, allocs/op)\<newline>\<newline>''
            @ ''| Benchmark | ns/op | B/op | allocs/op |\<newline>''
            @ ''| --- | ---: | ---: | ---: |\<newline>\<newline>\<newline>## TypeScript Benchmarks\<newline>\<newline>''
            @ ''### E2EE Handshake (ops/s, mean ms)\<newline>\<newline>''
            @ ''| Benchmark | ops/s (hz) | mean (ms) |\<newline>''
            @ ''| --- | ---: | ---: |\<newline>\<newline>\<newline>### E2EE Record (ops/s, mean ms)\<newline>\<newline>''
            @ ''| Benchmark | ops/s (hz) | mean (ms) |\<newline>''
            @ ''| --- | ---: | ---: |\<newline>\<newline>\<newline>### Yamux (ops/s, mean ms)\<newline>\<newline>''
            @ ''| Benchmark | ops/s (hz) | mean (ms) |\<newline>''
            @ ''| --- | ---: | ---: |\<newline>\<newline>\<newline>## Load Generator (full mode)\<newline>\<newline>''
            @ ''### Summary\<newline>\<newline>| Metric | Value |\<newline>| --- | ---: |\<newline>''
            @ ''| attempts | 0 |\<newline>| success | 0 |\<newline>| failure | 0 |\<newline>''
            @ ''| success_rate | 0 |\<newline>| duration_seconds | 0.0000 |\<newline>''
            @ ''| peak_conn_per_sec | 0 |\<newline>| active_peak | 0 |\<newline>\<newline>### Config\<newline>\<newline>''
            @ ''| Key | Value |\<newline>| --- | --- |\<newline>\<newline>\<newline>### Latency (ms)\<newline>\<newline>''
            @ ''| Stage | p50 | p95 | p99 | mean | min | max |\<newline>''
            @ ''| --- | ---: | ---: | ---: | ---: | ---: | ---: |\<newline>''
            @ ''| ws_open | 0.000000 | 0.000000 | 0.000000 | 0.000000 | 0.000000 | 0.000000 |\<newline>''
            @ ''| attach_send | 0.000000 | 0.000000 | 0.000000 | 0.000000 | 0.000000 | 0.000000 |\<newline>''
            @ ''| pair_ready | 0.000000 | 0.000000 | 0.000000 | 0.000000 | 0.000000 | 0.000000 |\<newline>''
            @ ''| handshake | 0.000000 | 0.000000 | 0.000000 | 0.000000 | 0.000000 | 0.000000 |\<newline>''
            @ ''| rpc_call | 0.000000 | 0.000000 | 0.000000 | 0.000000 | 0.000000 | 0.000000 |\<newline>''
            @ ''\<newline>### Resources (peak)\<newline>\<newline>| Metric | Value |\<newline>| --- | ---: |\<newline>''
            @ ''| max_heap_alloc_bytes | 0 |\<newline>| max_heap_inuse_bytes | 0 |\<newline>''
            @ ''| max_sys_bytes | 0 |\<newline>| max_goroutines | 0 |\<newline>'')"
    unfolding h a get_or_get_dict get_dict_Nil step_Inr ram_example(1) summary_table_empty
      config_table_empty latency_table_empty resources_table_empty
    by (simp add: ram_example_Suc env_lines_def example_args_def zero_summary_def zero_latency_def zero_resources_def)
qed

text \<open>
  Claim C3, as amended. \<open>main\<close> writes a report exactly when the document of the load
  generator is a dict whose \<open>summary\<close>, \<open>latency\<close> and \<open>resources\<close> (each \<open>{}\<close> when
  missing) are dicts and the RAM figure and the four tables can be printed; the report is
  the text below, with the four tables under their headings. In the resources table each
  of the four counters is \<open>int\<close> of its value (0 when missing) printed with thousands
  separators: digits in groups of three with a comma between two groups, and without the
  commas they are the digits \<open>str\<close> gives. In the latency table each of the six timings
  of each of the five stages is \<open>float\<close> of its value printed with six decimal places,
  and in the summary table \<open>duration_seconds\<close> is printed with four: a finite number
  printed so is digits, a point, and that many digits, and the three other values are
  printed as \<open>inf\<close>, \<open>-inf\<close> and \<open>nan\<close>. The six other fields of the summary
  (\<open>attempts\<close>, \<open>success\<close>, \<open>failure\<close>, \<open>success_rate\<close>, \<open>peak_conn_per_sec\<close>,
  \<open>active_peak\<close>) are put in the row as \<open>str\<close> of the value, through neither of the two
  formats: an integer is there as its plain digits, with no comma. So the claim that
  every integer-like quantity of the summary has thousands separators fails: \<open>attempts\<close>
  of one million is printed as \<open>1000000\<close>.
\<close>

theorem numbers_are_formatted_by_field:
  "(main py a go_output ts_output loadgen = Inr doc \<longleftrightarrow>
    (\<exists>kvs sm lat res ram summary_tab config_tab latency_tab resources_tab.
       loadgen = JDict kvs \<and>
       get_dict kvs ''summary'' = JDict sm \<and>
       get_dict kvs ''latency'' = JDict lat \<and>
       get_dict kvs ''resources'' = JDict res \<and>
       float_of_string py (ram_bytes a) = Inr ram \<and>
       summary_table py (JDict sm) = Inr summary_tab \<and>
       config_table py (get_dict kvs ''config'') = Inr config_tab \<and>
       latency_table py (JDict lat) = Inr latency_tab \<and>
       resources_table py (JDict res) = Inr resources_tab \<and>
       doc = ''# Benchmark Results\<newline>\<newline>Run date: ''
               @ (if run_date a \<noteq> [] then run_date a else now_c py)
               @ ''\<newline>\<newline>## Environment\<newline>\<newline>''
               @ join ''\<newline>'' (env_lines a (format_fixed (ram_gb ram) 1))
               @ ''\<newline>\<newline>## Commands\<newline>\<newline>```bash\<newline># Go micro benches\<newline>''
               @ go_command a
               @ ''\<newline>\<newline># TS micro benches\<newline>''
               @ ts_command a
               @ ''\<newline>\<newline># Load generator (full mode, loopback)\<newline>''
               @ loadgen_command a
               @ ''\<newline>```\<newline>\<newline>## Go Benchmarks\<newline>\<newline>### E2EE (ns/op, B/op, allocs/op)\<newline>\<newline>''
               @ ''| Benchmark | ns/op | B/op | allocs/op |\<newline>''
               @ ''| --- | ---: | ---: | ---: |\<newline>''
               @ join ''\<newline>'' (map go_row (go_records ''e2ee'' [] (file_lines go_output)))
               @ ''\<newline>\<newline>### Tunnel Server Hot Path (ns/op, B/op, allocs/op)\<newline>\<newline>''
               @ ''| Benchmark | ns/op | B/op | allocs/op |\<newline>''
               @ ''| --- | ---: | ---: | ---: |\<newline>''
               @ join ''\<newline>'' (map go_row (go_records ''tunnel'' [] (file_lines go_output)))
               @ ''\<newline>\<newline>## TypeScript Benchmarks\<newline>\<newline>''
               @ ''### E2EE Handshake (ops/s, mean ms)\<newline>\<newline>''
               @ ''| Benchmark | ops/s (hz) | mean (ms) |\<newline>''
               @ ''| --- | ---: | ---: |\<newline>''
               @ join ''\<newline>'' (map ts_line (ts_records ''handshake'' None (file_lines ts_output)))
               @ ''\<newline>\<newline>### E2EE Record (ops/s, mean ms)\<newline>\<newline>''
               @ ''| Benchmark | ops/s (hz) | mean (ms) |\<newline>''
               @ ''| --- | ---: | ---: |\<newline>''
               @ join ''\<newline>'' (map ts_line (ts_records ''record'' None (file_lines ts_output)))
               @ ''\<newline>\<newline>### Yamux (ops/s, mean ms)\<newline>\<newline>''
               @ ''| Benchmark | ops/s (hz) | mean (ms) |\<newline>''
               @ ''| --- | ---: | ---: |\<newline>''
               @ join ''\<newline>'' (map ts_line (ts_records ''yamux'' None (file_lines ts_output)))
               @ ''\<newline>\<newline>## Load Generator (full mode)\<newline>\<newline>### Summary\<newline>\<newline>''
               @ ''| Metric | Value |\<newline>| --- | ---: |\<newline>''
               @ summary_tab
               @ ''\<newline>\<newline>### Config\<newline>\<newline>| Key | Value |\<newline>| --- | --- |\<newline>''
               @ config_tab
               @ ''\<newline>\<newline>### Latency (ms)\<newline>\<newline>''
               @ ''| Stage | p50 | p95 | p99 | mean | min | max |\<newline>''
               @ ''| --- | ---: | ---: | ---: | ---: | ---: | ---: |\<newline>''
               @ latency_tab
               @ ''\<newline>\<newline>### Resources (peak)\<newline>\<newline>| Metric | Value |\<newline>| --- | ---: |\<newline>''
               @ resources_tab
               @ ''\<newline>'')) \<and>
   (resources_table py (JDict rs) = Inr rt \<longleftrightarrow>
    (\<exists>a b c d.
       py_int py (get0 rs ''max_heap_alloc_bytes'') = Inr a \<and>
       py_int py (get0 rs ''max_heap_inuse_bytes'') = Inr b \<and>
       py_int py (get0 rs ''max_sys_bytes'') = Inr c \<and>
       py_int py (get0 rs ''max_goroutines'') = Inr d \<and>
       rt = join ''\<newline>''
         [''| max_heap_alloc_bytes | '' @ format_comma a @ '' |'',
          ''| max_heap_inuse_bytes | '' @ format_comma b @ '' |'',
          ''| max_sys_bytes | '' @ format_comma c @ '' |'',
          ''| max_goroutines | '' @ format_comma d @ '' |''])) \<and>
   comma_grouped (format_comma i) \<and>
   filter (\<lambda>c. c \<noteq> CHR '','') (format_comma i) = str_int i \<and>
   (latency_table py (JDict lt) = Inr ltab \<longleftrightarrow>
    (\<exists>rows. list_all2 (\<lambda>stage row. latency_row py (JDict lt) stage = Inr row) stages rows \<and>
       ltab = join ''\<newline>'' rows)) \<and>
   (latency_row py (JDict lt) stage = Inr row \<longleftrightarrow>
    (\<exists>ivs p50 p95 p99 mean mn mx.
       get_dict lt stage = JDict ivs \<and>
       py_float py (get0 ivs ''p50_ms'') = Inr p50 \<and>
       py_float py (get0 ivs ''p95_ms'') = Inr p95 \<and>
       py_float py (get0 ivs ''p99_ms'') = Inr p99 \<and>
       py_float py (get0 ivs ''mean_ms'') = Inr mean \<and>
       py_float py (get0 ivs ''min_ms'') = Inr mn \<and>
       py_float py (get0 ivs ''max_ms'') = Inr mx \<and>
       row = ''| '' @ stage @ '' | '' @ format_fixed p50 6 @ '' | '' @ format_fixed p95 6
             @ '' | '' @ format_fixed p99 6 @ '' | '' @ format_fixed mean 6
             @ '' | '' @ format_fixed mn 6 @ '' | '' @ format_fixed mx 6 @ '' |'')) \<and>
   (summary_table py (JDict sy) = Inr stab \<longleftrightarrow>
    (\<exists>x.
       py_float py (get0 sy ''duration_seconds'') = Inr x \<and>
       stab = join ''\<newline>''
         [''| attempts | '' @ py_str py (get0 sy ''attempts'') @ '' |'',
          ''| success | '' @ py_str py (get0 sy ''success'') @ '' |'',
          ''| failure | '' @ py_str py (get0 sy ''failure'') @ '' |'',
          ''| success_rate | '' @ py_str py (get0 sy ''success_rate'') @ '' |'',
          ''| duration_seconds | '' @ format_fixed x 4 @ '' |'',
          ''| peak_conn_per_sec | '' @ py_str py (get0 sy ''peak_conn_per_sec'') @ '' |'',
          ''| active_peak | '' @ py_str py (get0 sy ''active_peak'') @ '' |''])) \<and>
   has_places 6 (format_fixed (Finite neg m e) 6) \<and>
   has_places 4 (format_fixed (Finite neg m e) 4) \<and>
   format_fixed (Infinity False) places = ''inf'' \<and>
   format_fixed (Infinity True) places = ''-inf'' \<and>
   format_fixed NaN places = ''nan'' \<and>
   py_str py (JInt n) = str_int n \<and>
   CHR '','' \<notin> set (str_int n) \<and>
   list_all isdecimal (unsigned (str_int n))"
proof (intro conjI)
  show "comma_grouped (format_comma i)"
    by (rule comma_grouped_format_comma)
  show "filter (\<lambda>c. c \<noteq> CHR '','') (format_comma i) = str_int i"
    by (rule filter_format_comma)
  show "has_places 6 (format_fixed (Finite neg m e) 6)"
    by (rule has_places_fixed) simp
  show "has_places 4 (format_fixed (Finite neg m e) 4)"
    by (rule has_places_fixed) simp
  show "format_fixed (Infinity False) places = ''inf''"
    by (simp add: format_fixed_def)
  show "format_fixed (Infinity True) places = ''-inf''"
    by (simp add: format_fixed_def)
  show "format_fixed NaN places = ''nan''"
    by (simp add: format_fixed_def)
  show "py_str py (JInt n) = str_int n"
    by (simp add: py_str_def)
  show "CHR '','' \<notin> set (str_int n)"
    by (rule no_comma_str_int)
  show "list_all isdecimal (unsigned (str_int n))"
    by (rule str_int_digits)
qed (rule main_tables_layout_iff resources_table_iff latency_table_iff latency_row_iff
      summary_table_iff)+

theorem numbers_are_formatted_by_field_witness:
  "\<forall>py.
     main py example_args [] []
       (JDict [(''summary'', JDict [(''attempts'', JInt 1000000), (''duration_seconds'', JInt 12)]),
          (''latency'', JDict [(''ws_open'', JDict [(''p50_ms'', JFloat (Finite False 3 (- 1))),
                                             (''p95_ms'', JFloat (Infinity True))])]),
          (''resources'', JDict [(''max_sys_bytes'', JInt 1234567), (''max_goroutines'', JInt 42)])]) =
     Inr (''# Benchmark Results\<newline>\<newline>Run date: Mon Jan  1 12:00:00 2024\<newline>\<newline>''
            @ ''## Environment\<newline>\<newline>- OS: Linux\<newline>- CPU: x86_64\<newline>- RAM: 16.0 GB\<newline>''
            @ ''- Go: go1.22\<newline>- Node: v20.11.0\<newline>- Constraints used:\<newline>''
            @ ''  - Go: `GOMAXPROCS=4`, `GOMEMLIMIT=2GiB`\<newline>''
            @ ''  - Node: `NODE_OPTIONS=--max-old-space-size=2048`\<newline>\<newline>''
            @ ''## Commands\<newline>\<newline>```bash\<newline># Go micro benches\<newline>go test -bench .\<newline>\<newline>''
            @ ''# TS micro benches\<newline>npm run bench\<newline>\<newline>''
            @ ''# Load generator (full mode, loopback)\<newline>loadgen --mode full\<newline>''
            @ ''```\<newline>\<newline>## Go Benchmarks\<newline>\<newline>### E2EE (ns/op, B/op, allocs/op)\<newline>\<newline>''
            @ ''| Benchmark | ns/op | B/op | allocs/op |\<newline>''
            @ ''| --- | ---: | ---: | ---: |\<newline>\<newline>\<newline>''
            @ ''### Tunnel Server Hot Path (ns/op, B/op, allocs/op)\<newline>\<newline>''
            @ ''| Benchmark | ns/op | B/op | allocs/op |\<newline>''
            @ ''| --- | ---: | ---: | ---: |\<newline>\<newline>\<newline>## TypeScript Benchmarks\<newline>\<newline>''
            @ ''### E2EE Handshake (ops/s, mean ms)\<newline>\<newline>''
            @ ''| Benchmark | ops/s (hz) | mean (ms) |\<newline>''
            @ ''| --- | ---: | ---: |\<newline>\<newline>\<newline>### E2EE Record (ops/s, mean ms)\<newline>\<newline>''
            @ ''| Benchmark | ops/s (hz) | mean (ms) |\<newline>''
            @ ''| --- | ---: | ---: |\<newline>\<newline>\<newline>### Yamux (ops/s, mean ms)\<newline>\<newline>''
            @ ''| Benchmark | ops/s (hz) | mean (ms) |\<newline>''
            @ ''| --- | ---: | ---: |\<newline>\<newline>\<newline>## Load Generator (full mode)\<newline>\<newline>''
            @ ''### Summary\<newline>\<newline>| Metric | Value |\<newline>| --- | ---: |\<newline>''
            @ ''| attempts | 1000000 |\<newline>| success | 0 |\<newline>| failure | 0 |\<newline>''
            @ ''| success_rate | 0 |\<newline>| duration_seconds | 12.0000 |\<newline>''
            @ ''| peak_conn_per_sec | 0 |\<newline>| active_peak | 0 |\<newline>\<newline>### Config\<newline>\<newline>''
            @ ''| Key | Value |\<newline>| --- | --- |\<newline>\<newline>\<newline>### Latency (ms)\<newline>\<newline>''
            @ ''| Stage | p50 | p95 | p99 | mean | min | max |\<newline>''
            @ ''| --- | ---: | ---: | ---: | ---: | ---: | ---: |\<newline>''
            @ ''| ws_open | 1.500000 | -inf | 0.000000 | 0.000000 | 0.000000 | 0.000000 |\<newline>''
            @ ''| attach_send | 0.000000 | 0.000000 | 0.000000 | 0.000000 | 0.000000 | 0.000000 |\<newline>''
            @ ''| pair_ready | 0.000000 | 0.000000 | 0.000000 | 0.000000 | 0.000000 | 0.000000 |\<newline>''
            @ ''| handshake | 0.000000 | 0.000000 | 0.000000 | 0.000000 | 0.000000 | 0.000000 |\<newline>''
            @ ''| rpc_call | 0.000000 | 0.000000 | 0.000000 | 0.000000 | 0.000000 | 0.000000 |\<newline>''
            @ ''\<newline>### Resources (peak)\<newline>\<newline>| Metric | Value |\<newline>| --- | ---: |\<newline>''
            @ ''| max_heap_alloc_bytes | 0 |\<newline>| max_heap_inuse_bytes | 0 |\<newline>''
            @ ''| max_sys_bytes | 1,234,567 |\<newline>| max_goroutines | 42 |\<newline>'') \<and>
     comma_grouped ''1,234,567'' \<and>
     has_places 6 ''1.500000'' \<and>
     has_places 4 ''12.0000''"
proof (intro allI conjI)
  fix py
  note T = numbers_are_formatted_by_field [where py = py]
  note main_iff = T [THEN conjunct1]
  note resources_iff = T [THEN conjunct2, THEN conjunct1]
  note grouped = T [THEN conjunct2, THEN conjunct2, THEN conjunct1]
  note latency_iff = T [THEN conjunct2, THEN conjunct2, THEN conjunct2, THEN conjunct2, THEN conjunct1]
  note row_iff = T [THEN conjunct2, THEN conjunct2, THEN conjunct2, THEN conjunct2, THEN conjunct2, THEN conjunct1]
  note summary_iff = T [THEN conjunct2, THEN conjunct2, THEN conjunct2, THEN conjunct2, THEN conjunct2, THEN conjunct2, THEN conjunct1]
  note places6 = T [THEN conjunct2, THEN conjunct2, THEN conjunct2, THEN conjunct2, THEN conjunct2, THEN conjunct2, THEN conjunct2, THEN conjunct1]
  note places4 = T [THEN conjunct2, THEN conjunct2, THEN conjunct2, THEN conjunct2, THEN conjunct2, THEN conjunct2, THEN conjunct2, THEN conjunct2, THEN conjunct1]
  note minus_inf = T [THEN conjunct2, THEN conjunct2, THEN conjunct2, THEN conjunct2, THEN conjunct2, THEN conjunct2, THEN conjunct2, THEN conjunct2, THEN conjunct2, THEN conjunct2, THEN conjunct1]
  have r: "resources_table py (JDict [(''max_sys_bytes'', JInt 1234567), (''max_goroutines'', JInt 42)]) =
      Inr ''| max_heap_alloc_bytes | 0 |\<newline>| max_heap_inuse_bytes | 0 |\<newline>| max_sys_bytes | 1,234,567 |\<newline>| max_goroutines | 42 |''"
    by (simp add: resources_iff get0_def py_int_JInt format_comma_examples format_comma_zero)
  have s: "summary_table py (JDict [(''attempts'', JInt 1000000), (''duration_seconds'', JInt 12)]) =
      Inr ''| attempts | 1000000 |\<newline>| success | 0 |\<newline>| failure | 0 |\<newline>| success_rate | 0 |\<newline>| duration_seconds | 12.0000 |\<newline>| peak_conn_per_sec | 0 |\<newline>| active_peak | 0 |''"
    by (simp add: summary_iff get0_def py_float_twelve format_fixed_examples py_str_def
        str_int_million str_int_zero)
  have w: "latency_row py (JDict [(''ws_open'', JDict [(''p50_ms'', JFloat (Finite False 3 (- 1))),
                                             (''p95_ms'', JFloat (Infinity True))])]) ''ws_open'' =
      Inr ''| ws_open | 1.500000 | -inf | 0.000000 | 0.000000 | 0.000000 | 0.000000 |''"
    by (simp add: row_iff get_dict_def get0_def py_float_JFloat py_float_zero
        format_fixed_examples format_fixed_zero minus_inf)
  have o: "latency_row py (JDict [(''ws_open'', JDict [(''p50_ms'', JFloat (Finite False 3 (- 1))),
                                             (''p95_ms'', JFloat (Infinity True))])]) stage =
      Inr (''| '' @ stage @ '' | 0.000000 | 0.000000 | 0.000000 | 0.000000 | 0.000000 | 0.000000 |'')"
    if "stage \<noteq> ''ws_open''" for stage
    using that
    by (simp add: row_iff get_dict_def get0_def py_float_zero format_fixed_zero)
  have l: "latency_table py (JDict [(''ws_open'', JDict [(''p50_ms'', JFloat (Finite False 3 (- 1))),
                                             (''p95_ms'', JFloat (Infinity True))])]) =
      Inr ''| ws_open | 1.500000 | -inf | 0.000000 | 0.000000 | 0.000000 | 0.000000 |\<newline>| attach_send | 0.000000 | 0.000000 | 0.000000 | 0.000000 | 0.000000 | 0.000000 |\<newline>| pair_ready | 0.000000 | 0.000000 | 0.000000 | 0.000000 | 0.000000 | 0.000000 |\<newline>| handshake | 0.000000 | 0.000000 | 0.000000 | 0.000000 | 0.000000 | 0.000000 |\<newline>| rpc_call | 0.000000 | 0.000000 | 0.000000 | 0.000000 | 0.000000 | 0.000000 |''"
    by (simp add: latency_iff stages_def list_all2_Cons1 w o)
  have d: "get_dict [(''summary'', JDict [(''attempts'', JInt 1000000), (''duration_seconds'', JInt 12)]),
          (''latency'', JDict [(''ws_open'', JDict [(''p50_ms'', JFloat (Finite False 3 (- 1))),
                                             (''p95_ms'', JFloat (Infinity True))])]),
          (''resources'', JDict [(''max_sys_bytes'', JInt 1234567), (''max_goroutines'', JInt 42)])] ''summary'' = JDict [(''attempts'', JInt 1000000), (''duration_seconds'', JInt 12)]"
    "get_dict [(''summary'', JDict [(''attempts'', JInt 1000000), (''duration_seconds'', JInt 12)]),
          (''latency'', JDict [(''ws_open'', JDict [(''p50_ms'', JFloat (Finite False 3 (- 1))),
                                             (''p95_ms'', JFloat (Infinity True))])]),
          (''resources'', JDict [(''max_sys_bytes'', JInt 1234567), (''max_goroutines'', JInt 42)])] ''latency'' = JDict [(''ws_open'', JDict [(''p50_ms'', JFloat (Finite False 3 (- 1))),
                                             (''p95_ms'', JFloat (Infinity True))])]"
    "get_dict [(''summary'', JDict [(''attempts'', JInt 1000000), (''duration_seconds'', JInt 12)]),
          (''latency'', JDict [(''ws_open'', JDict [(''p50_ms'', JFloat (Finite False 3 (- 1))),
                                             (''p95_ms'', JFloat (Infinity True))])]),
          (''resources'', JDict [(''max_sys_bytes'', JInt 1234567), (''max_goroutines'', JInt 42)])] ''resources'' = JDict [(''max_sys_bytes'', JInt 1234567), (''max_goroutines'', JInt 42)]"
    "get_dict [(''summary'', JDict [(''attempts'', JInt 1000000), (''duration_seconds'', JInt 12)]),
          (''latency'', JDict [(''ws_open'', JDict [(''p50_ms'', JFloat (Finite False 3 (- 1))),
                                             (''p95_ms'', JFloat (Infinity True))])]),
          (''resources'', JDict [(''max_sys_bytes'', JInt 1234567), (''max_goroutines'', JInt 42)])] ''config'' = JDict []"
    by (simp_all add: get_dict_def)
  have g: "go_records ''e2ee'' [] (file_lines []) = []"
    "go_records ''tunnel'' [] (file_lines []) = []"
    "ts_records ''handshake'' None (file_lines []) = []"
    "ts_records ''record'' None (file_lines []) = []"
    "ts_records ''yamux'' None (file_lines []) = []"
    by code_simp+
  have a: "ram_bytes example_args = ''17179869184''"
    "run_date example_args = ''Mon Jan  1 12:00:00 2024''"
    "go_command example_args = ''go test -bench .''"
    "ts_command example_args = ''npm run bench''"
    "loadgen_command example_args = ''loadgen --mode full''"
    by (simp_all add: example_args_def)
  show "main py example_args [] []
       (JDict [(''summary'', JDict [(''attempts'', JInt 1000000), (''duration_seconds'', JInt 12)]),
          (''latency'', JDict [(''ws_open'', JDict [(''p50_ms'', JFloat (Finite False 3 (- 1))),
                                             (''p95_ms'', JFloat (Infinity True))])]),
          (''resources'', JDict [(''max_sys_bytes'', JInt 1234567), (''max_goroutines'', JInt 42)])]) =
     Inr (''# Benchmark Results\<newline>\<newline>Run date: Mon Jan  1 12:00:00 2024\<newline>\<newline>''
            @ ''## Environment\<newline>\<newline>- OS: Linux\<newline>- CPU: x86_64\<newline>- RAM: 16.0 GB\<newline>''
            @ ''- Go: go1.22\<newline>- Node: v20.11.0\<newline>- Constraints used:\<newline>''
            @ ''  - Go: `GOMAXPROCS=4`, `GOMEMLIMIT=2GiB`\<newline>''
            @ ''  - Node: `NODE_OPTIONS=--max-old-space-size=2048`\<newline>\<newline>''
            @ ''## Commands\<newline>\<newline>```bash\<newline># Go micro benches\<newline>go test -bench .\<newline>\<newline>''
            @ ''# TS micro benches\<newline>npm run bench\<newline>\<newline>''
            @ ''# Load generator (full mode, loopback)\<newline>loadgen --mode full\<newline>''
            @ ''```\<newline>\<newline>## Go Benchmarks\<newline>\<newline>### E2EE (ns/op, B/op, allocs/op)\<newline>\<newline>''
            @ ''| Benchmark | ns/op | B/op | allocs/op |\<newline>''
            @ ''| --- | ---: | ---: | ---: |\<newline>\<newline>\<newline>''
            @ ''### Tunnel Server Hot Path (ns/op, B/op, allocs/op)\<newline>\<newline>''
            @ ''| Benchmark | ns/op | B/op | allocs/op |\<newline>''
            @ ''| --- | ---: | ---: | ---: |\<newline>\<newline>\<newline>## TypeScript Benchmarks\<newline>\<newline>''
            @ ''### E2EE Handshake (ops/s, mean ms)\<newline>\<newline>''
            @ ''| Benchmark | ops/s (hz) | mean (ms) |\<newline>''
            @ ''| --- | ---: | ---: |\<newline>\<newline>\<newline>### E2EE Record (ops/s, mean ms)\<newline>\<newline>''
            @ ''| Benchmark | ops/s (hz) | mean (ms) |\<newline>''
            @ ''| --- | ---: | ---: |\<newline>\<newline>\<newline>### Yamux (ops/s, mean ms)\<newline>\<newline>''
            @ ''| Benchmark | ops/s (hz) | mean (ms) |\<newline>''
            @ ''| --- | ---: | ---: |\<newline>\<newline>\<newline>## Load Generator (full mode)\<newline>\<newline>''
            @ ''### Summary\<newline>\<newline>| Metric | Value |\<newline>| --- | ---: |\<newline>''
            @ ''| attempts | 1000000 |\<newline>| success | 0 |\<newline>| failure | 0 |\<newline>''
            @ ''| success_rate | 0 |\<newline>| duration_seconds | 12.0000 |\<newline>''
            @ ''| peak_conn_per_sec | 0 |\<newline>| active_peak | 0 |\<newline>\<newline>### Config\<newline>\<newline>''
            @ ''| Key | Value |\<newline>| --- | --- |\<newline>\<newline>\<newline>### Latency (ms)\<newline>\<newline>''
            @ ''| Stage | p50 | p95 | p99 | mean | min | max |\<newline>''
            @ ''| --- | ---: | ---: | ---: | ---: | ---: | ---: |\<newline>''
            @ ''| ws_open | 1.500000 | -inf | 0.000000 | 0.000000 | 0.000000 | 0.000000 |\<newline>''
            @ ''| attach_send | 0.000000 | 0.000000 | 0.000000 | 0.000000 | 0.000000 | 0.000000 |\<newline>''
            @ ''| pair_ready | 0.000000 | 0.000000 | 0.000000 | 0.000000 | 0.000000 | 0.000000 |\<newline>''
            @ ''| handshake | 0.000000 | 0.000000 | 0.000000 | 0.000000 | 0.000000 | 0.000000 |\<newline>''
            @ ''| rpc_call | 0.000000 | 0.000000 | 0.000000 | 0.000000 | 0.000000 | 0.000000 |\<newline>''
            @ ''\<newline>### Resources (peak)\<newline>\<newline>| Metric | Value |\<newline>| --- | ---: |\<newline>''
            @ ''| max_heap_alloc_bytes | 0 |\<newline>| max_heap_inuse_bytes | 0 |\<newline>''
            @ ''| max_sys_bytes | 1,234,567 |\<newline>| max_goroutines | 42 |\<newline>'')"
    apply (rule main_iff [THEN iffD2])
    apply (intro exI conjI)
             apply (rule refl)
            apply (rule d(1))
           apply (rule d(2))
          apply (rule d(3))
         apply (subst a(1), rule ram_example(1))
        apply (rule s)
       apply (subst d(4), rule config_table_empty)
      apply (rule l)
     apply (rule r)
    apply (simp add: g a ram_example_Suc env_lines_def example_args_def)
    done
  show "comma_grouped ''1,234,567''"
    using grouped [of 1234567] by (simp add: format_comma_examples)
  show "has_places 6 ''1.500000''"
    using places6 [of False 3 "- 1"] by (simp add: format_fixed_examples)
  show "has_places 4 ''12.0000''"
    using places4 [of False 12 0] by (simp add: format_fixed_examples)
qed

theorem summary_counts_counterexample:
  "\<forall>py.
     main py example_args [] []
       (JDict [(''summary'', JDict [(''attempts'', JInt 1000000)])]) =
     Inr (''# Benchmark Results\<newline>\<newline>Run date: Mon Jan  1 12:00:00 2024\<newline>\<newline>''
            @ ''## Environment\<newline>\<newline>- OS: Linux\<newline>- CPU: x86_64\<newline>- RAM: 16.0 GB\<newline>''
            @ ''- Go: go1.22\<newline>- Node: v20.11.0\<newline>- Constraints used:\<newline>''
            @ ''  - Go: `GOMAXPROCS=4`, `GOMEMLIMIT=2GiB`\<newline>''
            @ ''  - Node: `NODE_OPTIONS=--max-old-space-size=2048`\<newline>\<newline>''
            @ ''## Commands\<newline>\<newline>```bash\<newline># Go micro benches\<newline>go test -bench .\<newline>\<newline>''
            @ ''# TS micro benches\<newline>npm run bench\<newline>\<newline>''
            @ ''# Load generator (full mode, loopback)\<newline>loadgen --mode full\<newline>''
            @ ''```\<newline>\<newline>## Go Benchmarks\<newline>\<newline>### E2EE (ns/op, B/op, allocs/op)\<newline>\<newline>''
            @ ''| Benchmark | ns/op | B/op | allocs/op |\<newline>''
            @ ''| --- | ---: | ---: | ---: |\<newline>\<newline>\<newline>''
            @ ''### Tunnel Server Hot Path (ns/op, B/op, allocs/op)\<newline>\<newline>''
            @ ''| Benchmark | ns/op | B/op | allocs/op |\<newline>''
            @ ''| --- | ---: | ---: | ---: |\<newline>\<newline>\<newline>## TypeScript Benchmarks\<newline>\<newline>''
            @ ''### E2EE Handshake (ops/s, mean ms)\<newline>\<newline>''
            @ ''| Benchmark | ops/s (hz) | mean (ms) |\<newline>''
            @ ''| --- | ---: | ---: |\<newline>\<newline>\<newline>### E2EE Record (ops/s, mean ms)\<newline>\<newline>''
            @ ''| Benchmark | ops/s (hz) | mean (ms) |\<newline>''
            @ ''| --- | ---: | ---: |\<newline>\<newline>\<newline>### Yamux (ops/s, mean ms)\<newline>\<newline>''
            @ ''| Benchmark | ops/s (hz) | mean (ms) |\<newline>''
            @ ''| --- | ---: | ---: |\<newline>\<newline>\<newline>## Load Generator (full mode)\<newline>\<newline>''
            @ ''### Summary\<newline>\<newline>| Metric | Value |\<newline>| --- | ---: |\<newline>''
            @ ''| attempts | 1000000 |\<newline>| success | 0 |\<newline>| failure | 0 |\<newline>''
            @ ''| success_rate | 0 |\<newline>| duration_seconds | 0.0000 |\<newline>''
            @ ''| peak_conn_per_sec | 0 |\<newline>| active_peak | 0 |\<newline>\<newline>### Config\<newline>\<newline>''
            @ ''| Key | Value |\<newline>| --- | --- |\<newline>\<newline>\<newline>### Latency (ms)\<newline>\<newline>''
            @ ''| Stage | p50 | p95 | p99 | mean | min | max |\<newline>''
            @ ''| --- | ---: | ---: | ---: | ---: | ---: | ---: |\<newline>''
            @ ''| ws_open | 0.000000 | 0.000000 | 0.000000 | 0.000000 | 0.000000 | 0.000000 |\<newline>''
            @ ''| attach_send | 0.000000 | 0.000000 | 0.000000 | 0.000000 | 0.000000 | 0.000000 |\<newline>''
            @ ''| pair_ready | 0.000000 | 0.000000 | 0.000000 | 0.000000 | 0.000000 | 0.000000 |\<newline>''
            @ ''| handshake | 0.000000 | 0.000000 | 0.000000 | 0.000000 | 0.000000 | 0.000000 |\<newline>''
            @ ''| rpc_call | 0.000000 | 0.000000 | 0.000000 | 0.000000 | 0.000000 | 0.000000 |\<newline>''
            @ ''\<newline>### Resources (peak)\<newline>\<newline>| Metric | Value |\<newline>| --- | ---: |\<newline>''
            @ ''| max_heap_alloc_bytes | 0 |\<newline>| max_heap_inuse_bytes | 0 |\<newline>''
            @ ''| max_sys_bytes | 0 |\<newline>| max_goroutines | 0 |\<newline>'') \<and>
     \<not> comma_grouped ''1000000'' \<and>
     format_comma 1000000 = ''1,000,000''"
proof (intro allI conjI)
  fix py
  have d: "get_dict [(''summary'', JDict [(''attempts'', JInt 1000000)])] ''summary'' =
        JDict [(''attempts'', JInt 1000000)]"
    "get_dict [(''summary'', JDict [(''attempts'', JInt 1000000)])] ''latency'' = JDict []"
    "get_dict [(''summary'', JDict [(''attempts'', JInt 1000000)])] ''resources'' = JDict []"
    "get_dict [(''summary'', JDict [(''attempts'', JInt 1000000)])] ''config'' = JDict []"
    by (simp_all add: get_dict_def)
  have s: "summary_table py (JDict [(''attempts'', JInt 1000000)]) =
      Inr ''| attempts | 1000000 |\<newline>| success | 0 |\<newline>| failure | 0 |\<newline>| success_rate | 0 |\<newline>| duration_seconds | 0.0000 |\<newline>| peak_conn_per_sec | 0 |\<newline>| active_peak | 0 |''"
    by (simp add: summary_table_iff get0_def py_float_zero format_fixed_zero py_str_def
        str_int_million str_int_zero)
  have g: "go_records ''e2ee'' [] (file_lines []) = []"
    "go_records ''tunnel'' [] (file_lines []) = []"
    "ts_records ''handshake'' None (file_lines []) = []"
    "ts_records ''record'' None (file_lines []) = []"
    "ts_records ''yamux'' None (file_lines []) = []"
    by code_simp+
  have a: "ram_bytes example_args = ''17179869184''"
    "run_date example_args = ''Mon Jan  1 12:00:00 2024''"
    "go_command example_args = ''go test -bench .''"
    "ts_command example_args = ''npm run bench''"
    "loadgen_command example_args = ''loadgen --mode full''"
    by (simp_all add: example_args_def)
  show "main py example_args [] []
       (JDict [(''summary'', JDict [(''attempts'', JInt 1000000)])]) =
     Inr (''# Benchmark Results\<newline>\<newline>Run date: Mon Jan  1 12:00:00 2024\<newline>\<newline>''
            @ ''## Environment\<newline>\<newline>- OS: Linux\<newline>- CPU: x86_64\<newline>- RAM: 16.0 GB\<newline>''
            @ ''- Go: go1.22\<newline>- Node: v20.11.0\<newline>- Constraints used:\<newline>''
            @ ''  - Go: `GOMAXPROCS=4`, `GOMEMLIMIT=2GiB`\<newline>''
            @ ''  - Node: `NODE_OPTIONS=--max-old-space-size=2048`\<newline>\<newline>''
            @ ''## Commands\<newline>\<newline>```bash\<newline># Go micro benches\<newline>go test -bench .\<newline>\<newline>''
            @ ''# TS micro benches\<newline>npm run bench\<newline>\<newline>''
            @ ''# Load generator (full mode, loopback)\<newline>loadgen --mode full\<newline>''
            @ ''```\<newline>\<newline>## Go Benchmarks\<newline>\<newline>### E2EE (ns/op, B/op, allocs/op)\<newline>\<newline>''
            @ ''| Benchmark | ns/op | B/op | allocs/op |\<newline>''
            @ ''| --- | ---: | ---: | ---: |\<newline>\<newline>\<newline>''
            @ ''### Tunnel Server Hot Path (ns/op, B/op, allocs/op)\<newline>\<newline>''
            @ ''| Benchmark | ns/op | B/op | allocs/op |\<newline>''
            @ ''| --- | ---: | ---: | ---: |\<newline>\<newline>\<newline>## TypeScript Benchmarks\<newline>\<newline>''
            @ ''### E2EE Handshake (ops/s, mean ms)\<newline>\<newline>''
            @ ''| Benchmark | ops/s (hz) | mean (ms) |\<newline>''
            @ ''| --- | ---: | ---: |\<newline>\<newline>\<newline>### E2EE Record (ops/s, mean ms)\<newline>\<newline>''
            @ ''| Benchmark | ops/s (hz) | mean (ms) |\<newline>''
            @ ''| --- | ---: | ---: |\<newline>\<newline>\<newline>### Yamux (ops/s, mean ms)\<newline>\<newline>''
            @ ''| Benchmark | ops/s (hz) | mean (ms) |\<newline>''
            @ ''| --- | ---: | ---: |\<newline>\<newline>\<newline>## Load Generator (full mode)\<newline>\<newline>''
            @ ''### Summary\<newline>\<newline>| Metric | Value |\<newline>| --- | ---: |\<newline>''
            @ ''| attempts | 1000000 |\<newline>| success | 0 |\<newline>| failure | 0 |\<newline>''
            @ ''| success_rate | 0 |\<newline>| duration_seconds | 0.0000 |\<newline>''
            @ ''| peak_conn_per_sec | 0 |\<newline>| active_peak | 0 |\<newline>\<newline>### Config\<newline>\<newline>''
            @ ''| Key | Value |\<newline>| --- | --- |\<newline>\<newline>\<newline>### Latency (ms)\<newline>\<newline>''
            @ ''| Stage | p50 | p95 | p99 | mean | min | max |\<newline>''
            @ ''| --- | ---: | ---: | ---: | ---: | ---: | ---: |\<newline>''
            @ ''| ws_open | 0.000000 | 0.000000 | 0.000000 | 0.000000 | 0.000000 | 0.000000 |\<newline>''
            @ ''| attach_send | 0.000000 | 0.000000 | 0.000000 | 0.000000 | 0.000000 | 0.000000 |\<newline>''
            @ ''| pair_ready | 0.000000 | 0.000000 | 0.000000 | 0.000000 | 0.000000 | 0.000000 |\<newline>''
            @ ''| handshake | 0.000000 | 0.000000 | 0.000000 | 0.000000 | 0.000000 | 0.000000 |\<newline>''
            @ ''| rpc_call | 0.000000 | 0.000000 | 0.000000 | 0.000000 | 0.000000 | 0.000000 |\<newline>''
            @ ''\<newline>### Resources (peak)\<newline>\<newline>| Metric | Value |\<newline>| --- | ---: |\<newline>''
            @ ''| max_heap_alloc_bytes | 0 |\<newline>| max_heap_inuse_bytes | 0 |\<newline>''
            @ ''| max_sys_bytes | 0 |\<newline>| max_goroutines | 0 |\<newline>'')"
    apply (rule main_tables_layout_iff [THEN iffD2])
    apply (intro exI conjI)
             apply (rule refl)
            apply (rule d(1))
           apply (rule d(2))
          apply (rule d(3))
         apply (subst a(1), rule ram_example(1))
        apply (rule s)
       apply (subst d(4), rule config_table_empty)
      apply (rule latency_table_empty)
     apply (rule resources_table_empty)
    apply (simp add: g a ram_example_Suc env_lines_def example_args_def zero_summary_def zero_latency_def zero_resources_def)
    done
  show "\<not> comma_grouped ''1000000''"
    by (simp add: comma_grouped_def unsigned_def)
  show "format_comma 1000000 = ''1,000,000''"
    by (rule format_comma_examples)
qed

text \<open>
  Claim C4. Both parsers return their buckets on every input, and \<open>main\<close> writes a
  report exactly when the RAM figure and the four tables of the load generator can be
  printed. The report is the text below: under the heading and the two header lines of
  each of the five benchmark tables stand the rows of its bucket, one row for each
  record, in order, joined by line feeds. The row of a record of \<open>parse_go\<close> is its four
  fields between bars, and the fields are the four groups the pattern captured on a line
  of the log: pieces of that line, as \<open>bench_re_shape\<close> spells out. The row of a record
  of \<open>parse_ts\<close> is its three fields between bars, and the fields are the fields 0, 1
  and 4 of a line of the log, split at white space once stripped and freed of its
  bullets. No field is read as a number or printed again.
\<close>

theorem captured_fields_are_rendered_verbatim:
  "\<exists>E T H R Y.
     parse_go go_output = Inr [(''e2ee'', E), (''tunnel'', T)] \<and>
     parse_ts ts_output = Inr [(''handshake'', H), (''record'', R), (''yamux'', Y)] \<and>
     (\<forall>doc. main py a go_output ts_output loadgen = Inr doc \<longleftrightarrow>
        (\<exists>ram summary_tab config_tab latency_tab resources_tab.
           float_of_string py (ram_bytes a) = Inr ram \<and>
           step (get_or loadgen ''summary'' (JDict [])) (summary_table py) = Inr summary_tab \<and>
           step (get_or loadgen ''config'' (JDict [])) (config_table py) = Inr config_tab \<and>
           step (get_or loadgen ''latency'' (JDict [])) (latency_table py) = Inr latency_tab \<and>
           step (get_or loadgen ''resources'' (JDict [])) (resources_table py) = Inr resources_tab \<and>
           doc = ''# Benchmark Results\<newline>\<newline>Run date: ''
                   @ (if run_date a \<noteq> [] then run_date a else now_c py)
                   @ ''\<newline>\<newline>## Environment\<newline>\<newline>''
                   @ join ''\<newline>'' (env_lines a (format_fixed (ram_gb ram) 1))
                   @ ''\<newline>\<newline>## Commands\<newline>\<newline>```bash\<newline># Go micro benches\<newline>''
                   @ go_command a
                   @ ''\<newline>\<newline># TS micro benches\<newline>''
                   @ ts_command a
                   @ ''\<newline>\<newline># Load generator (full mode, loopback)\<newline>''
                   @ loadgen_command a
                   @ ''\<newline>```\<newline>\<newline>## Go Benchmarks\<newline>\<newline>### E2EE (ns/op, B/op, allocs/op)\<newline>\<newline>''
                   @ ''| Benchmark | ns/op | B/op | allocs/op |\<newline>''
                   @ ''| --- | ---: | ---: | ---: |\<newline>''
                   @ join ''\<newline>'' (map go_row E)
                   @ ''\<newline>\<newline>### Tunnel Server Hot Path (ns/op, B/op, allocs/op)\<newline>\<newline>''
                   @ ''| Benchmark | ns/op | B/op | allocs/op |\<newline>''
                   @ ''| --- | ---: | ---: | ---: |\<newline>''
                   @ join ''\<newline>'' (map go_row T)
                   @ ''\<newline>\<newline>## TypeScript Benchmarks\<newline>\<newline>''
                   @ ''### E2EE Handshake (ops/s, mean ms)\<newline>\<newline>''
                   @ ''| Benchmark | ops/s (hz) | mean (ms) |\<newline>''
                   @ ''| --- | ---: | ---: |\<newline>''
                   @ join ''\<newline>'' (map ts_line H)
                   @ ''\<newline>\<newline>### E2EE Record (ops/s, mean ms)\<newline>\<newline>''
                   @ ''| Benchmark | ops/s (hz) | mean (ms) |\<newline>''
                   @ ''| --- | ---: | ---: |\<newline>''
                   @ join ''\<newline>'' (map ts_line R)
                   @ ''\<newline>\<newline>### Yamux (ops/s, mean ms)\<newline>\<newline>''
                   @ ''| Benchmark | ops/s (hz) | mean (ms) |\<newline>''
                   @ ''| --- | ---: | ---: |\<newline>''
                   @ join ''\<newline>'' (map ts_line Y)
                   @ ''\<newline>\<newline>## Load Generator (full mode)\<newline>\<newline>### Summary\<newline>\<newline>''
                   @ ''| Metric | Value |\<newline>| --- | ---: |\<newline>''
                   @ summary_tab
                   @ ''\<newline>\<newline>### Config\<newline>\<newline>| Key | Value |\<newline>| --- | --- |\<newline>''
                   @ config_tab
                   @ ''\<newline>\<newline>### Latency (ms)\<newline>\<newline>''
                   @ ''| Stage | p50 | p95 | p99 | mean | min | max |\<newline>''
                   @ ''| --- | ---: | ---: | ---: | ---: | ---: | ---: |\<newline>''
                   @ latency_tab
                   @ ''\<newline>\<newline>### Resources (peak)\<newline>\<newline>| Metric | Value |\<newline>| --- | ---: |\<newline>''
                   @ resources_tab
                   @ ''\<newline>'')) \<and>
     (\<forall>r\<in>set (E @ T).
        go_row r = ''| '' @ go_item.name r @ '' | '' @ ns_op r @ '' | '' @ b_op r @ '' | ''
                     @ allocs r @ '' |'' \<and>
        (\<exists>raw\<in>set (file_lines go_output).
           bench_re_match (strip raw) = Some (go_item.name r, ns_op r, b_op r, allocs r) \<and>
           bench_re_shape (strip raw) (go_item.name r, ns_op r, b_op r, allocs r))) \<and>
     (\<forall>r\<in>set (H @ R @ Y).
        ts_line r = ''| '' @ ts_item.name r @ '' | '' @ hz r @ '' | '' @ mean_ms r @ '' |'' \<and>
        (\<exists>raw\<in>set (file_lines ts_output).
           5 \<le> length (split (remove_bullets (strip raw))) \<and>
           ts_item.name r = split (remove_bullets (strip raw)) ! 0 \<and>
           hz r = split (remove_bullets (strip raw)) ! 1 \<and>
           mean_ms r = split (remove_bullets (strip raw)) ! 4))"
proof (intro exI conjI)
  show "parse_go go_output =
      Inr [(''e2ee'', go_records ''e2ee'' [] (file_lines go_output)),
           (''tunnel'', go_records ''tunnel'' [] (file_lines go_output))]"
    by (simp add: parse_go_def parse_go_lines_scan)
  show "parse_ts ts_output =
      Inr [(''handshake'', ts_records ''handshake'' None (file_lines ts_output)),
           (''record'', ts_records ''record'' None (file_lines ts_output)),
           (''yamux'', ts_records ''yamux'' None (file_lines ts_output))]"
    by (simp add: parse_ts_def parse_ts_lines_scan)
  show "\<forall>doc. main py a go_output ts_output loadgen = Inr doc \<longleftrightarrow>
        (\<exists>ram summary_tab config_tab latency_tab resources_tab.
           float_of_string py (ram_bytes a) = Inr ram \<and>
           step (get_or loadgen ''summary'' (JDict [])) (summary_table py) = Inr summary_tab \<and>
           step (get_or loadgen ''config'' (JDict [])) (config_table py) = Inr config_tab \<and>
           step (get_or loadgen ''latency'' (JDict [])) (latency_table py) = Inr latency_tab \<and>
           step (get_or loadgen ''resources'' (JDict [])) (resources_table py) = Inr resources_tab \<and>
           doc = ''# Benchmark Results\<newline>\<newline>Run date: ''
                   @ (if run_date a \<noteq> [] then run_date a else now_c py)
                   @ ''\<newline>\<newline>## Environment\<newline>\<newline>''
                   @ join ''\<newline>'' (env_lines a (format_fixed (ram_gb ram) 1))
                   @ ''\<newline>\<newline>## Commands\<newline>\<newline>```bash\<newline># Go micro benches\<newline>''
                   @ go_command a
                   @ ''\<newline>\<newline># TS micro benches\<newline>''
                   @ ts_command a
                   @ ''\<newline>\<newline># Load generator (full mode, loopback)\<newline>''
                   @ loadgen_command a
                   @ ''\<newline>```\<newline>\<newline>## Go Benchmarks\<newline>\<newline>### E2EE (ns/op, B/op, allocs/op)\<newline>\<newline>''
                   @ ''| Benchmark | ns/op | B/op | allocs/op |\<newline>''
                   @ ''| --- | ---: | ---: | ---: |\<newline>''
                   @ join ''\<newline>'' (map go_row (go_records ''e2ee'' [] (file_lines go_output)))
                   @ ''\<newline>\<newline>### Tunnel Server Hot Path (ns/op, B/op, allocs/op)\<newline>\<newline>''
                   @ ''| Benchmark | ns/op | B/op | allocs/op |\<newline>''
                   @ ''| --- | ---: | ---: | ---: |\<newline>''
                   @ join ''\<newline>'' (map go_row (go_records ''tunnel'' [] (file_lines go_output)))
                   @ ''\<newline>\<newline>## TypeScript Benchmarks\<newline>\<newline>''
                   @ ''### E2EE Handshake (ops/s, mean ms)\<newline>\<newline>''
                   @ ''| Benchmark | ops/s (hz) | mean (ms) |\<newline>''
                   @ ''| --- | ---: | ---: |\<newline>''
                   @ join ''\<newline>'' (map ts_line (ts_records ''handshake'' None (file_lines ts_output)))
                   @ ''\<newline>\<newline>### E2EE Record (ops/s, mean ms)\<newline>\<newline>''
                   @ ''| Benchmark | ops/s (hz) | mean (ms) |\<newline>''
                   @ ''| --- | ---: | ---: |\<newline>''
                   @ join ''\<newline>'' (map ts_line (ts_records ''record'' None (file_lines ts_output)))
                   @ ''\<newline>\<newline>### Yamux (ops/s, mean ms)\<newline>\<newline>''
                   @ ''| Benchmark | ops/s (hz) | mean (ms) |\<newline>''
                   @ ''| --- | ---: | ---: |\<newline>''
                   @ join ''\<newline>'' (map ts_line (ts_records ''yamux'' None (file_lines ts_output)))
                   @ ''\<newline>\<newline>## Load Generator (full mode)\<newline>\<newline>### Summary\<newline>\<newline>''
                   @ ''| Metric | Value |\<newline>| --- | ---: |\<newline>''
                   @ summary_tab
                   @ ''\<newline>\<newline>### Config\<newline>\<newline>| Key | Value |\<newline>| --- | --- |\<newline>''
                   @ config_tab
                   @ ''\<newline>\<newline>### Latency (ms)\<newline>\<newline>''
                   @ ''| Stage | p50 | p95 | p99 | mean | min | max |\<newline>''
                   @ ''| --- | ---: | ---: | ---: | ---: | ---: | ---: |\<newline>''
                   @ latency_tab
                   @ ''\<newline>\<newline>### Resources (peak)\<newline>\<newline>| Metric | Value |\<newline>| --- | ---: |\<newline>''
                   @ resources_tab
                   @ ''\<newline>'')"
    by (simp only: main_layout_iff) simp
  show "\<forall>r\<in>set (go_records ''e2ee'' [] (file_lines go_output)
                @ go_records ''tunnel'' [] (file_lines go_output)).
        go_row r = ''| '' @ go_item.name r @ '' | '' @ ns_op r @ '' | '' @ b_op r @ '' | ''
                     @ allocs r @ '' |'' \<and>
        (\<exists>raw\<in>set (file_lines go_output).
           bench_re_match (strip raw) = Some (go_item.name r, ns_op r, b_op r, allocs r) \<and>
           bench_re_shape (strip raw) (go_item.name r, ns_op r, b_op r, allocs r))"
  proof
    fix r
    assume "r \<in> set (go_records ''e2ee'' [] (file_lines go_output)
                @ go_records ''tunnel'' [] (file_lines go_output))"
    then obtain raw where "raw \<in> set (file_lines go_output)" and "go_record raw = Some r"
      using go_records_source by fastforce
    then show "go_row r = ''| '' @ go_item.name r @ '' | '' @ ns_op r @ '' | '' @ b_op r @ '' | ''
                     @ allocs r @ '' |'' \<and>
        (\<exists>raw\<in>set (file_lines go_output).
           bench_re_match (strip raw) = Some (go_item.name r, ns_op r, b_op r, allocs r) \<and>
           bench_re_shape (strip raw) (go_item.name r, ns_op r, b_op r, allocs r))"
      using go_record_fields [of raw r] bench_re_match_shape [of "strip raw"]
      by (auto simp: go_row_def)
  qed
  show "\<forall>r\<in>set (ts_records ''handshake'' None (file_lines ts_output)
                @ ts_records ''record'' None (file_lines ts_output)
                @ ts_records ''yamux'' None (file_lines ts_output)).
        ts_line r = ''| '' @ ts_item.name r @ '' | '' @ hz r @ '' | '' @ mean_ms r @ '' |'' \<and>
        (\<exists>raw\<in>set (file_lines ts_output).
           5 \<le> length (split (remove_bullets (strip raw))) \<and>
           ts_item.name r = split (remove_bullets (strip raw)) ! 0 \<and>
           hz r = split (remove_bullets (strip raw)) ! 1 \<and>
           mean_ms r = split (remove_bullets (strip raw)) ! 4)"
  proof
    fix r
    assume "r \<in> set (ts_records ''handshake'' None (file_lines ts_output)
                @ ts_records ''record'' None (file_lines ts_output)
                @ ts_records ''yamux'' None (file_lines ts_output))"
    then obtain raw where raw: "raw \<in> set (file_lines ts_output)" and "ts_row raw = Some r"
      using ts_records_source by fastforce
    from ts_row_fields [OF this(2)] raw
    show "ts_line r = ''| '' @ ts_item.name r @ '' | '' @ hz r @ '' | '' @ mean_ms r @ '' |'' \<and>
        (\<exists>raw\<in>set (file_lines ts_output).
           5 \<le> length (split (remove_bullets (strip raw))) \<and>
           ts_item.name r = split (remove_bullets (strip raw)) ! 0 \<and>
           hz r = split (remove_bullets (strip raw)) ! 1 \<and>
           mean_ms r = split (remove_bullets (strip raw)) ! 4)"
      by (auto simp: ts_line_def)
  qed
qed

theorem captured_fields_are_rendered_verbatim_witness:
  "\<forall>py.
     bench_re_match (strip ''BenchmarkRoute 500 123.450 ns/op 0 B/op 0 allocs/op'') =
       Some (''BenchmarkRoute'', ''123.450'', ''0'', ''0'') \<and>
     split (remove_bullets (strip (bullet # '' seal 1024.50 0.0700 0.1000 0.0810''))) =
       [''seal'', ''1024.50'', ''0.0700'', ''0.1000'', ''0.0810''] \<and>
     main py example_args
       ''pkg: example.com/tunnel/server\<newline>BenchmarkRoute 500 123.450 ns/op 0 B/op 0 allocs/op\<newline>''
       (''bench.ts > e2ee record\<newline>'' @ bullet # '' seal 1024.50 0.0700 0.1000 0.0810\<newline>'')
       (JDict []) =
     Inr (''# Benchmark Results\<newline>\<newline>Run date: Mon Jan  1 12:00:00 2024\<newline>\<newline>''
            @ ''## Environment\<newline>\<newline>- OS: Linux\<newline>- CPU: x86_64\<newline>- RAM: 16.0 GB\<newline>''
            @ ''- Go: go1.22\<newline>- Node: v20.11.0\<newline>- Constraints used:\<newline>''
            @ ''  - Go: `GOMAXPROCS=4`, `GOMEMLIMIT=2GiB`\<newline>''
            @ ''  - Node: `NODE_OPTIONS=--max-old-space-size=2048`\<newline>\<newline>''
            @ ''## Commands\<newline>\<newline>```bash\<newline># Go micro benches\<newline>go test -bench .\<newline>\<newline>''
            @ ''# TS micro benches\<newline>npm run bench\<newline>\<newline>''
            @ ''# Load generator (full mode, loopback)\<newline>loadgen --mode full\<newline>''
            @ ''```\<newline>\<newline>## Go Benchmarks\<newline>\<newline>### E2EE (ns/op, B/op, allocs/op)\<newline>\<newline>''
            @ ''| Benchmark | ns/op | B/op | allocs/op |\<newline>''
            @ ''| --- | ---: | ---: | ---: |\<newline>\<newline>\<newline>''
            @ ''### Tunnel Server Hot Path (ns/op, B/op, allocs/op)\<newline>\<newline>''
            @ ''| Benchmark | ns/op | B/op | allocs/op |\<newline>''
            @ ''| --- | ---: | ---: | ---: |\<newline>''
            @ ''| BenchmarkRoute | 123.450 | 0 | 0 |\<newline>\<newline>''
            @ ''## TypeScript Benchmarks\<newline>\<newline>''
            @ ''### E2EE Handshake (ops/s, mean ms)\<newline>\<newline>''
            @ ''| Benchmark | ops/s (hz) | mean (ms) |\<newline>''
            @ ''| --- | ---: | ---: |\<newline>\<newline>\<newline>### E2EE Record (ops/s, mean ms)\<newline>\<newline>''
            @ ''| Benchmark | ops/s (hz) | mean (ms) |\<newline>''
            @ ''| --- | ---: | ---: |\<newline>| seal | 1024.50 | 0.0810 |\<newline>\<newline>''
            @ ''### Yamux (ops/s, mean ms)\<newline>\<newline>''
            @ ''| Benchmark | ops/s (hz) | mean (ms) |\<newline>''
            @ ''| --- | ---: | ---: |\<newline>\<newline>\<newline>## Load Generator (full mode)\<newline>\<newline>''
            @ ''### Summary\<newline>\<newline>| Metric | Value |\<newline>| --- | ---: |\<newline>''
            @ ''| attempts | 0 |\<newline>| success | 0 |\<newline>| failure | 0 |\<newline>''
            @ ''| success_rate | 0 |\<newline>| duration_seconds | 0.0000 |\<newline>''
            @ ''| peak_conn_per_sec | 0 |\<newline>| active_peak | 0 |\<newline>\<newline>### Config\<newline>\<newline>''
            @ ''| Key | Value |\<newline>| --- | --- |\<newline>\<newline>\<newline>### Latency (ms)\<newline>\<newline>''
            @ ''| Stage | p50 | p95 | p99 | mean | min | max |\<newline>''
            @ ''| --- | ---: | ---: | ---: | ---: | ---: | ---: |\<newline>''
            @ ''| ws_open | 0.000000 | 0.000000 | 0.000000 | 0.000000 | 0.000000 | 0.000000 |\<newline>''
            @ ''| attach_send | 0.000000 | 0.000000 | 0.000000 | 0.000000 | 0.000000 | 0.000000 |\<newline>''
            @ ''| pair_ready | 0.000000 | 0.000000 | 0.000000 | 0.000000 | 0.000000 | 0.000000 |\<newline>''
            @ ''| handshake | 0.000000 | 0.000000 | 0.000000 | 0.000000 | 0.000000 | 0.000000 |\<newline>''
            @ ''| rpc_call | 0.000000 | 0.000000 | 0.000000 | 0.000000 | 0.000000 | 0.000000 |\<newline>''
            @ ''\<newline>### Resources (peak)\<newline>\<newline>| Metric | Value |\<newline>| --- | ---: |\<newline>''
            @ ''| max_heap_alloc_bytes | 0 |\<newline>| max_heap_inuse_bytes | 0 |\<newline>''
            @ ''| max_sys_bytes | 0 |\<newline>| max_goroutines | 0 |\<newline>'')"
proof (intro allI conjI)
  fix py
  show "bench_re_match (strip ''BenchmarkRoute 500 123.450 ns/op 0 B/op 0 allocs/op'') =
       Some (''BenchmarkRoute'', ''123.450'', ''0'', ''0'')"
    by code_simp
  show "split (remove_bullets (strip (bullet # '' seal 1024.50 0.0700 0.1000 0.0810''))) =
       [''seal'', ''1024.50'', ''0.0700'', ''0.1000'', ''0.0810'']"
    by code_simp
  have g: "parse_go
       ''pkg: example.com/tunnel/server\<newline>BenchmarkRoute 500 123.450 ns/op 0 B/op 0 allocs/op\<newline>'' =
     Inr [(''e2ee'', []),
          (''tunnel'', [\<lparr>go_item.name = ''BenchmarkRoute'', ns_op = ''123.450'', b_op = ''0'',
                          allocs = ''0''\<rparr>])]"
    by code_simp
  have t: "parse_ts (''bench.ts > e2ee record\<newline>'' @ bullet # '' seal 1024.50 0.0700 0.1000 0.0810\<newline>'') =
     Inr [(''handshake'', []),
          (''record'', [\<lparr>ts_item.name = ''seal'', hz = ''1024.50'', mean_ms = ''0.0810''\<rparr>]),
          (''yamux'', [])]"
    by code_simp
  have a: "ram_bytes example_args = ''17179869184''"
    "run_date example_args = ''Mon Jan  1 12:00:00 2024''"
    "go_command example_args = ''go test -bench .''"
    "ts_command example_args = ''npm run bench''"
    "loadgen_command example_args = ''loadgen --mode full''"
    by (simp_all add: example_args_def)
  from captured_fields_are_rendered_verbatim
    [of "''pkg: example.com/tunnel/server\<newline>BenchmarkRoute 500 123.450 ns/op 0 B/op 0 allocs/op\<newline>''"
        "''bench.ts > e2ee record\<newline>'' @ bullet # '' seal 1024.50 0.0700 0.1000 0.0810\<newline>''"
        py example_args "JDict []"]
  show "main py example_args
       ''pkg: example.com/tunnel/server\<newline>BenchmarkRoute 500 123.450 ns/op 0 B/op 0 allocs/op\<newline>''
       (''bench.ts > e2ee record\<newline>'' @ bullet # '' seal 1024.50 0.0700 0.1000 0.0810\<newline>'')
       (JDict []) =
     Inr (''# Benchmark Results\<newline>\<newline>Run date: Mon Jan  1 12:00:00 2024\<newline>\<newline>''
            @ ''## Environment\<newline>\<newline>- OS: Linux\<newline>- CPU: x86_64\<newline>- RAM: 16.0 GB\<newline>''
            @ ''- Go: go1.22\<newline>- Node: v20.11.0\<newline>- Constraints used:\<newline>''
            @ ''  - Go: `GOMAXPROCS=4`, `GOMEMLIMIT=2GiB`\<newline>''
            @ ''  - Node: `NODE_OPTIONS=--max-old-space-size=2048`\<newline>\<newline>''
            @ ''## Commands\<newline>\<newline>```bash\<newline># Go micro benches\<newline>go test -bench .\<newline>\<newline>''
            @ ''# TS micro benches\<newline>npm run bench\<newline>\<newline>''
            @ ''# Load generator (full mode, loopback)\<newline>loadgen --mode full\<newline>''
            @ ''```\<newline>\<newline>## Go Benchmarks\<newline>\<newline>### E2EE (ns/op, B/op, allocs/op)\<newline>\<newline>''
            @ ''| Benchmark | ns/op | B/op | allocs/op |\<newline>''
            @ ''| --- | ---: | ---: | ---: |\<newline>\<newline>\<newline>''
            @ ''### Tunnel Server Hot Path (ns/op, B/op, allocs/op)\<newline>\<newline>''
            @ ''| Benchmark | ns/op | B/op | allocs/op |\<newline>''
            @ ''| --- | ---: | ---: | ---: |\<newline>''
            @ ''| BenchmarkRoute | 123.450 | 0 | 0 |\<newline>\<newline>''
            @ ''## TypeScript Benchmarks\<newline>\<newline>''
            @ ''### E2EE Handshake (ops/s, mean ms)\<newline>\<newline>''
            @ ''| Benchmark | ops/s (hz) | mean (ms) |\<newline>''
            @ ''| --- | ---: | ---: |\<newline>\<newline>\<newline>### E2EE Record (ops/s, mean ms)\<newline>\<newline>''
            @ ''| Benchmark | ops/s (hz) | mean (ms) |\<newline>''
            @ ''| --- | ---: | ---: |\<newline>| seal | 1024.50 | 0.0810 |\<newline>\<newline>''
            @ ''### Yamux (ops/s, mean ms)\<newline>\<newline>''
            @ ''| Benchmark | ops/s (hz) | mean (ms) |\<newline>''
            @ ''| --- | ---: | ---: |\<newline>\<newline>\<newline>## Load Generator (full mode)\<newline>\<newline>''
            @ ''### Summary\<newline>\<newline>| Metric | Value |\<newline>| --- | ---: |\<newline>''
            @ ''| attempts | 0 |\<newline>| success | 0 |\<newline>| failure | 0 |\<newline>''
            @ ''| success_rate | 0 |\<newline>| duration_seconds | 0.0000 |\<newline>''
            @ ''| peak_conn_per_sec | 0 |\<newline>| active_peak | 0 |\<newline>\<newline>### Config\<newline>\<newline>''
            @ ''| Key | Value |\<newline>| --- | --- |\<newline>\<newline>\<newline>### Latency (ms)\<newline>\<newline>''
            @ ''| Stage | p50 | p95 | p99 | mean | min | max |\<newline>''
            @ ''| --- | ---: | ---: | ---: | ---: | ---: | ---: |\<newline>''
            @ ''| ws_open | 0.000000 | 0.000000 | 0.000000 | 0.000000 | 0.000000 | 0.000000 |\<newline>''
            @ ''| attach_send | 0.000000 | 0.000000 | 0.000000 | 0.000000 | 0.000000 | 0.000000 |\<newline>''
            @ ''| pair_ready | 0.000000 | 0.000000 | 0.000000 | 0.000000 | 0.000000 | 0.000000 |\<newline>''
            @ ''| handshake | 0.000000 | 0.000000 | 0.000000 | 0.000000 | 0.000000 | 0.000000 |\<newline>''
            @ ''| rpc_call | 0.000000 | 0.000000 | 0.000000 | 0.000000 | 0.000000 | 0.000000 |\<newline>''
            @ ''\<newline>### Resources (peak)\<newline>\<newline>| Metric | Value |\<newline>| --- | ---: |\<newline>''
            @ ''| max_heap_alloc_bytes | 0 |\<newline>| max_heap_inuse_bytes | 0 |\<newline>''
            @ ''| max_sys_bytes | 0 |\<newline>| max_goroutines | 0 |\<newline>'')"
    unfolding g t a get_or_get_dict get_dict_Nil step_Inr ram_example(1)
      summary_table_empty config_table_empty latency_table_empty resources_table_empty
    by (auto simp: ram_example_Suc go_row_def ts_line_def env_lines_def example_args_def zero_summary_def zero_latency_def zero_resources_def)
qed

text \<open>
  Claim C8. Let the document of the load generator be a dict with no key \<open>resources\<close>.
  Then \<open>resources\<close> is taken as \<open>{}\<close> and the resources table is printed without an
  error: its body is the four rows of the four counters, each with the value \<open>0\<close>. The
  missing key adds no error to the report either: \<open>main\<close> writes a report exactly when
  the RAM figure and the three other tables of the load generator (summary, config,
  latency) can be printed, and the report is the text below, which ends with the heading
  and the two header lines of the resources table and those four rows.
\<close>

theorem missing_resources_renders_zero_rows:
  assumes "map_of kvs ''resources'' = None"
  shows "step (get_or (JDict kvs) ''resources'' (JDict [])) (resources_table py) =
       Inr ''| max_heap_alloc_bytes | 0 |\<newline>| max_heap_inuse_bytes | 0 |\<newline>| max_sys_bytes | 0 |\<newline>| max_goroutines | 0 |'' \<and>
     (main py a go_output ts_output (JDict kvs) = Inr doc \<longleftrightarrow>
      (\<exists>ram summary_tab config_tab latency_tab.
         float_of_string py (ram_bytes a) = Inr ram \<and>
         summary_table py (get_dict kvs ''summary'') = Inr summary_tab \<and>
         config_table py (get_dict kvs ''config'') = Inr config_tab \<and>
         latency_table py (get_dict kvs ''latency'') = Inr latency_tab \<and>
         doc = ''# Benchmark Results\<newline>\<newline>Run date: ''
              @ (if run_date a \<noteq> [] then run_date a else now_c py)
              @ ''\<newline>\<newline>## Environment\<newline>\<newline>''
              @ join ''\<newline>'' (env_lines a (format_fixed (ram_gb ram) 1))
              @ ''\<newline>\<newline>## Commands\<newline>\<newline>```bash\<newline># Go micro benches\<newline>''
              @ go_command a
              @ ''\<newline>\<newline># TS micro benches\<newline>''
              @ ts_command a
              @ ''\<newline>\<newline># Load generator (full mode, loopback)\<newline>''
              @ loadgen_command a
              @ ''\<newline>```\<newline>\<newline>## Go Benchmarks\<newline>\<newline>### E2EE (ns/op, B/op, allocs/op)\<newline>\<newline>''
              @ ''| Benchmark | ns/op | B/op | allocs/op |\<newline>''
              @ ''| --- | ---: | ---: | ---: |\<newline>''
              @ join ''\<newline>'' (map go_row (go_records ''e2ee'' [] (file_lines go_output)))
              @ ''\<newline>\<newline>### Tunnel Server Hot Path (ns/op, B/op, allocs/op)\<newline>\<newline>''
              @ ''| Benchmark | ns/op | B/op | allocs/op |\<newline>''
              @ ''| --- | ---: | ---: | ---: |\<newline>''
              @ join ''\<newline>'' (map go_row (go_records ''tunnel'' [] (file_lines go_output)))
              @ ''\<newline>\<newline>## TypeScript Benchmarks\<newline>\<newline>''
              @ ''### E2EE Handshake (ops/s, mean ms)\<newline>\<newline>''
              @ ''| Benchmark | ops/s (hz) | mean (ms) |\<newline>''
              @ ''| --- | ---: | ---: |\<newline>''
              @ join ''\<newline>'' (map ts_line (ts_records ''handshake'' None (file_lines ts_output)))
              @ ''\<newline>\<newline>### E2EE Record (ops/s, mean ms)\<newline>\<newline>''
              @ ''| Benchmark | ops/s (hz) | mean (ms) |\<newline>''
              @ ''| --- | ---: | ---: |\<newline>''
              @ join ''\<newline>'' (map ts_line (ts_records ''record'' None (file_lines ts_output)))
              @ ''\<newline>\<newline>### Yamux (ops/s, mean ms)\<newline>\<newline>''
              @ ''| Benchmark | ops/s (hz) | mean (ms) |\<newline>''
              @ ''| --- | ---: | ---: |\<newline>''
              @ join ''\<newline>'' (map ts_line (ts_records ''yamux'' None (file_lines ts_output)))
              @ ''\<newline>\<newline>## Load Generator (full mode)\<newline>\<newline>### Summary\<newline>\<newline>''
              @ ''| Metric | Value |\<newline>| --- | ---: |\<newline>''
              @ summary_tab
              @ ''\<newline>\<newline>### Config\<newline>\<newline>| Key | Value |\<newline>| --- | --- |\<newline>''
              @ config_tab
              @ ''\<newline>\<newline>### Latency (ms)\<newline>\<newline>''
              @ ''| Stage | p50 | p95 | p99 | mean | min | max |\<newline>''
              @ ''| --- | ---: | ---: | ---: | ---: | ---: | ---: |\<newline>''
              @ latency_tab
              @ ''\<newline>\<newline>### Resources (peak)\<newline>\<newline>| Metric | Value |\<newline>| --- | ---: |\<newline>''
              @ ''| max_heap_alloc_bytes | 0 |\<newline>| max_heap_inuse_bytes | 0 |\<newline>''
              @ ''| max_sys_bytes | 0 |\<newline>| max_goroutines | 0 |\<newline>''))"
proof -
  from assms have r: "get_dict kvs ''resources'' = JDict []"
    by (simp add: get_dict_def)
  show ?thesis
    unfolding main_layout_iff get_or_get_dict step_Inr r resources_table_empty zero_resources_def
    by auto
qed

theorem missing_resources_renders_zero_rows_witness:
  "\<forall>py. main py example_args [] [] (JDict [(''summary'', JDict [(''attempts'', JInt 3)])]) =
     Inr (''# Benchmark Results\<newline>\<newline>Run date: Mon Jan  1 12:00:00 2024\<newline>\<newline>''
            @ ''## Environment\<newline>\<newline>- OS: Linux\<newline>- CPU: x86_64\<newline>- RAM: 16.0 GB\<newline>''
            @ ''- Go: go1.22\<newline>- Node: v20.11.0\<newline>- Constraints used:\<newline>''
            @ ''  - Go: `GOMAXPROCS=4`, `GOMEMLIMIT=2GiB`\<newline>''
            @ ''  - Node: `NODE_OPTIONS=--max-old-space-size=2048`\<newline>\<newline>''
            @ ''## Commands\<newline>\<newline>```bash\<newline># Go micro benches\<newline>go test -bench .\<newline>\<newline>''
            @ ''# TS micro benches\<newline>npm run bench\<newline>\<newline>''
            @ ''# Load generator (full mode, loopback)\<newline>loadgen --mode full\<newline>''
            @ ''```\<newline>\<newline>## Go Benchmarks\<newline>\<newline>### E2EE (ns/op, B/op, allocs/op)\<newline>\<newline>''
            @ ''| Benchmark | ns/op | B/op | allocs/op |\<newline>''
            @ ''| --- | ---: | ---: | ---: |\<newline>\<newline>\<newline>''
            @ ''### Tunnel Server Hot Path (ns/op, B/op, allocs/op)\<newline>\<newline>''
            @ ''| Benchmark | ns/op | B/op | allocs/op |\<newline>''
            @ ''| --- | ---: | ---: | ---: |\<newline>\<newline>\<newline>## TypeScript Benchmarks\<newline>\<newline>''
            @ ''### E2EE Handshake (ops/s, mean ms)\<newline>\<newline>''
            @ ''| Benchmark | ops/s (hz) | mean (ms) |\<newline>''
            @ ''| --- | ---: | ---: |\<newline>\<newline>\<newline>### E2EE Record (ops/s, mean ms)\<newline>\<newline>''
            @ ''| Benchmark | ops/s (hz) | mean (ms) |\<newline>''
            @ ''| --- | ---: | ---: |\<newline>\<newline>\<newline>### Yamux (ops/s, mean ms)\<newline>\<newline>''
            @ ''| Benchmark | ops/s (hz) | mean (ms) |\<newline>''
            @ ''| --- | ---: | ---: |\<newline>\<newline>\<newline>## Load Generator (full mode)\<newline>\<newline>''
            @ ''### Summary\<newline>\<newline>| Metric | Value |\<newline>| --- | ---: |\<newline>''
            @ ''| attempts | 3 |\<newline>| success | 0 |\<newline>| failure | 0 |\<newline>''
            @ ''| success_rate | 0 |\<newline>| duration_seconds | 0.0000 |\<newline>''
            @ ''| peak_conn_per_sec | 0 |\<newline>| active_peak | 0 |\<newline>\<newline>### Config\<newline>\<newline>''
            @ ''| Key | Value |\<newline>| --- | --- |\<newline>\<newline>\<newline>### Latency (ms)\<newline>\<newline>''
            @ ''| Stage | p50 | p95 | p99 | mean | min | max |\<newline>''
            @ ''| --- | ---: | ---: | ---: | ---: | ---: | ---: |\<newline>''
            @ ''| ws_open | 0.000000 | 0.000000 | 0.000000 | 0.000000 | 0.000000 | 0.000000 |\<newline>''
            @ ''| attach_send | 0.000000 | 0.000000 | 0.000000 | 0.000000 | 0.000000 | 0.000000 |\<newline>''
            @ ''| pair_ready | 0.000000 | 0.000000 | 0.000000 | 0.000000 | 0.000000 | 0.000000 |\<newline>''
            @ ''| handshake | 0.000000 | 0.000000 | 0.000000 | 0.000000 | 0.000000 | 0.000000 |\<newline>''
            @ ''| rpc_call | 0.000000 | 0.000000 | 0.000000 | 0.000000 | 0.000000 | 0.000000 |\<newline>''
            @ ''\<newline>### Resources (peak)\<newline>\<newline>| Metric | Value |\<newline>| --- | ---: |\<newline>''
            @ ''| max_heap_alloc_bytes | 0 |\<newline>| max_heap_inuse_bytes | 0 |\<newline>''
            @ ''| max_sys_bytes | 0 |\<newline>| max_goroutines | 0 |\<newline>'')"
proof
  fix py
  have m: "map_of [(''summary'', JDict [(''attempts'', JInt 3)])] ''resources'' = None"
    by simp
  have g: "go_records ''e2ee'' [] (file_lines []) = []"
    "go_records ''tunnel'' [] (file_lines []) = []"
    "ts_records ''handshake'' None (file_lines []) = []"
    "ts_records ''record'' None (file_lines []) = []"
    "ts_records ''yamux'' None (file_lines []) = []"
    by code_simp+
  have a: "ram_bytes example_args = ''17179869184''"
    "run_date example_args = ''Mon Jan  1 12:00:00 2024''"
    "go_command example_args = ''go test -bench .''"
    "ts_command example_args = ''npm run bench''"
    "loadgen_command example_args = ''loadgen --mode full''"
    by (simp_all add: example_args_def)
  have d: "get_dict [(''summary'', JDict [(''attempts'', JInt 3)])] ''summary'' = JDict [(''attempts'', JInt 3)]"
    "get_dict [(''summary'', JDict [(''attempts'', JInt 3)])] ''config'' = JDict []"
    "get_dict [(''summary'', JDict [(''attempts'', JInt 3)])] ''latency'' = JDict []"
    by (simp_all add: get_dict_def)
  have s: "summary_table py (JDict [(''attempts'', JInt 3)]) =
      Inr ''| attempts | 3 |\<newline>| success | 0 |\<newline>| failure | 0 |\<newline>| success_rate | 0 |\<newline>| duration_seconds | 0.0000 |\<newline>| peak_conn_per_sec | 0 |\<newline>| active_peak | 0 |''"
    by (simp add: summary_table_iff get0_def py_float_zero format_fixed_zero py_str_def
        str_int_def num_eval)
  from missing_resources_renders_zero_rows [OF m, of py example_args "[]" "[]"]
  show "main py example_args [] [] (JDict [(''summary'', JDict [(''attempts'', JInt 3)])]) =
     Inr (''# Benchmark Results\<newline>\<newline>Run date: Mon Jan  1 12:00:00 2024\<newline>\<newline>''
            @ ''## Environment\<newline>\<newline>- OS: Linux\<newline>- CPU: x86_64\<newline>- RAM: 16.0 GB\<newline>''
            @ ''- Go: go1.22\<newline>- Node: v20.11.0\<newline>- Constraints used:\<newline>''
            @ ''  - Go: `GOMAXPROCS=4`, `GOMEMLIMIT=2GiB`\<newline>''
            @ ''  - Node: `NODE_OPTIONS=--max-old-space-size=2048`\<newline>\<newline>''
            @ ''## Commands\<newline>\<newline>```bash\<newline># Go micro benches\<newline>go test -bench .\<newline>\<newline>''
            @ ''# TS micro benches\<newline>npm run bench\<newline>\<newline>''
            @ ''# Load generator (full mode, loopback)\<newline>loadgen --mode full\<newline>''
            @ ''```\<newline>\<newline>## Go Benchmarks\<newline>\<newline>### E2EE (ns/op, B/op, allocs/op)\<newline>\<newline>''
            @ ''| Benchmark | ns/op | B/op | allocs/op |\<newline>''
            @ ''| --- | ---: | ---: | ---: |\<newline>\<newline>\<newline>''
            @ ''### Tunnel Server Hot Path (ns/op, B/op, allocs/op)\<newline>\<newline>''
            @ ''| Benchmark | ns/op | B/op | allocs/op |\<newline>''
            @ ''| --- | ---: | ---: | ---: |\<newline>\<newline>\<newline>## TypeScript Benchmarks\<newline>\<newline>''
            @ ''### E2EE Handshake (ops/s, mean ms)\<newline>\<newline>''
            @ ''| Benchmark | ops/s (hz) | mean (ms) |\<newline>''
            @ ''| --- | ---: | ---: |\<newline>\<newline>\<newline>### E2EE Record (ops/s, mean ms)\<newline>\<newline>''
            @ ''| Benchmark | ops/s (hz) | mean (ms) |\<newline>''
            @ ''| --- | ---: | ---: |\<newline>\<newline>\<newline>### Yamux (ops/s, mean ms)\<newline>\<newline>''
            @ ''| Benchmark | ops/s (hz) | mean (ms) |\<newline>''
            @ ''| --- | ---: | ---: |\<newline>\<newline>\<newline>## Load Generator (full mode)\<newline>\<newline>''
            @ ''### Summary\<newline>\<newline>| Metric | Value |\<newline>| --- | ---: |\<newline>''
            @ ''| attempts | 3 |\<newline>| success | 0 |\<newline>| failure | 0 |\<newline>''
            @ ''| success_rate | 0 |\<newline>| duration_seconds | 0.0000 |\<newline>''
            @ ''| peak_conn_per_sec | 0 |\<newline>| active_peak | 0 |\<newline>\<newline>### Config\<newline>\<newline>''
            @ ''| Key | Value |\<newline>| --- | --- |\<newline>\<newline>\<newline>### Latency (ms)\<newline>\<newline>''
            @ ''| Stage | p50 | p95 | p99 | mean | min | max |\<newline>''
            @ ''| --- | ---: | ---: | ---: | ---: | ---: | ---: |\<newline>''
            @ ''| ws_open | 0.000000 | 0.000000 | 0.000000 | 0.000000 | 0.000000 | 0.000000 |\<newline>''
            @ ''| attach_send | 0.000000 | 0.000000 | 0.000000 | 0.000000 | 0.000000 | 0.000000 |\<newline>''
            @ ''| pair_ready | 0.000000 | 0.000000 | 0.000000 | 0.000000 | 0.000000 | 0.000000 |\<newline>''
            @ ''| handshake | 0.000000 | 0.000000 | 0.000000 | 0.000000 | 0.000000 | 0.000000 |\<newline>''
            @ ''| rpc_call | 0.000000 | 0.000000 | 0.000000 | 0.000000 | 0.000000 | 0.000000 |\<newline>''
            @ ''\<newline>### Resources (peak)\<newline>\<newline>| Metric | Value |\<newline>| --- | ---: |\<newline>''
            @ ''| max_heap_alloc_bytes | 0 |\<newline>| max_heap_inuse_bytes | 0 |\<newline>''
            @ ''| max_sys_bytes | 0 |\<newline>| max_goroutines | 0 |\<newline>'')"
    unfolding g a d ram_example(1) s config_table_empty latency_table_empty
    by (simp add: ram_example_Suc env_lines_def example_args_def zero_summary_def zero_latency_def zero_resources_def)
qed

end
